theory Spec2Isabelle
  imports Complex_Main "HOL-Library.Sublist"
begin

section \<open>Python values used by the service\<close>

text \<open>
  An exception raised by the service. \<open>Video.DoesNotExist\<close> has a handler of its own in
  every task, so it is a constructor of its own; every other exception is recorded by the
  name of its class and its message, which is what \<open>str(e)\<close> returns.
\<close>

datatype exn = VideoDoesNotExist | Exc string string

fun exn_str :: "exn \<Rightarrow> string" where
  "exn_str VideoDoesNotExist = ''Video matching query does not exist.''"
| "exn_str (Exc c m) = m"

text \<open>\<open>a or b\<close> on an optional string: \<open>None\<close> and the empty string are falsy.\<close>

fun py_or :: "string option \<Rightarrow> string \<Rightarrow> string" where
  "py_or None d = d"
| "py_or (Some s) d = (if s = [] then d else s)"

text \<open>Python floats are modelled by the reals: \<open>/\<close> raises on a zero divisor.\<close>

definition py_truediv :: "real \<Rightarrow> real \<Rightarrow> exn + real" where
  "py_truediv a b =
     (if b = 0 then Inl (Exc ''ZeroDivisionError'' ''float division by zero'')
      else Inr (a / b))"

definition py_mod :: "int \<Rightarrow> int \<Rightarrow> exn + int" where
  "py_mod a b =
     (if b = 0 then Inl (Exc ''ZeroDivisionError'' ''integer modulo by zero'')
      else Inr (a mod b))"

text \<open>\<open>int(x)\<close> of a float truncates towards zero.\<close>

definition py_int :: "real \<Rightarrow> int" where
  "py_int x = (if 0 \<le> x then \<lfloor>x\<rfloor> else \<lceil>x\<rceil>)"

subsection \<open>Decimal and hexadecimal text\<close>

definition digit_char :: "nat \<Rightarrow> char" where
  "digit_char d = ''0123456789abcdef'' ! (d mod 16)"

fun digits10 :: "nat \<Rightarrow> string" where
  "digits10 n = (if n < 10 then [digit_char n] else digits10 (n div 10) @ [digit_char (n mod 10)])"

declare digits10.simps [simp del]

definition str_int :: "int \<Rightarrow> string" where
  "str_int i = (if i < 0 then CHR ''-'' # digits10 (nat (- i)) else digits10 (nat i))"

text \<open>The format \<open>{n:06d}\<close> of a non-negative number: at least six digits, zero padded.\<close>

definition fmt_06d :: "nat \<Rightarrow> string" where
  "fmt_06d n = replicate (6 - length (digits10 n)) CHR ''0'' @ digits10 n"

text \<open>
  \<open>uuid.uuid4().hex\<close>: the 32 lower-case hexadecimal digits of a 128-bit number, most
  significant digit first (digit \<open>i\<close> is worth \<open>16 ^ (31 - i)\<close>; a number is read modulo
  \<open>2 ^ 128\<close>).
\<close>

definition uuid_hex :: "nat \<Rightarrow> string" where
  "uuid_hex u = map (\<lambda>i. digit_char ((u div 16 ^ (31 - i)) mod 16)) [0..<32]"

subsection \<open>Paths (posixpath)\<close>

text \<open>\<open>s.rfind(c)\<close>: the index of the last occurrence of \<open>c\<close>, or \<open>-1\<close>.\<close>

definition rfind :: "char \<Rightarrow> string \<Rightarrow> int" where
  "rfind c s =
     (if c \<in> set s then int (length s) - 1 - int (length (takeWhile (\<lambda>x. x \<noteq> c) (rev s)))
      else - 1)"

definition basename :: "string \<Rightarrow> string" where
  "basename p = drop (nat (rfind CHR ''/'' p + 1)) p"

text \<open>
  \<open>os.path.dirname\<close>: what stands before the last slash, with that slash; trailing slashes
  are then stripped unless there is nothing but slashes.
\<close>

definition dirname :: "string \<Rightarrow> string" where
  "dirname p =
     (let i = nat (rfind CHR ''/'' p + 1);
          head = take i p
      in if head \<noteq> [] \<and> head \<noteq> replicate (length head) CHR ''/''
         then rev (dropWhile (\<lambda>c. c = CHR ''/'') (rev head))
         else head)"

text \<open>
  \<open>os.path.splitext\<close>: the extension starts at the last dot of the last component, unless
  that component has nothing but dots before it.
\<close>

definition splitext :: "string \<Rightarrow> string \<times> string" where
  "splitext p =
     (let sepIndex = rfind CHR ''/'' p; dotIndex = rfind CHR ''.'' p
      in if dotIndex > sepIndex
            \<and> list_ex (\<lambda>c. c \<noteq> CHR ''.'')
                 (take (nat (dotIndex - (sepIndex + 1))) (drop (nat (sepIndex + 1)) p))
         then (take (nat dotIndex) p, drop (nat dotIndex) p)
         else (p, []))"

text \<open>\<open>os.path.join(a, b)\<close> for two components.\<close>

definition path_join :: "string \<Rightarrow> string \<Rightarrow> string" where
  "path_join a b =
     (if b \<noteq> [] \<and> hd b = CHR ''/'' then b
      else if a = [] \<or> last a = CHR ''/'' then a @ b
      else a @ ''/'' @ b)"

subsection \<open>Values that \<open>json.dump\<close> accepts, and JSON documents\<close>

text \<open>
  A float is represented by its \<open>repr\<close>, the text \<open>json\<close> writes for it and parses back to
  the same float. \<open>PObject\<close> stands for any value \<open>json\<close> has no encoding for (a set, a
  datetime, ...). A dictionary is the list of its items in insertion order.
\<close>

datatype pyval =
    PNone
  | PBool bool
  | PInt int
  | PFloat string
  | PStr string
  | PList "pyval list"
  | PTuple "pyval list"
  | PDict "(pyval \<times> pyval) list"
  | PObject string

datatype json =
    JNull
  | JBool bool
  | JInt int
  | JFloat string
  | JString string
  | JArray "json list"
  | JObject "(string \<times> json) list"

text \<open>
  The key of a JSON object written for a dictionary key: \<open>str\<close> keys as they are, \<open>int\<close>,
  \<open>float\<close>, \<open>bool\<close> and \<open>None\<close> keys as their JSON text; any other key is a \<open>TypeError\<close>.
  The JSON text of a float is its \<open>repr\<close>, except for the three floats that are not finite,
  which are written \<open>Infinity\<close>, \<open>-Infinity\<close> and \<open>NaN\<close>.
\<close>

definition float_text :: "string \<Rightarrow> string" where
  "float_text r =
     (if r = ''inf'' then ''Infinity''
      else if r = ''-inf'' then ''-Infinity''
      else if r = ''nan'' then ''NaN''
      else r)"

fun json_key :: "pyval \<Rightarrow> string option" where
  "json_key (PStr s) = Some s"
| "json_key (PInt i) = Some (str_int i)"
| "json_key (PFloat r) = Some (float_text r)"
| "json_key (PBool b) = Some (if b then ''true'' else ''false'')"
| "json_key PNone = Some ''null''"
| "json_key _ = None"

text \<open>\<open>json.dump\<close>: \<open>None\<close> is the \<open>TypeError\<close> of a value that is not serializable.\<close>

fun json_dump :: "pyval \<Rightarrow> json option"
  and json_dump_list :: "pyval list \<Rightarrow> json list option"
  and json_dump_items :: "(pyval \<times> pyval) list \<Rightarrow> (string \<times> json) list option"
where
  "json_dump PNone = Some JNull"
| "json_dump (PBool b) = Some (JBool b)"
| "json_dump (PInt i) = Some (JInt i)"
| "json_dump (PFloat r) = Some (JFloat r)"
| "json_dump (PStr s) = Some (JString s)"
| "json_dump (PList xs) = map_option JArray (json_dump_list xs)"
| "json_dump (PTuple xs) = map_option JArray (json_dump_list xs)"
| "json_dump (PDict kvs) = map_option JObject (json_dump_items kvs)"
| "json_dump (PObject n) = None"
| "json_dump_list [] = Some []"
| "json_dump_list (x # xs) =
     (case json_dump x of None \<Rightarrow> None
      | Some j \<Rightarrow> (case json_dump_list xs of None \<Rightarrow> None | Some js \<Rightarrow> Some (j # js)))"
| "json_dump_items [] = Some []"
| "json_dump_items (kv # kvs) =
     (case json_key (fst kv) of None \<Rightarrow> None
      | Some k \<Rightarrow>
         (case json_dump (snd kv) of None \<Rightarrow> None
          | Some j \<Rightarrow>
             (case json_dump_items kvs of None \<Rightarrow> None | Some js \<Rightarrow> Some ((k, j) # js))))"

text \<open>
  \<open>d[k] = v\<close> on a dictionary kept as its item list: an existing key keeps its place and
  takes the new value, a new key goes last.
\<close>

fun dict_set :: "('k \<times> 'v) list \<Rightarrow> 'k \<Rightarrow> 'v \<Rightarrow> ('k \<times> 'v) list" where
  "dict_set [] k v = [(k, v)]"
| "dict_set ((k', v') # d) k v = (if k' = k then (k, v) # d else (k', v') # dict_set d k v)"

text \<open>\<open>json.load\<close>: arrays become lists, objects become dictionaries with \<open>str\<close> keys.\<close>

fun json_load :: "json \<Rightarrow> pyval"
  and json_load_list :: "json list \<Rightarrow> pyval list"
  and json_load_items :: "(string \<times> json) list \<Rightarrow> (pyval \<times> pyval) list \<Rightarrow> (pyval \<times> pyval) list"
where
  "json_load JNull = PNone"
| "json_load (JBool b) = PBool b"
| "json_load (JInt i) = PInt i"
| "json_load (JFloat r) = PFloat r"
| "json_load (JString s) = PStr s"
| "json_load (JArray js) = PList (json_load_list js)"
| "json_load (JObject kjs) = PDict (json_load_items kjs [])"
| "json_load_list [] = []"
| "json_load_list (j # js) = json_load j # json_load_list js"
| "json_load_items [] d = d"
| "json_load_items (kj # kjs) d = json_load_items kjs (dict_set d (PStr (fst kj)) (json_load (snd kj)))"

section \<open>The world the service runs in\<close>

subsection \<open>Frames, detections and video files\<close>

text \<open>
  One entry of the \<open>objects\<close> list that \<open>_process_frame\<close> builds: the class name, the
  confidence and the \<open>bbox\<close> dictionary with its keys \<open>x\<close>, \<open>y\<close>, \<open>width\<close>, \<open>height\<close>.
\<close>

record detection =
  det_class :: string
  det_confidence :: real
  bbox_x :: real
  bbox_y :: real
  bbox_width :: real
  bbox_height :: real

text \<open>
  A decoded frame: its pixels (opaque), and the detections \<open>_draw_detections\<close> has drawn
  on it, in the order drawn.
\<close>

datatype frame = Frame (pixels: nat) (overlays: "detection list")

text \<open>
  What \<open>cv2.VideoCapture\<close> finds in a video file: the four properties the service reads
  (each a float, as \<open>cap.get\<close> returns it) and the frames in order. A frame that the
  decoder cannot decode is \<open>None\<close>.
\<close>

record container =
  prop_fps :: real
  prop_frame_count :: real
  prop_frame_width :: real
  prop_frame_height :: real
  stream :: "frame option list"

datatype filedata =
    VideoFile container
  | ImageFile frame
  | JsonFile json
  | OtherFile

subsection \<open>The relational store\<close>

text \<open>
  The rows of \<open>models.py\<close>. Timestamps are readings of the clock. A \<open>ProcessingTask\<close> row
  is identified by its \<open>celery_task_id\<close>, which is unique and never changed; the
  generated primary keys of the three dependent tables are not modelled.
\<close>

record video_row =
  v_title :: string
  v_description :: string
  v_video_file :: string
  v_uploaded_at :: nat
  v_status :: string
  v_processing_started_at :: "nat option"
  v_processing_completed_at :: "nat option"
  v_error_message :: string
  v_duration :: "real option"
  v_frame_count :: "int option"
  v_fps :: "real option"
  v_resolution :: string
  v_file_size :: "nat option"
  v_minio_bucket :: string
  v_minio_key :: string
  v_processed_minio_key :: string

record task_row =
  t_video :: string
  t_task_type :: string
  t_status :: string
  t_created_at :: nat
  t_started_at :: "nat option"
  t_completed_at :: "nat option"
  t_error_message :: string
  t_progress :: int

record processed_frame_row =
  pf_video :: string
  pf_frame_number :: nat
  pf_objects_detected :: nat
  pf_processing_time :: "real option"
  pf_minio_key :: string

record detected_object_row =
  do_video :: string
  do_frame_number :: nat
  do_object_class :: string
  do_confidence :: real
  do_bbox_x :: real
  do_bbox_y :: real
  do_bbox_width :: real
  do_bbox_height :: real
  do_detected_at :: nat

subsection \<open>The state\<close>

text \<open>
  Everything a call can change: the regular files of the local file system, the MinIO
  buckets, the four tables, the log of every version of a \<open>ProcessingTask\<close> row written
  (by \<open>create\<close> or \<open>save\<close>, oldest first, with the row's \<open>celery_task_id\<close>), the clock,
  the number of capture and writer handles that are open, and how many random names have
  been drawn. Directories are not part of the state: whether one can be made is for the
  environment to say.
\<close>

record world =
  fs :: "string \<rightharpoonup> filedata"
  blobs :: "(string \<times> string) \<rightharpoonup> filedata"
  videos :: "string \<rightharpoonup> video_row"
  tasks :: "string \<rightharpoonup> task_row"
  processed_frames :: "processed_frame_row list"
  detected_objects :: "detected_object_row list"
  task_writes :: "(string \<times> task_row) list"
  clock :: nat
  open_handles :: nat
  draws :: nat

subsection \<open>What the service does not control\<close>

text \<open>
  The settings, and the behaviour of the libraries and services behind the calls: whether
  the weights load, what the model returns for a frame (a list of results, each with its
  \<open>boxes\<close> or \<open>None\<close>) or the exception it raises, how long it takes, the class names bound
  to the model, whether MinIO is reachable and whether a transfer fails, the \<open>OSError\<close>
  that making a directory meets, if any (no permission, a file in the place of a parent,
  a file system that is full or read-only; none for a directory that exists), the random
  numbers and temporary names drawn, and the size in bytes of a file. A library's
  exception is a class name and a message.
\<close>

record raw_box =
  xyxy :: "real \<times> real \<times> real \<times> real"
  cls :: real
  conf :: real

record env =
  MEDIA_ROOT :: string
  MINIO_BUCKET_NAME :: string
  yolo_load_error :: "(string \<times> string) option"
  model_call :: "frame \<Rightarrow> (string \<times> string) + raw_box list option list"
  model_seconds :: "frame \<Rightarrow> real"
  video_seconds :: real
  model_names :: "int \<rightharpoonup> string"
  minio_connect_error :: "(string \<times> string) option"
  fput_error :: "string \<Rightarrow> string \<Rightarrow> (string \<times> string) option"
  fget_error :: "string \<Rightarrow> string \<Rightarrow> (string \<times> string) option"
  mkdir_error :: "string \<Rightarrow> (string \<times> string) option"
  uuid4 :: "nat \<Rightarrow> nat"
  temp_name :: "nat \<Rightarrow> string"
  getsize :: "filedata \<Rightarrow> nat"

text \<open>\<open>timezone.now()\<close>: every reading of the clock advances it.\<close>

definition now :: "world \<Rightarrow> nat \<times> world" where
  "now w = (clock w, w\<lparr>clock := clock w + 1\<rparr>)"

text \<open>\<open>uuid.uuid4()\<close>: the next random number.\<close>

definition next_uuid :: "env \<Rightarrow> world \<Rightarrow> nat \<times> world" where
  "next_uuid e w = (uuid4 e (draws w), w\<lparr>draws := draws w + 1\<rparr>)"

text \<open>
  \<open>tempfile.NamedTemporaryFile(suffix=..., delete=False)\<close>: a new empty file under a
  random name in the temporary directory.
\<close>

definition named_temporary_file :: "env \<Rightarrow> world \<Rightarrow> string \<Rightarrow> string \<times> world" where
  "named_temporary_file e w sfx =
     (let p = ''/tmp/tmp'' @ temp_name e (draws w) @ sfx
      in (p, w\<lparr>fs := (fs w)(p \<mapsto> OtherFile), draws := draws w + 1\<rparr>))"

definition unlink :: "world \<Rightarrow> string \<Rightarrow> world" where
  "unlink w p = w\<lparr>fs := (fs w)(p := None)\<rparr>"

text \<open>
  \<open>os.makedirs(name, exist_ok=True)\<close>. The empty name is a \<open>FileNotFoundError\<close> and a
  regular file at \<open>name\<close> a \<open>FileExistsError\<close>; otherwise the directory is there
  afterwards, unless the operating system refuses. The message of an \<open>OSError\<close> ends with
  the \<open>repr\<close> of the name, written here for a name without quotes, backslashes or control
  characters.
\<close>

definition py_repr :: "string \<Rightarrow> string" where
  "py_repr s = [CHR 0x27] @ s @ [CHR 0x27]"

definition makedirs :: "env \<Rightarrow> world \<Rightarrow> string \<Rightarrow> exn option" where
  "makedirs e w name =
     (if name = []
      then Some (Exc ''FileNotFoundError'' (''[Errno 2] No such file or directory: '' @ py_repr name))
      else if fs w name \<noteq> None
      then Some (Exc ''FileExistsError'' (''[Errno 17] File exists: '' @ py_repr name))
      else (case mkdir_error e name of
              Some (c, m) \<Rightarrow> Some (Exc c m)
            | None \<Rightarrow> None))"

section \<open>minio\_client.py\<close>

text \<open>
  \<open>MinIOClient()\<close>: connecting and providing the buckets can fail with an exception that
  is not an \<open>S3Error\<close> (those are logged and swallowed by \<open>_ensure_buckets_exist\<close>).
\<close>

definition MinIOClient_init :: "env \<Rightarrow> exn option" where
  "MinIOClient_init e =
     (case minio_connect_error e of
        None \<Rightarrow> None
      | Some (c, m) \<Rightarrow> if c = ''S3Error'' then None else Some (Exc c m))"

text \<open>
  \<open>upload_file(file_path, bucket_name, object_name)\<close>. The result is the returned key or
  the exception raised.
\<close>

definition upload_file ::
  "env \<Rightarrow> world \<Rightarrow> string \<Rightarrow> string option \<Rightarrow> string option \<Rightarrow> (exn + string) \<times> world" where
  "upload_file e w file_path bucket_name object_name =
     (case fs w file_path of
        None \<Rightarrow> (Inl (Exc ''FileNotFoundError'' (''File not found: '' @ file_path)), w)
      | Some f \<Rightarrow>
          let bucket = py_or bucket_name (MINIO_BUCKET_NAME e);
              oname = py_or object_name (basename file_path);
              (oname', w1) =
                 (if oname = basename file_path
                  then let (name, ext) = splitext oname;
                           (u, w1) = next_uuid e w
                       in (name @ ''_'' @ take 8 (uuid_hex u) @ ext, w1)
                  else (oname, w))
          in case fput_error e bucket oname' of
               Some (c, m) \<Rightarrow> (Inl (Exc c m), w1)
             | None \<Rightarrow>
                 (Inr (bucket @ ''/'' @ oname'),
                  w1\<lparr>blobs := (blobs w1)((bucket, oname') \<mapsto> f)\<rparr>))"

text \<open>
  \<open>download_file(bucket_name, object_name, file_path)\<close>. The directory of \<open>file_path\<close>
  is made first; a name without a directory part is the empty name for \<open>os.makedirs\<close>.
  When a file stands at \<open>file_path\<close> already (as the temporary file of
  \<open>get_video_metadata\<close> does), its directory exists and is left as it is. An \<open>OSError\<close>
  of this step propagates, the handler being for \<open>S3Error\<close> only. An \<open>S3Error\<close> of the
  transfer (a missing object is one) is reported as \<open>False\<close>, any other exception
  propagates.
\<close>

definition download_file ::
  "env \<Rightarrow> world \<Rightarrow> string \<Rightarrow> string \<Rightarrow> string \<Rightarrow> (exn + bool) \<times> world" where
  "download_file e w bucket_name object_name file_path =
     (case (if dirname file_path \<noteq> [] \<and> fs w file_path \<noteq> None then None
            else makedirs e w (dirname file_path)) of
        Some ex \<Rightarrow> (Inl ex, w)
      | None \<Rightarrow>
          (case fget_error e bucket_name object_name of
             Some (c, m) \<Rightarrow> if c = ''S3Error'' then (Inr False, w) else (Inl (Exc c m), w)
           | None \<Rightarrow>
               (case blobs w (bucket_name, object_name) of
                  None \<Rightarrow> (Inr False, w)
                | Some f \<Rightarrow> (Inr True, w\<lparr>fs := (fs w)(file_path \<mapsto> f)\<rparr>))))"

text \<open>
  \<open>upload_video_metadata(video_id, metadata)\<close>. \<open>json.dump\<close> runs inside the \<open>with\<close> block,
  before the \<open>try\<close>: when it raises, the \<open>finally\<close> that unlinks the file is not reached.
\<close>

definition upload_video_metadata ::
  "env \<Rightarrow> world \<Rightarrow> string \<Rightarrow> pyval \<Rightarrow> (exn + string) \<times> world" where
  "upload_video_metadata e w video_id metadata =
     (let (temp_path, w1) = named_temporary_file e w ''.json''
      in case json_dump metadata of
           None \<Rightarrow> (Inl (Exc ''TypeError'' ''Object is not JSON serializable''), w1)
         | Some doc \<Rightarrow>
             let w2 = w1\<lparr>fs := (fs w1)(temp_path \<mapsto> JsonFile doc)\<rparr>;
                 object_name = ''metadata/'' @ video_id @ ''.json'';
                 (r, w3) = upload_file e w2 temp_path (Some (MINIO_BUCKET_NAME e)) (Some object_name)
             in (r, unlink w3 temp_path))"

text \<open>
  \<open>get_video_metadata(video_id)\<close> of the MinIO client: the dictionary, or \<open>None\<close> when the
  download reports failure or anything raises. The \<open>finally\<close> unlinks the temporary file
  on every path.
\<close>

definition minio_get_video_metadata ::
  "env \<Rightarrow> world \<Rightarrow> string \<Rightarrow> pyval option \<times> world" where
  "minio_get_video_metadata e w video_id =
     (let object_name = ''metadata/'' @ video_id @ ''.json'';
          (temp_path, w1) = named_temporary_file e w []
      in case download_file e w1 (MINIO_BUCKET_NAME e) object_name temp_path of
           (Inl ex, w2) \<Rightarrow> (None, unlink w2 temp_path)
         | (Inr ok, w2) \<Rightarrow>
             if ok
             then (case fs w2 temp_path of
                     Some (JsonFile doc) \<Rightarrow> (Some (json_load doc), unlink w2 temp_path)
                   | _ \<Rightarrow> (None, unlink w2 temp_path))
             else (None, unlink w2 temp_path))"

section \<open>yolo\_processor.py\<close>

text \<open>\<open>YOLOProcessor()\<close>: a failure to load the weights is logged and raised again.\<close>

definition YOLOProcessor_init :: "env \<Rightarrow> exn option" where
  "YOLOProcessor_init e = (case yolo_load_error e of None \<Rightarrow> None | Some (c, m) \<Rightarrow> Some (Exc c m))"

subsection \<open>Results\<close>

text \<open>
  The dictionaries the processor returns, as records: the result for one frame, the
  \<open>video_metadata\<close> entry of \<open>process_video\<close>, the dictionary of \<open>get_video_metadata\<close> (the
  same five keys and two more), and the result of \<open>process_video\<close>.
\<close>

record frame_result =
  fr_frame_number :: nat
  fr_objects :: "detection list"
  fr_processing_time :: real
  fr_object_count :: nat

record video_metadata =
  md_fps :: real
  md_frame_count :: int
  md_width :: int
  md_height :: int
  md_duration :: real

record metadata = video_metadata +
  md_resolution :: string
  md_file_size :: nat

record results =
  r_total_frames :: int
  r_processed_frames :: nat
  r_detections :: "frame_result list"
  r_processing_time :: real
  r_video_metadata :: video_metadata

subsection \<open>\<open>_process_frame\<close>\<close>

text \<open>
  The body of the inner loop for one box: the corner coordinates become
  \<open>(x, y, width, height)\<close>, the class index is truncated to an integer and looked up in
  \<open>self.model.names\<close> (a missing index is a \<open>KeyError\<close>).
\<close>

definition box_detection :: "env \<Rightarrow> raw_box \<Rightarrow> exn + detection" where
  "box_detection e box =
     (let (x1, y1, x2, y2) = xyxy box;
          c = py_int (cls box)
      in case model_names e c of
           None \<Rightarrow> Inl (Exc ''KeyError'' (str_int c))
         | Some class_name \<Rightarrow>
             Inr \<lparr>det_class = class_name, det_confidence = conf box,
                  bbox_x = x1, bbox_y = y1, bbox_width = x2 - x1, bbox_height = y2 - y1\<rparr>)"

text \<open>\<open>for box in boxes\<close>, appending to the detections so far.\<close>

fun boxes_loop :: "env \<Rightarrow> raw_box list \<Rightarrow> detection list \<Rightarrow> exn + detection list" where
  "boxes_loop e [] detections = Inr detections"
| "boxes_loop e (box # boxes) detections =
     (case box_detection e box of
        Inl ex \<Rightarrow> Inl ex
      | Inr d \<Rightarrow> boxes_loop e boxes (detections @ [d]))"

text \<open>\<open>for result in results\<close>, skipping a result whose \<open>boxes\<close> is \<open>None\<close>.\<close>

fun results_loop :: "env \<Rightarrow> raw_box list option list \<Rightarrow> detection list \<Rightarrow> exn + detection list" where
  "results_loop e [] detections = Inr detections"
| "results_loop e (None # rs) detections = results_loop e rs detections"
| "results_loop e (Some boxes # rs) detections =
     (case boxes_loop e boxes detections of
        Inl ex \<Rightarrow> Inl ex
      | Inr detections' \<Rightarrow> results_loop e rs detections')"

definition process_frame :: "env \<Rightarrow> frame \<Rightarrow> nat \<Rightarrow> exn + frame_result" where
  "process_frame e fr frame_number =
     (case model_call e fr of
        Inl (c, m) \<Rightarrow> Inl (Exc c m)
      | Inr rs \<Rightarrow>
          (case results_loop e rs [] of
             Inl ex \<Rightarrow> Inl ex
           | Inr detections \<Rightarrow>
               Inr \<lparr>fr_frame_number = frame_number, fr_objects = detections,
                    fr_processing_time = model_seconds e fr,
                    fr_object_count = length detections\<rparr>))"

text \<open>\<open>_draw_detections\<close> draws every detection on the frame, in order.\<close>

definition draw_detections :: "frame \<Rightarrow> detection list \<Rightarrow> frame" where
  "draw_detections fr detections = Frame (pixels fr) (overlays fr @ detections)"

subsection \<open>\<open>get_video_metadata\<close>\<close>

text \<open>
  The duration as both \<open>get_video_metadata\<close> and \<open>process_video\<close> compute it:
  \<open>frame_count / fps if fps > 0 else 0\<close>.
\<close>

definition duration_of :: "int \<Rightarrow> real \<Rightarrow> exn + real" where
  "duration_of frame_count fps = (if fps > 0 then py_truediv (real_of_int frame_count) fps else Inr 0)"

text \<open>
  Opening a capture on a file that is a video takes a handle; \<open>release\<close> gives one back.
  On any other file \<open>isOpened()\<close> is false and no handle is held.
\<close>

definition acquire :: "world \<Rightarrow> world" where
  "acquire w = w\<lparr>open_handles := open_handles w + 1\<rparr>"

definition release :: "world \<Rightarrow> world" where
  "release w = w\<lparr>open_handles := open_handles w - 1\<rparr>"

definition get_video_metadata :: "env \<Rightarrow> world \<Rightarrow> string \<Rightarrow> (exn + metadata) \<times> world" where
  "get_video_metadata e w video_path =
     (case fs w video_path of
        None \<Rightarrow> (Inl (Exc ''FileNotFoundError'' (''Video file not found: '' @ video_path)), w)
      | Some f \<Rightarrow>
          (case f of
             VideoFile c \<Rightarrow>
               let w1 = acquire w;
                   fps = prop_fps c;
                   frame_count = py_int (prop_frame_count c);
                   width = py_int (prop_frame_width c);
                   height = py_int (prop_frame_height c);
                   r = (case duration_of frame_count fps of
                          Inl ex \<Rightarrow> Inl ex
                        | Inr duration \<Rightarrow>
                            Inr \<lparr>md_fps = fps, md_frame_count = frame_count, md_width = width,
                                 md_height = height, md_duration = duration,
                                 md_resolution = str_int width @ ''x'' @ str_int height,
                                 md_file_size = getsize e f\<rparr>)
               in (r, release w1)
           | _ \<Rightarrow> (Inl (Exc ''ValueError'' (''Could not open video file: '' @ video_path)), w)))"

subsection \<open>\<open>process_video\<close>\<close>

text \<open>
  The \<open>while True\<close> loop. Its arguments are what \<open>cap.read()\<close> has still to deliver, the
  frame number, the detections and the count of processed frames so far, and the frames
  written to the output video so far; \<open>out\<close> says whether there is an output path (and so
  a writer). The result is the exception that left the loop, if any, with the three
  accumulators. \<open>cap.read()\<close> returns \<open>ret = False\<close> at the end of the stream and at a frame
  that cannot be decoded; both leave the loop by \<open>break\<close>.
\<close>

fun process_video_loop ::
  "env \<Rightarrow> bool \<Rightarrow> int \<Rightarrow> frame option list \<Rightarrow> nat \<Rightarrow> frame_result list \<Rightarrow> nat \<Rightarrow> frame list
     \<Rightarrow> exn option \<times> frame_result list \<times> nat \<times> frame list" where
  "process_video_loop e out frame_interval [] frame_number dets processed written =
     (None, dets, processed, written)"
| "process_video_loop e out frame_interval (None # rest) frame_number dets processed written =
     (None, dets, processed, written)"
| "process_video_loop e out frame_interval (Some fr # rest) frame_number dets processed written =
     (case py_mod (int frame_number) frame_interval of
        Inl ex \<Rightarrow> (Some ex, dets, processed, written)
      | Inr m \<Rightarrow>
          if m = 0
          then (case process_frame e fr frame_number of
                  Inl ex \<Rightarrow> (Some ex, dets, processed, written)
                | Inr frame_results \<Rightarrow>
                    let fr' = (if out \<and> fr_objects frame_results \<noteq> []
                               then draw_detections fr (fr_objects frame_results) else fr)
                    in process_video_loop e out frame_interval rest (frame_number + 1)
                         (dets @ [frame_results]) (processed + 1)
                         (if out then written @ [fr'] else written))
          else process_video_loop e out frame_interval rest (frame_number + 1) dets processed
                 (if out then written @ [fr] else written))"

text \<open>The file a released writer leaves behind.\<close>

definition written_video :: "real \<Rightarrow> int \<Rightarrow> int \<Rightarrow> frame list \<Rightarrow> filedata" where
  "written_video fps width height written =
     VideoFile \<lparr>prop_fps = fps, prop_frame_count = real (length written),
                prop_frame_width = real_of_int width, prop_frame_height = real_of_int height,
                stream = map Some written\<rparr>"

text \<open>
  \<open>process_video(video_path, output_path, frame_interval)\<close>. The \<open>results\<close> dictionary is
  built before the \<open>try\<close>; the \<open>finally\<close> releases the capture and, when there is one, the
  writer, whether the loop ended by \<open>break\<close> or by an exception. An exception propagates
  after the \<open>finally\<close>; otherwise the results are returned.
\<close>

definition process_video ::
  "env \<Rightarrow> world \<Rightarrow> string \<Rightarrow> string option \<Rightarrow> int \<Rightarrow> (exn + results) \<times> world" where
  "process_video e w video_path output_path frame_interval =
     (case fs w video_path of
        None \<Rightarrow> (Inl (Exc ''FileNotFoundError'' (''Video file not found: '' @ video_path)), w)
      | Some f \<Rightarrow>
          (case f of
             VideoFile c \<Rightarrow>
               let w1 = acquire w;
                   fps = prop_fps c;
                   frame_count = py_int (prop_frame_count c);
                   width = py_int (prop_frame_width c);
                   height = py_int (prop_frame_height c);
                   out = (py_or output_path [] \<noteq> []);
                   out_path = py_or output_path [];
                   w2 = (if out
                         then acquire (w1\<lparr>fs := (fs w1)(out_path \<mapsto> written_video fps width height [])\<rparr>)
                         else w1)
               in (case duration_of frame_count fps of
                     Inl ex \<Rightarrow> (Inl ex, w2)
                   | Inr duration \<Rightarrow>
                       let (raised, dets, processed, written) =
                             process_video_loop e out frame_interval (stream c) 0 [] 0 [];
                           w3 = release w2;
                           w4 = (if out
                                 then release (w3\<lparr>fs := (fs w3)(out_path \<mapsto> written_video fps width height written)\<rparr>)
                                 else w3)
                       in (case raised of
                             Some ex \<Rightarrow> (Inl ex, w4)
                           | None \<Rightarrow>
                               (Inr \<lparr>r_total_frames = frame_count,
                                     r_processed_frames = processed,
                                     r_detections = dets,
                                     r_processing_time = video_seconds e,
                                     r_video_metadata =
                                       \<lparr>md_fps = fps, md_frame_count = frame_count, md_width = width,
                                        md_height = height, md_duration = duration\<rparr>\<rparr>,
                                w4)))
           | _ \<Rightarrow> (Inl (Exc ''ValueError'' (''Could not open video file: '' @ video_path)), w)))"

subsection \<open>\<open>extract_frames\<close>\<close>

text \<open>
  The loop of \<open>extract_frames\<close>: a selected frame is written to
  \<open>frame_<number, six digits>.jpg\<close> under the output directory and its path appended.
\<close>

fun extract_frames_loop ::
  "string \<Rightarrow> int \<Rightarrow> frame option list \<Rightarrow> nat \<Rightarrow> string list \<Rightarrow> world
     \<Rightarrow> exn option \<times> string list \<times> world" where
  "extract_frames_loop output_dir frame_interval [] frame_number frame_paths w =
     (None, frame_paths, w)"
| "extract_frames_loop output_dir frame_interval (None # rest) frame_number frame_paths w =
     (None, frame_paths, w)"
| "extract_frames_loop output_dir frame_interval (Some fr # rest) frame_number frame_paths w =
     (case py_mod (int frame_number) frame_interval of
        Inl ex \<Rightarrow> (Some ex, frame_paths, w)
      | Inr m \<Rightarrow>
          if m = 0
          then let frame_path = path_join output_dir (''frame_'' @ fmt_06d frame_number @ ''.jpg'');
                   w' = w\<lparr>fs := (fs w)(frame_path \<mapsto> ImageFile fr)\<rparr>
               in extract_frames_loop output_dir frame_interval rest (frame_number + 1)
                    (frame_paths @ [frame_path]) w'
          else extract_frames_loop output_dir frame_interval rest (frame_number + 1) frame_paths w)"

text \<open>
  \<open>extract_frames(video_path, output_dir, frame_interval)\<close>: the output directory is made
  once the video file is found to exist and before the capture is opened; the \<open>finally\<close>
  releases the capture.
\<close>

definition extract_frames ::
  "env \<Rightarrow> world \<Rightarrow> string \<Rightarrow> string \<Rightarrow> int \<Rightarrow> (exn + string list) \<times> world" where
  "extract_frames e w video_path output_dir frame_interval =
     (case fs w video_path of
        None \<Rightarrow> (Inl (Exc ''FileNotFoundError'' (''Video file not found: '' @ video_path)), w)
      | Some f \<Rightarrow>
          (case makedirs e w output_dir of
             Some ex \<Rightarrow> (Inl ex, w)
           | None \<Rightarrow>
               (case f of
                  VideoFile c \<Rightarrow>
                    let (raised, frame_paths, w1) =
                          extract_frames_loop output_dir frame_interval (stream c) 0 [] (acquire w);
                        w2 = release w1
                    in (case raised of Some ex \<Rightarrow> (Inl ex, w2) | None \<Rightarrow> (Inr frame_paths, w2))
                | _ \<Rightarrow> (Inl (Exc ''ValueError'' (''Could not open video file: '' @ video_path)), w))))"

section \<open>models.py: the operations the tasks use\<close>

text \<open>\<open>video.save()\<close> and \<open>task_record.save()\<close> write every field of the local object.\<close>

definition save_video :: "world \<Rightarrow> string \<Rightarrow> video_row \<Rightarrow> world" where
  "save_video w video_id video = w\<lparr>videos := (videos w)(video_id \<mapsto> video)\<rparr>"

definition save_task :: "world \<Rightarrow> string \<Rightarrow> task_row \<Rightarrow> world" where
  "save_task w celery_id task_record =
     w\<lparr>tasks := (tasks w)(celery_id \<mapsto> task_record),
       task_writes := task_writes w @ [(celery_id, task_record)]\<rparr>"

text \<open>
  \<open>ProcessingTask.objects.create(video=video, task_type=..., celery_task_id=...,
  status='running', started_at=timezone.now())\<close>: \<open>progress\<close> takes its default 0 and
  \<open>created_at\<close> the time of the insert; \<open>celery_task_id\<close> is unique.
\<close>

definition ProcessingTask_create ::
  "world \<Rightarrow> string \<Rightarrow> string \<Rightarrow> string \<Rightarrow> (exn + task_row) \<times> world" where
  "ProcessingTask_create w celery_id video_id task_type =
     (let (started, w1) = now w;
          (created, w2) = now w1
      in case tasks w2 celery_id of
           Some other \<Rightarrow>
             (Inl (Exc ''IntegrityError''
                    ''UNIQUE constraint failed: video_app_processingtask.celery_task_id''), w2)
         | None \<Rightarrow>
             let task_record =
                   \<lparr>t_video = video_id, t_task_type = task_type, t_status = ''running'',
                    t_created_at = created, t_started_at = Some started, t_completed_at = None,
                    t_error_message = [], t_progress = 0\<rparr>
             in (Inr task_record, save_task w2 celery_id task_record))"

text \<open>\<open>ProcessedFrame.objects.create\<close>: \<open>(video, frame_number)\<close> is unique together.\<close>

definition ProcessedFrame_create :: "world \<Rightarrow> processed_frame_row \<Rightarrow> exn option \<times> world" where
  "ProcessedFrame_create w row =
     (if list_ex (\<lambda>r. pf_video r = pf_video row \<and> pf_frame_number r = pf_frame_number row)
           (processed_frames w)
      then (Some (Exc ''IntegrityError''
                   ''UNIQUE constraint failed: video_app_processedframe.video_id, video_app_processedframe.frame_number''),
            w)
      else (None, w\<lparr>processed_frames := processed_frames w @ [row]\<rparr>))"

text \<open>\<open>DetectedObject.objects.create\<close> for one entry of a frame's \<open>objects\<close>.\<close>

definition DetectedObject_create :: "world \<Rightarrow> string \<Rightarrow> nat \<Rightarrow> detection \<Rightarrow> world" where
  "DetectedObject_create w video_id frame_number obj =
     (let (t, w1) = now w
      in w1\<lparr>detected_objects := detected_objects w1 @
              [\<lparr>do_video = video_id, do_frame_number = frame_number,
                do_object_class = det_class obj, do_confidence = det_confidence obj,
                do_bbox_x = bbox_x obj, do_bbox_y = bbox_y obj,
                do_bbox_width = bbox_width obj, do_bbox_height = bbox_height obj,
                do_detected_at = t\<rparr>]\<rparr>)"

text \<open>\<open>video.video_file.path\<close>: the stored name under the media root; no name, no path.\<close>

definition video_file_path :: "env \<Rightarrow> video_row \<Rightarrow> exn + string" where
  "video_file_path e video =
     (if v_video_file video = []
      then Inl (Exc ''ValueError'' ''The video_file attribute has no file associated with it.'')
      else Inr (path_join (MEDIA_ROOT e) (v_video_file video)))"

section \<open>tasks.py\<close>

text \<open>
  How the \<open>try\<close> block of a task ends: with its return value, or with an exception and
  the local variables \<open>video\<close> and \<open>task_record\<close> as they are at that moment (\<open>None\<close> when
  the variable is not bound yet), which is what the handlers look at.
\<close>

datatype 'a attempt = Raised exn "video_row option" "task_row option" | Returned 'a

text \<open>\<open>for obj in frame_result['objects']: DetectedObject.objects.create(...)\<close>.\<close>

fun save_objects :: "string \<Rightarrow> nat \<Rightarrow> detection list \<Rightarrow> world \<Rightarrow> world" where
  "save_objects video_id frame_number [] w = w"
| "save_objects video_id frame_number (obj # objs) w =
     save_objects video_id frame_number objs (DetectedObject_create w video_id frame_number obj)"

subsection \<open>\<open>process_video_task\<close>\<close>

record pv_summary =
  pv_status :: string
  pv_video_id :: string
  pv_processed_frames :: nat
  pv_total_detections :: nat
  pv_processing_time :: real

text \<open>\<open>for frame_result in results['detections']\<close>: the frame row, then its objects.\<close>

fun save_frame_results :: "string \<Rightarrow> frame_result list \<Rightarrow> world \<Rightarrow> exn option \<times> world" where
  "save_frame_results video_id [] w = (None, w)"
| "save_frame_results video_id (frame_result # rest) w =
     (case ProcessedFrame_create w
             \<lparr>pf_video = video_id, pf_frame_number = fr_frame_number frame_result,
              pf_objects_detected = fr_object_count frame_result,
              pf_processing_time = Some (fr_processing_time frame_result),
              pf_minio_key = []\<rparr> of
        (Some ex, w1) \<Rightarrow> (Some ex, w1)
      | (None, w1) \<Rightarrow>
          save_frame_results video_id rest
            (save_objects video_id (fr_frame_number frame_result) (fr_objects frame_result) w1))"

text \<open>
  The part of the \<open>try\<close> block from \<open># Upload processed video to MinIO\<close> to the \<open>return\<close>.
\<close>

definition process_video_finish ::
  "env \<Rightarrow> string \<Rightarrow> string \<Rightarrow> video_row \<Rightarrow> task_row \<Rightarrow> string \<Rightarrow> results \<Rightarrow> world
     \<Rightarrow> pv_summary attempt \<times> world" where
  "process_video_finish e celery_id video_id video task_record output_path res w =
     (case MinIOClient_init e of
        Some ex \<Rightarrow> (Raised ex (Some video) (Some task_record), w)
      | None \<Rightarrow>
          (case (if fs w output_path \<noteq> None
                 then (case upload_file e w output_path (Some ''processed-videos'') None of
                         (Inl ex, w1) \<Rightarrow> (Inl ex, w1)
                       | (Inr minio_key, w1) \<Rightarrow>
                           let video1 = video\<lparr>v_processed_minio_key := minio_key\<rparr>
                           in (Inr video1, save_video w1 video_id video1))
                 else (Inr video, w)) of
             (Inl ex, w2) \<Rightarrow> (Raised ex (Some video) (Some task_record), w2)
           | (Inr video2, w2) \<Rightarrow>
               let (t1, w3) = now w2;
                   task_record1 = task_record\<lparr>t_status := ''completed'', t_completed_at := Some t1,
                                              t_progress := 100\<rparr>;
                   w4 = save_task w3 celery_id task_record1;
                   (t2, w5) = now w4;
                   video3 = video2\<lparr>v_status := ''completed'', v_processing_completed_at := Some t2\<rparr>;
                   w6 = save_video w5 video_id video3
               in (Returned \<lparr>pv_status = ''success'', pv_video_id = video_id,
                             pv_processed_frames = r_processed_frames res,
                             pv_total_detections =
                               sum_list (map (\<lambda>d. length (fr_objects d)) (r_detections res)),
                             pv_processing_time = r_processing_time res\<rparr>,
                   w6)))"

text \<open>The \<open>try\<close> block of \<open>process_video_task\<close>.\<close>

definition process_video_try ::
  "env \<Rightarrow> string \<Rightarrow> string \<Rightarrow> world \<Rightarrow> pv_summary attempt \<times> world" where
  "process_video_try e celery_id video_id w =
     (case videos w video_id of
        None \<Rightarrow> (Raised VideoDoesNotExist None None, w)
      | Some video \<Rightarrow>
          (case ProcessingTask_create w celery_id video_id ''video_processing'' of
             (Inl ex, w1) \<Rightarrow> (Raised ex (Some video) None, w1)
           | (Inr task_record, w1) \<Rightarrow>
               let (t, w2) = now w1;
                   video1 = video\<lparr>v_status := ''processing'', v_processing_started_at := Some t\<rparr>;
                   w3 = save_video w2 video_id video1
               in (case YOLOProcessor_init e of
                     Some ex \<Rightarrow> (Raised ex (Some video1) (Some task_record), w3)
                   | None \<Rightarrow>
                       (case video_file_path e video1 of
                          Inl ex \<Rightarrow> (Raised ex (Some video1) (Some task_record), w3)
                        | Inr video_path \<Rightarrow>
                            (case get_video_metadata e w3 video_path of
                               (Inl ex, w4) \<Rightarrow> (Raised ex (Some video1) (Some task_record), w4)
                             | (Inr md, w4) \<Rightarrow>
                                 let video2 = video1\<lparr>v_duration := Some (md_duration md),
                                                     v_frame_count := Some (md_frame_count md),
                                                     v_fps := Some (md_fps md),
                                                     v_resolution := md_resolution md,
                                                     v_file_size := Some (md_file_size md)\<rparr>;
                                     w5 = save_video w4 video_id video2;
                                     output_dir = path_join (MEDIA_ROOT e) ''processed_videos''
                                 in (case makedirs e w5 output_dir of
                                       Some ex \<Rightarrow> (Raised ex (Some video2) (Some task_record), w5)
                                     | None \<Rightarrow>
                                         let filename = basename video_path;
                                             (name, ext) = splitext filename;
                                             output_path =
                                               path_join output_dir (''processed_'' @ name @ ext)
                                         in (case process_video e w5 video_path (Some output_path) 1 of
                                               (Inl ex, w6) \<Rightarrow>
                                                 (Raised ex (Some video2) (Some task_record), w6)
                                             | (Inr res, w6) \<Rightarrow>
                                                 (case save_frame_results video_id
                                                         (r_detections res) w6 of
                                                    (Some ex, w7) \<Rightarrow>
                                                      (Raised ex (Some video2) (Some task_record), w7)
                                                  | (None, w7) \<Rightarrow>
                                                      process_video_finish e celery_id video_id
                                                        video2 task_record output_path res w7))))))))"

text \<open>
  The handler \<open>except Exception as e\<close> of \<open>process_video_task\<close>: the task record, when
  bound, becomes \<open>failed\<close> with the time and \<open>str(e)\<close>; the video, when bound, becomes
  \<open>failed\<close> with \<open>str(e)\<close>.
\<close>

definition fail_task :: "string \<Rightarrow> exn \<Rightarrow> task_row option \<Rightarrow> world \<Rightarrow> world" where
  "fail_task celery_id ex task_record w =
     (case task_record of
        None \<Rightarrow> w
      | Some tr \<Rightarrow>
          let (t, w1) = now w
          in save_task w1 celery_id
               (tr\<lparr>t_status := ''failed'', t_completed_at := Some t, t_error_message := exn_str ex\<rparr>))"

definition fail_video :: "string \<Rightarrow> exn \<Rightarrow> video_row option \<Rightarrow> world \<Rightarrow> world" where
  "fail_video video_id ex video w =
     (case video of
        None \<Rightarrow> w
      | Some v \<Rightarrow> save_video w video_id (v\<lparr>v_status := ''failed'', v_error_message := exn_str ex\<rparr>))"

text \<open>
  \<open>process_video_task(self, video_id)\<close>, with \<open>self.request.id\<close> as \<open>celery_id\<close>. Both
  handlers raise the exception again.
\<close>

definition process_video_task ::
  "env \<Rightarrow> string \<Rightarrow> string \<Rightarrow> world \<Rightarrow> (exn + pv_summary) \<times> world" where
  "process_video_task e celery_id video_id w =
     (case process_video_try e celery_id video_id w of
        (Returned summary, w') \<Rightarrow> (Inr summary, w')
      | (Raised VideoDoesNotExist video task_record, w') \<Rightarrow> (Inl VideoDoesNotExist, w')
      | (Raised (Exc c m) video task_record, w') \<Rightarrow>
          (Inl (Exc c m),
           fail_video video_id (Exc c m) video (fail_task celery_id (Exc c m) task_record w')))"

subsection \<open>\<open>extract_frames_task\<close>\<close>

record ef_summary =
  ef_status :: string
  ef_video_id :: string
  ef_extracted_frames :: nat
  ef_minio_keys :: "string list"

text \<open>\<open>for frame_path in frame_paths\<close>: upload, and append the key.\<close>

fun upload_frames :: "env \<Rightarrow> string list \<Rightarrow> string list \<Rightarrow> world \<Rightarrow> (exn + string list) \<times> world" where
  "upload_frames e [] uploaded_keys w = (Inr uploaded_keys, w)"
| "upload_frames e (frame_path # rest) uploaded_keys w =
     (case upload_file e w frame_path (Some ''extracted-frames'') None of
        (Inl ex, w1) \<Rightarrow> (Inl ex, w1)
      | (Inr minio_key, w1) \<Rightarrow> upload_frames e rest (uploaded_keys @ [minio_key]) w1)"

definition extract_frames_try ::
  "env \<Rightarrow> string \<Rightarrow> string \<Rightarrow> int \<Rightarrow> world \<Rightarrow> ef_summary attempt \<times> world" where
  "extract_frames_try e celery_id video_id frame_interval w =
     (case videos w video_id of
        None \<Rightarrow> (Raised VideoDoesNotExist None None, w)
      | Some video \<Rightarrow>
          (case ProcessingTask_create w celery_id video_id ''frame_extraction'' of
             (Inl ex, w1) \<Rightarrow> (Raised ex (Some video) None, w1)
           | (Inr task_record, w1) \<Rightarrow>
               (case YOLOProcessor_init e of
                  Some ex \<Rightarrow> (Raised ex (Some video) (Some task_record), w1)
                | None \<Rightarrow>
                    let output_dir =
                          path_join (path_join (MEDIA_ROOT e) ''extracted_frames'') video_id
                    in (case makedirs e w1 output_dir of
                          Some ex \<Rightarrow> (Raised ex (Some video) (Some task_record), w1)
                        | None \<Rightarrow>
                            (case video_file_path e video of
                               Inl ex \<Rightarrow> (Raised ex (Some video) (Some task_record), w1)
                             | Inr video_path \<Rightarrow>
                                 (case extract_frames e w1 video_path output_dir frame_interval of
                                    (Inl ex, w2) \<Rightarrow> (Raised ex (Some video) (Some task_record), w2)
                                  | (Inr frame_paths, w2) \<Rightarrow>
                                      (case MinIOClient_init e of
                                         Some ex \<Rightarrow> (Raised ex (Some video) (Some task_record), w2)
                                       | None \<Rightarrow>
                                           (case upload_frames e frame_paths [] w2 of
                                              (Inl ex, w3) \<Rightarrow>
                                                (Raised ex (Some video) (Some task_record), w3)
                                            | (Inr uploaded_keys, w3) \<Rightarrow>
                                                let (t, w4) = now w3;
                                                    task_record1 =
                                                      task_record\<lparr>t_status := ''completed'',
                                                                    t_completed_at := Some t,
                                                                    t_progress := 100\<rparr>;
                                                    w5 = save_task w4 celery_id task_record1
                                                in (Returned
                                                      \<lparr>ef_status = ''success'',
                                                       ef_video_id = video_id,
                                                       ef_extracted_frames = length frame_paths,
                                                       ef_minio_keys = uploaded_keys\<rparr>,
                                                    w5)))))))))"

text \<open>
  \<open>extract_frames_task(self, video_id, frame_interval)\<close>: its handler marks the task
  record only.
\<close>

definition extract_frames_task ::
  "env \<Rightarrow> string \<Rightarrow> string \<Rightarrow> int \<Rightarrow> world \<Rightarrow> (exn + ef_summary) \<times> world" where
  "extract_frames_task e celery_id video_id frame_interval w =
     (case extract_frames_try e celery_id video_id frame_interval w of
        (Returned summary, w') \<Rightarrow> (Inr summary, w')
      | (Raised VideoDoesNotExist video task_record, w') \<Rightarrow> (Inl VideoDoesNotExist, w')
      | (Raised (Exc c m) video task_record, w') \<Rightarrow>
          (Inl (Exc c m), fail_task celery_id (Exc c m) task_record w'))"

subsection \<open>\<open>detect_objects_in_frames_task\<close>\<close>

text \<open>
  The names bound in the module \<open>tasks\<close>: those its \<open>import\<close> statements (lines 1 to 9)
  bind, \<open>logger\<close>, and the five tasks it defines. Evaluating any other global name that is
  not a builtin raises \<open>NameError\<close>.
\<close>

definition tasks_globals :: "string list" where
  "tasks_globals =
     [''os'', ''time'', ''logging'', ''shared_task'', ''timezone'', ''settings'',
      ''Video'', ''DetectedObject'', ''ProcessedFrame'', ''ProcessingTask'',
      ''YOLOProcessor'', ''MinIOClient'', ''logger'',
      ''process_video_task'', ''extract_frames_task'', ''detect_objects_in_frames_task'',
      ''cleanup_temp_files_task'', ''health_check_task'']"

definition lookup_global :: "string list \<Rightarrow> string \<Rightarrow> exn option" where
  "lookup_global g name =
     (if name \<in> set g then None
      else Some (Exc ''NameError'' (''name '' @ [CHR 0x27] @ name @ [CHR 0x27] @ '' is not defined'')))"

record od_summary =
  od_status :: string
  od_video_id :: string
  od_processed_frames :: nat
  od_detections_count :: nat

text \<open>\<open>list(range(0, total_frames, 30))\<close>.\<close>

definition range_step_30 :: "int \<Rightarrow> nat list" where
  "range_step_30 total_frames = filter (\<lambda>i. i mod 30 = 0) [0..<nat total_frames]"

text \<open>
  \<open>cap.set(cv2.CAP_PROP_POS_FRAMES, frame_number)\<close> followed by \<open>cap.read()\<close>: the frame at
  that position, or \<open>ret = False\<close> when the position is beyond the stream or the frame
  cannot be decoded.
\<close>

definition read_frame_at :: "frame option list \<Rightarrow> nat \<Rightarrow> frame option" where
  "read_frame_at s frame_number = (if frame_number < length s then s ! frame_number else None)"

text \<open>
  \<open>for i, frame_number in enumerate(frame_numbers)\<close>, with \<open>n = len(frame_numbers)\<close>. The
  result is the exception that left the loop, if any, the local \<open>task_record\<close>, and
  \<open>detections_count\<close>.
\<close>

fun detect_loop ::
  "env \<Rightarrow> string \<Rightarrow> string \<Rightarrow> frame option list \<Rightarrow> nat \<Rightarrow> nat \<Rightarrow> nat list \<Rightarrow> task_row \<Rightarrow> nat \<Rightarrow> world
     \<Rightarrow> exn option \<times> task_row \<times> nat \<times> world" where
  "detect_loop e celery_id video_id s n i [] task_record detections_count w =
     (None, task_record, detections_count, w)"
| "detect_loop e celery_id video_id s n i (frame_number # rest) task_record detections_count w =
     (case read_frame_at s frame_number of
        None \<Rightarrow> detect_loop e celery_id video_id s n (i + 1) rest task_record detections_count w
      | Some fr \<Rightarrow>
          (case process_frame e fr frame_number of
             Inl ex \<Rightarrow> (Some ex, task_record, detections_count, w)
           | Inr frame_result \<Rightarrow>
               let w1 = save_objects video_id frame_number (fr_objects frame_result) w;
                   detections_count1 = detections_count + length (fr_objects frame_result)
               in (case py_truediv (real (i + 1)) (real n) of
                     Inl ex \<Rightarrow> (Some ex, task_record, detections_count1, w1)
                   | Inr q \<Rightarrow>
                       let progress = py_int (q * 100);
                           task_record1 = task_record\<lparr>t_progress := progress\<rparr>;
                           w2 = save_task w1 celery_id task_record1
                       in detect_loop e celery_id video_id s n (i + 1) rest task_record1
                            detections_count1 w2)))"

text \<open>
  The part of the \<open>try\<close> block of \<open>detect_objects_in_frames_task\<close> from
  \<open>cap = cv2.VideoCapture(...)\<close> to the \<open>return\<close>, once the name \<open>cv2\<close> is found: the
  capture, the loop inside \<open>try\<close>, the release in \<open>finally\<close>, and the final update of
  the task record.
\<close>

definition detect_objects_run ::
  "env \<Rightarrow> string \<Rightarrow> string \<Rightarrow> video_row \<Rightarrow> task_row \<Rightarrow> string \<Rightarrow> nat list \<Rightarrow> world
     \<Rightarrow> od_summary attempt \<times> world" where
  "detect_objects_run e celery_id video_id video task_record video_path frame_numbers w =
     (let (s, w1) =
            (case fs w video_path of
               Some (VideoFile c) \<Rightarrow> (stream c, acquire w)
             | _ \<Rightarrow> ([], w));
          (raised, task_record1, detections_count, w2) =
            detect_loop e celery_id video_id s (length frame_numbers)
              0 frame_numbers task_record 0 w1;
          w3 = (case fs w video_path of
                  Some (VideoFile c) \<Rightarrow> release w2
                | _ \<Rightarrow> w2)
      in (case raised of
            Some ex \<Rightarrow> (Raised ex (Some video) (Some task_record1), w3)
          | None \<Rightarrow>
              let (t, w4) = now w3;
                  task_record2 =
                    task_record1\<lparr>t_status := ''completed'',
                                   t_completed_at := Some t,
                                   t_progress := 100\<rparr>;
                  w5 = save_task w4 celery_id task_record2
              in (Returned
                    \<lparr>od_status = ''success'',
                     od_video_id = video_id,
                     od_processed_frames = length frame_numbers,
                     od_detections_count = detections_count\<rparr>,
                  w5)))"

text \<open>
  The \<open>try\<close> block of \<open>detect_objects_in_frames_task\<close>, in a module whose global names are
  \<open>g\<close>. The first statement that evaluates the name \<open>cv2\<close> is
  \<open>cap = cv2.VideoCapture(...)\<close>.
\<close>

definition detect_objects_try ::
  "string list \<Rightarrow> env \<Rightarrow> string \<Rightarrow> string \<Rightarrow> nat list option \<Rightarrow> world
     \<Rightarrow> od_summary attempt \<times> world" where
  "detect_objects_try g e celery_id video_id frame_numbers w =
     (case videos w video_id of
        None \<Rightarrow> (Raised VideoDoesNotExist None None, w)
      | Some video \<Rightarrow>
          (case ProcessingTask_create w celery_id video_id ''object_detection'' of
             (Inl ex, w1) \<Rightarrow> (Raised ex (Some video) None, w1)
           | (Inr task_record, w1) \<Rightarrow>
               (case YOLOProcessor_init e of
                  Some ex \<Rightarrow> (Raised ex (Some video) (Some task_record), w1)
                | None \<Rightarrow>
                    (case video_file_path e video of
                       Inl ex \<Rightarrow> (Raised ex (Some video) (Some task_record), w1)
                     | Inr video_path \<Rightarrow>
                         (case get_video_metadata e w1 video_path of
                            (Inl ex, w2) \<Rightarrow> (Raised ex (Some video) (Some task_record), w2)
                          | (Inr md, w2) \<Rightarrow>
                              let total_frames = md_frame_count md;
                                  frame_numbers1 =
                                    (case frame_numbers of
                                       None \<Rightarrow> range_step_30 total_frames
                                     | Some given \<Rightarrow> given)
                              in (case lookup_global g ''cv2'' of
                                    Some ex \<Rightarrow> (Raised ex (Some video) (Some task_record), w2)
                                  | None \<Rightarrow>
                                      detect_objects_run e celery_id video_id video task_record
                                        video_path frame_numbers1 w2))))))"

text \<open>
  \<open>detect_objects_in_frames_task(self, video_id, frame_numbers)\<close> in a module whose global
  names are \<open>g\<close>; the task of the repository is the one with \<open>g = tasks_globals\<close>.
\<close>

definition detect_objects_in_frames_task ::
  "string list \<Rightarrow> env \<Rightarrow> string \<Rightarrow> string \<Rightarrow> nat list option \<Rightarrow> world
     \<Rightarrow> (exn + od_summary) \<times> world" where
  "detect_objects_in_frames_task g e celery_id video_id frame_numbers w =
     (case detect_objects_try g e celery_id video_id frame_numbers w of
        (Returned summary, w') \<Rightarrow> (Inr summary, w')
      | (Raised VideoDoesNotExist video task_record, w') \<Rightarrow> (Inl VideoDoesNotExist, w')
      | (Raised (Exc c m) video task_record, w') \<Rightarrow>
          (Inl (Exc c m), fail_task celery_id (Exc c m) task_record w'))"

section \<open>Notions the properties are stated with\<close>

text \<open>
  The frames a capture delivers when read from the start: those before the first read
  that fails (the end of the stream, or a frame that cannot be decoded).
\<close>

definition delivered :: "frame option list \<Rightarrow> frame list" where
  "delivered s = map the (takeWhile (\<lambda>x. x \<noteq> None) s)"

text \<open>
  The delivered frames with their numbers, counted from \<open>n\<close>, whose number is a multiple
  of the interval.
\<close>

definition selected :: "int \<Rightarrow> nat \<Rightarrow> frame option list \<Rightarrow> (nat \<times> frame) list" where
  "selected k n s = filter (\<lambda>(i, fr). int i mod k = 0) (List.enumerate n (delivered s))"

text \<open>
  A container is intact when every frame decodes and its frame-count property is the
  number of its frames.
\<close>

definition intact :: "container \<Rightarrow> bool" where
  "intact c \<longleftrightarrow> list_all (\<lambda>x. x \<noteq> None) (stream c) \<and> prop_frame_count c = real (length (stream c))"

text \<open>
  The values that \<open>json\<close> writes and reads back unchanged: \<open>None\<close>, booleans, integers,
  floats other than NaN (which is not equal to itself), strings, lists of such values, and
  dictionaries of such values whose keys are strings (a dictionary has each key once).
\<close>

fun json_faithful :: "pyval \<Rightarrow> bool"
  and json_faithful_list :: "pyval list \<Rightarrow> bool"
  and json_faithful_items :: "(pyval \<times> pyval) list \<Rightarrow> bool"
where
  "json_faithful PNone = True"
| "json_faithful (PBool b) = True"
| "json_faithful (PInt i) = True"
| "json_faithful (PFloat r) = (r \<noteq> ''nan'')"
| "json_faithful (PStr s) = True"
| "json_faithful (PList xs) = json_faithful_list xs"
| "json_faithful (PTuple xs) = False"
| "json_faithful (PDict kvs) = (json_faithful_items kvs \<and> distinct (map fst kvs))"
| "json_faithful (PObject n) = False"
| "json_faithful_list [] = True"
| "json_faithful_list (x # xs) = (json_faithful x \<and> json_faithful_list xs)"
| "json_faithful_items [] = True"
| "json_faithful_items (kv # kvs) =
     ((case fst kv of PStr s \<Rightarrow> True | _ \<Rightarrow> False) \<and> json_faithful (snd kv) \<and> json_faithful_items kvs)"

text \<open>
  What a run has written to \<open>ProcessingTask\<close> records: for every version of a record
  written between the state \<open>w\<close> and the later state \<open>w'\<close>, in order, the record's
  \<open>celery_task_id\<close>, its status and its progress.
\<close>

definition writes_since :: "world \<Rightarrow> world \<Rightarrow> (string \<times> string \<times> int) list" where
  "writes_since w w' =
     map (\<lambda>(c, t). (c, t_status t, t_progress t)) (drop (length (task_writes w)) (task_writes w'))"

text \<open>
  The property of such a list for the job \<open>cid\<close>: every entry is of that job, every
  progress is between 0 and 100, an entry with status \<open>completed\<close> has progress 100, and
  the progress values never decrease.
\<close>

definition progress_log_ok :: "string \<Rightarrow> (string \<times> string \<times> int) list \<Rightarrow> bool" where
  "progress_log_ok cid L \<longleftrightarrow>
     list_all (\<lambda>(c, st, p). c = cid \<and> 0 \<le> p \<and> p \<le> 100 \<and> (st = ''completed'' \<longrightarrow> p = 100)) L
     \<and> sorted (map (\<lambda>(c, st, p). p) L)"

text \<open>
  The progress values the loop of \<open>detect_objects_in_frames_task\<close> assigns, in order,
  when it starts at index \<open>i\<close> of \<open>n\<close> with the frame numbers \<open>fns\<close> still to do: one for
  every frame read and processed, until a detection raises.
\<close>

fun progress_values :: "env \<Rightarrow> frame option list \<Rightarrow> nat \<Rightarrow> nat \<Rightarrow> nat list \<Rightarrow> int list" where
  "progress_values e s n i [] = []"
| "progress_values e s n i (frame_number # rest) =
     (case read_frame_at s frame_number of
        None \<Rightarrow> progress_values e s n (i + 1) rest
      | Some fr \<Rightarrow>
          (case process_frame e fr frame_number of
             Inl ex \<Rightarrow> []
           | Inr frame_result \<Rightarrow>
               (case py_truediv (real (i + 1)) (real n) of
                  Inl ex \<Rightarrow> []
                | Inr q \<Rightarrow> py_int (q * 100) # progress_values e s n (i + 1) rest)))"

section \<open>A small deployment, for the examples\<close>

text \<open>
  A ten-frame video at 30 frames per second; the same video with its sixth frame
  damaged; and a video whose header records 300 frames.
\<close>

definition ten_frames :: container where
  "ten_frames =
     \<lparr>prop_fps = 30, prop_frame_count = 10, prop_frame_width = 640, prop_frame_height = 480,
      stream = [Some (Frame 0 []), Some (Frame 1 []), Some (Frame 2 []), Some (Frame 3 []),
                Some (Frame 4 []), Some (Frame 5 []), Some (Frame 6 []), Some (Frame 7 []),
                Some (Frame 8 []), Some (Frame 9 [])]\<rparr>"

definition damaged_frames :: container where
  "damaged_frames =
     ten_frames\<lparr>stream :=
       [Some (Frame 0 []), Some (Frame 1 []), Some (Frame 2 []), Some (Frame 3 []),
        Some (Frame 4 []), None, Some (Frame 6 []), Some (Frame 7 []),
        Some (Frame 8 []), Some (Frame 9 [])]\<rparr>"

definition long_clip :: container where
  "long_clip =
     \<lparr>prop_fps = 30, prop_frame_count = 300, prop_frame_width = 1920, prop_frame_height = 1080,
      stream = map (\<lambda>i. Some (Frame i [])) [0..<300]\<rparr>"

text \<open>
  An environment in which everything works: the model finds one person in every frame.
  Variants: a model that fails on the frame with pixels 3, and a model that returns a box
  whose right edge lies left of its left edge.
\<close>

definition ex_env :: env where
  "ex_env =
     \<lparr>MEDIA_ROOT = ''/srv/media'',
      MINIO_BUCKET_NAME = ''videos'',
      yolo_load_error = None,
      model_call = (\<lambda>f. Inr [Some [\<lparr>xyxy = (10, 20, 110, 220), cls = 0, conf = 9 / 10\<rparr>]]),
      model_seconds = (\<lambda>f. 1 / 100),
      video_seconds = 1,
      model_names = [0 \<mapsto> ''person''],
      minio_connect_error = None,
      fput_error = (\<lambda>b n. None),
      fget_error = (\<lambda>b n. None),
      mkdir_error = (\<lambda>n. None),
      uuid4 = (\<lambda>n. 0x0123456789abcdef0123456789abcdef + n),
      temp_name = (\<lambda>n. ''k3x9'' @ digits10 n),
      getsize = (\<lambda>f. 4096)\<rparr>"

definition failing_env :: env where
  "failing_env =
     ex_env\<lparr>model_call :=
       (\<lambda>f. if pixels f = 3 then Inl (''RuntimeError'', ''CUDA out of memory'')
            else model_call ex_env f)\<rparr>"

definition inverted_env :: env where
  "inverted_env =
     ex_env\<lparr>model_call := (\<lambda>f. Inr [Some [\<lparr>xyxy = (10, 10, 5, 20), cls = 0, conf = 1 / 2\<rparr>]])\<rparr>"

definition ex_video :: video_row where
  "ex_video =
     \<lparr>v_title = ''clip'', v_description = [], v_video_file = ''videos/clip.mp4'',
      v_uploaded_at = 7, v_status = ''pending'', v_processing_started_at = None,
      v_processing_completed_at = None, v_error_message = [], v_duration = None,
      v_frame_count = None, v_fps = None, v_resolution = [], v_file_size = None,
      v_minio_bucket = [], v_minio_key = [], v_processed_minio_key = []\<rparr>"

definition ex_world :: world where
  "ex_world =
     \<lparr>fs = [''/srv/media/videos/clip.mp4'' \<mapsto> VideoFile ten_frames],
      blobs = Map.empty,
      videos = [''v1'' \<mapsto> ex_video],
      tasks = Map.empty,
      processed_frames = [],
      detected_objects = [],
      task_writes = [],
      clock = 100,
      open_handles = 0,
      draws = 0\<rparr>"

definition damaged_world :: world where
  "damaged_world = ex_world\<lparr>fs := [''/srv/media/videos/clip.mp4'' \<mapsto> VideoFile damaged_frames]\<rparr>"

definition long_world :: world where
  "long_world = ex_world\<lparr>fs := [''/srv/media/videos/clip.mp4'' \<mapsto> VideoFile long_clip]\<rparr>"

definition ex_metadata :: pyval where
  "ex_metadata =
     PDict [(PStr ''fps'', PFloat ''30.0''), (PStr ''frame_count'', PInt 300),
            (PStr ''resolution'', PStr ''1920x1080''),
            (PStr ''labels'', PList [PStr ''person'', PNone, PBool True])]"

text \<open>
  The state after an earlier run has left a \<open>ProcessedFrame\<close> row for frame 3 of the
  video.
\<close>

definition rerun_world :: world where
  "rerun_world =
     ex_world\<lparr>processed_frames :=
       [\<lparr>pf_video = ''v1'', pf_frame_number = 3, pf_objects_detected = 1,
         pf_processing_time = Some (1 / 100), pf_minio_key = []\<rparr>]\<rparr>"

section \<open>Properties of the MinIO client\<close>

subsection \<open>Paths and random names\<close>

lemma basename_takeWhile: "basename p = rev (takeWhile (\<lambda>x. x \<noteq> CHR ''/'') (rev p))"
proof (cases "CHR ''/'' \<in> set p")
  case False
  then have "\<forall>x\<in>set (rev p). x \<noteq> CHR ''/''" by auto
  then have tw: "takeWhile (\<lambda>x. x \<noteq> CHR ''/'') (rev p) = rev p"
    by (rule takeWhile_eq_all_conv[THEN iffD2])
  show ?thesis unfolding tw using False by (simp add: basename_def rfind_def)
next
  case True
  let ?P = "\<lambda>x. x \<noteq> CHR ''/''"
  let ?t = "takeWhile ?P (rev p)" and ?d = "dropWhile ?P (rev p)"
  have split: "p = rev ?d @ rev ?t"
    by (metis rev_append rev_rev_ident takeWhile_dropWhile_id)
  have len: "length p = length ?d + length ?t"
    by (metis length_append length_rev split)
  have "?d \<noteq> []" using True by (simp add: dropWhile_eq_Nil_conv) 
  then have pos: "0 < length ?d" by simp
  have "nat (rfind CHR ''/'' p + 1) = length ?d"
    using True len pos by (simp add: rfind_def)
  then have "basename p = drop (length (rev ?d)) (rev ?d @ rev ?t)"
    using split by (simp add: basename_def)
  then show ?thesis by simp
qed

lemma basename_no_sep: "CHR ''/'' \<notin> set (basename p)"
  unfolding basename_takeWhile using set_takeWhileD by fastforce

lemma splitext_append: "splitext p = (a, b) \<Longrightarrow> a @ b = p"
  by (auto simp: splitext_def Let_def split: if_splits)

lemma length_uuid_hex: "length (uuid_hex u) = 32"
  by (simp add: uuid_hex_def)

lemma digit_char_hex: "digit_char d \<in> set ''0123456789abcdef''"
  unfolding digit_char_def by (rule nth_mem) simp

lemma uuid_hex_chars: "set (uuid_hex u) \<subseteq> set ''0123456789abcdef''"
  unfolding uuid_hex_def using digit_char_hex by (auto simp del: set_simps)

lemma metadata_name_not_basename: "''metadata/'' @ v @ ''.json'' \<noteq> basename p"
proof
  assume "''metadata/'' @ v @ ''.json'' = basename p"
  moreover have "CHR ''/'' \<in> set (''metadata/'' @ v @ ''.json'')" by simp
  ultimately have "CHR ''/'' \<in> set (basename p)" by simp
  then show False using basename_no_sep by blast
qed

text \<open>
  Claim C10. \<open>upload_file\<close> stores the object under the requested name only when that name
  differs from the base name of the uploaded file. The requested name is the
  \<open>object_name\<close> argument, or the base name when the argument is omitted or empty.
  Whenever the requested name equals the base name (omitted, or passed exactly so), the
  object is stored under the name with \<open>_\<close> and eight hexadecimal digits of a fresh uuid
  inserted before the extension, which is never the name requested.
\<close>

theorem upload_file_object_name:
  assumes "fs w file_path = Some f" and "\<forall>b n. fput_error e b n = None"
  shows "(let bucket = py_or bucket_name (MINIO_BUCKET_NAME e);
              requested = py_or object_name (basename file_path);
              sfx = take 8 (uuid_hex (uuid4 e (draws w)));
              stored = (if requested = basename file_path
                        then fst (splitext requested) @ ''_'' @ sfx @ snd (splitext requested)
                        else requested);
              (r, w') = upload_file e w file_path bucket_name object_name
          in r = Inr (bucket @ ''/'' @ stored)
             \<and> blobs w' (bucket, stored) = Some f
             \<and> (stored = requested \<longleftrightarrow> requested \<noteq> basename file_path)
             \<and> length sfx = 8 \<and> set sfx \<subseteq> set ''0123456789abcdef'')"
proof -
  obtain a b where ab: "splitext (basename file_path) = (a, b)" by (cases "splitext (basename file_path)")
  then have eq: "a @ b = basename file_path" by (rule splitext_append)
  have "length (a @ ''_'' @ take 8 (uuid_hex u) @ b) \<noteq> length (a @ b)" for u by simp
  then have ne: "a @ ''_'' @ take 8 (uuid_hex u) @ b \<noteq> basename file_path" for u
    unfolding eq[symmetric] by metis
  have l8: "length (take 8 (uuid_hex u)) = 8" for u by (simp add: length_uuid_hex)
  have hx: "set (take 8 (uuid_hex u)) \<subseteq> set ''0123456789abcdef''" for u
    using uuid_hex_chars set_take_subset by (rule order_trans[rotated])
  show ?thesis
    using assms ab ne l8 hx
    by (simp add: upload_file_def Let_def next_uuid_def split: prod.splits del: set_simps)
qed

subsection \<open>The metadata round trip\<close>

lemma dict_set_new: "k \<notin> fst ` set d \<Longrightarrow> dict_set d k v = d @ [(k, v)]"
  by (induction d) auto

lemma json_roundtrip:
  "json_faithful v \<Longrightarrow> \<exists>j. json_dump v = Some j \<and> json_load j = v"
  "json_faithful_list xs \<Longrightarrow> \<exists>js. json_dump_list xs = Some js \<and> json_load_list js = xs"
  "json_faithful_items kvs \<Longrightarrow>
     \<exists>js. json_dump_items kvs = Some js
        \<and> (\<forall>d. distinct (map fst (d @ kvs)) \<longrightarrow> json_load_items js d = d @ kvs)"
proof (induction v and xs and kvs rule: json_faithful_json_faithful_list_json_faithful_items.induct)
  case (8 kvs)
  then obtain js where js: "json_dump_items kvs = Some js"
    and ld: "\<forall>d. distinct (map fst (d @ kvs)) \<longrightarrow> json_load_items js d = d @ kvs"
    by auto
  from 8 have "distinct (map fst ([] @ kvs))" by simp
  with ld have "json_load_items js [] = kvs" by (metis append_Nil)
  with js show ?case by simp
next
  case (13 kv kvs)
  then obtain s where k: "fst kv = PStr s" by (cases "fst kv") auto
  from 13 obtain j where j: "json_dump (snd kv) = Some j" "json_load j = snd kv" by auto
  from 13 obtain js where js: "json_dump_items kvs = Some js"
    and ld: "\<forall>d. distinct (map fst (d @ kvs)) \<longrightarrow> json_load_items js d = d @ kvs"
    by auto
  have "json_load_items ((s, j) # js) d = d @ kv # kvs" if dist: "distinct (map fst (d @ kv # kvs))" for d
  proof -
    from dist k have "PStr s \<notin> fst ` set d" by auto
    then have "dict_set d (PStr s) (json_load j) = d @ [kv]"
      using j k by (simp add: dict_set_new prod_eq_iff)
    moreover from dist have "distinct (map fst ((d @ [kv]) @ kvs))" by simp
    ultimately show ?thesis using ld by (metis append_assoc append_Cons append_Nil json_load_items.simps(2) fst_conv snd_conv)
  qed
  then show ?case using k j js by simp
qed auto

lemma upload_video_metadata_ok:
  assumes "json_dump m = Some doc" and "\<forall>b n. fput_error e b n = None"
  shows "upload_video_metadata e w v m =
           (Inr (MINIO_BUCKET_NAME e @ ''/'' @ ''metadata/'' @ v @ ''.json''),
            w\<lparr>fs := (fs w)((''/tmp/tmp'' @ temp_name e (draws w) @ ''.json'') := None),
              blobs := (blobs w)((MINIO_BUCKET_NAME e, ''metadata/'' @ v @ ''.json'') \<mapsto> JsonFile doc),
              draws := draws w + 1\<rparr>)"
  using assms metadata_name_not_basename[of v]
  by (simp add: upload_video_metadata_def named_temporary_file_def upload_file_def unlink_def Let_def)

lemma upload_video_metadata_cleanup:
  assumes "json_dump m \<noteq> None"
  shows "fs (snd (upload_video_metadata e w v m)) (''/tmp/tmp'' @ temp_name e (draws w) @ ''.json'') = None"
  using assms metadata_name_not_basename[of v]
  by (auto simp: upload_video_metadata_def named_temporary_file_def upload_file_def unlink_def Let_def
           split: option.splits prod.splits)

lemma rfind_tmp: "rfind CHR ''/'' (''/tmp/tmp'' @ x) \<ge> 4"
proof -
  have "length (takeWhile (\<lambda>c. c \<noteq> CHR ''/'') (rev x @ ''pmt/pmt/'')) \<le> length x + 3"
  proof (cases "\<forall>c\<in>set (rev x). c \<noteq> CHR ''/''")
    case True
    then have "takeWhile (\<lambda>c. c \<noteq> CHR ''/'') (rev x @ ''pmt/pmt/'')
                 = rev x @ takeWhile (\<lambda>c. c \<noteq> CHR ''/'') ''pmt/pmt/''"
      by (intro takeWhile_append2) blast
    then show ?thesis by simp
  next
    case False
    then obtain c where "c \<in> set (rev x)" "\<not> c \<noteq> CHR ''/''" by blast
    then have "takeWhile (\<lambda>c. c \<noteq> CHR ''/'') (rev x @ ''pmt/pmt/'')
                 = takeWhile (\<lambda>c. c \<noteq> CHR ''/'') (rev x)"
      by (rule takeWhile_append1)
    moreover have "length (takeWhile (\<lambda>c. c \<noteq> CHR ''/'') (rev x)) \<le> length (rev x)"
      by (rule length_takeWhile_le)
    ultimately show ?thesis by simp
  qed
  then show ?thesis by (simp add: rfind_def)
qed

text \<open>The directory of a temporary file is not the empty name.\<close>

lemma dirname_tmp: "dirname (''/tmp/tmp'' @ x) \<noteq> []"
proof -
  let ?p = "''/tmp/tmp'' @ x"
  define i where "i = nat (rfind CHR ''/'' ?p + 1)"
  define h where "h = take i ?p"
  have i: "5 \<le> i" using rfind_tmp[of x] by (simp add: i_def)
  then obtain j where j: "i = 5 + j" using le_Suc_ex by blast
  have "h = ''/tmp/'' @ take j (''tmp'' @ x)"
    unfolding h_def j take_add by simp
  then have t: "CHR ''t'' \<in> set h" by simp
  have ne: "h \<noteq> []" using t by auto
  have nr: "h \<noteq> replicate (length h) CHR ''/''"
  proof
    assume "h = replicate (length h) CHR ''/''"
    then have "set h \<subseteq> {CHR ''/''}" by (metis set_replicate_conv_if empty_subsetI subset_refl)
    with t show False by auto
  qed
  have d: "dirname ?p = rev (dropWhile (\<lambda>c. c = CHR ''/'') (rev h))"
    unfolding dirname_def Let_def i_def[symmetric] h_def[symmetric] using ne nr by simp
  have "\<exists>c\<in>set (rev h). \<not> c = CHR ''/''" using t by (intro bexI[of _ "CHR ''t''"]) simp_all
  then have "dropWhile (\<lambda>c. c = CHR ''/'') (rev h) \<noteq> []"
    by (simp only: dropWhile_eq_Nil_conv) blast
  then show ?thesis unfolding d by simp
qed

text \<open>
  \<open>download_file\<close> to a path where a file stands, in a directory with a name, goes on to
  the transfer.
\<close>

lemma download_file_existing:
  assumes "fs w p \<noteq> None" and "dirname p \<noteq> []"
  shows "download_file e w b n p =
           (case fget_error e b n of
              Some (c, m) \<Rightarrow> if c = ''S3Error'' then (Inr False, w) else (Inl (Exc c m), w)
            | None \<Rightarrow>
                (case blobs w (b, n) of
                   None \<Rightarrow> (Inr False, w)
                 | Some f \<Rightarrow> (Inr True, w\<lparr>fs := (fs w)(p \<mapsto> f)\<rparr>)))"
  using assms by (simp add: download_file_def)

text \<open>A download to a name without a directory part raises before any transfer.\<close>

lemma download_file_no_directory:
  "download_file e w b n ''metadata.json''
     = (Inl (Exc ''FileNotFoundError'' (''[Errno 2] No such file or directory: '' @ [CHR 0x27, CHR 0x27])), w)"
  by (simp add: download_file_def dirname_def rfind_def makedirs_def py_repr_def)

lemma minio_get_video_metadata_cleanup:
  "fs (snd (minio_get_video_metadata e w v)) (''/tmp/tmp'' @ temp_name e (draws w)) = None"
  using dirname_tmp[of "temp_name e (draws w)"]
  by (auto simp: minio_get_video_metadata_def named_temporary_file_def download_file_existing unlink_def Let_def
           split: option.splits prod.splits sum.splits filedata.splits if_splits)

lemma minio_get_video_metadata_ok:
  assumes "blobs w (MINIO_BUCKET_NAME e, ''metadata/'' @ v @ ''.json'') = Some (JsonFile doc)"
    and "\<forall>b n. fget_error e b n = None"
  shows "fst (minio_get_video_metadata e w v) = Some (json_load doc)"
  using assms dirname_tmp[of "temp_name e (draws w)"]
  by (simp add: minio_get_video_metadata_def named_temporary_file_def download_file_existing unlink_def Let_def)

text \<open>
  Claim C9, as amended. For every metadata dictionary that \<open>json\<close> represents faithfully
  (\<open>json_faithful\<close>), when neither transfer fails, \<open>upload_video_metadata\<close> stores it under
  \<open>metadata/<video id>.json\<close> in the default bucket and \<open>get_video_metadata\<close> on the
  resulting state returns an equal dictionary. For every dictionary that \<open>json.dump\<close>
  accepts, the temporary file of the upload is gone afterwards whatever the upload's
  outcome, and the temporary file of \<open>get_video_metadata\<close> is gone after every call.
\<close>

theorem metadata_roundtrip:
  "(json_dump m \<noteq> None \<longrightarrow>
      fs (snd (upload_video_metadata e w v m)) (''/tmp/tmp'' @ temp_name e (draws w) @ ''.json'') = None)
   \<and> fs (snd (minio_get_video_metadata e w' v)) (''/tmp/tmp'' @ temp_name e (draws w')) = None
   \<and> (json_faithful m \<and> (\<forall>b n. fput_error e b n = None) \<and> (\<forall>b n. fget_error e b n = None) \<longrightarrow>
        fst (upload_video_metadata e w v m) = Inr (MINIO_BUCKET_NAME e @ ''/metadata/'' @ v @ ''.json'')
        \<and> fst (minio_get_video_metadata e (snd (upload_video_metadata e w v m)) v) = Some m)"
proof (intro conjI impI)
  assume "json_dump m \<noteq> None"
  then show "fs (snd (upload_video_metadata e w v m)) (''/tmp/tmp'' @ temp_name e (draws w) @ ''.json'') = None"
    by (rule upload_video_metadata_cleanup)
next
  show "fs (snd (minio_get_video_metadata e w' v)) (''/tmp/tmp'' @ temp_name e (draws w')) = None"
    by (rule minio_get_video_metadata_cleanup)
next
  assume a: "json_faithful m \<and> (\<forall>b n. fput_error e b n = None) \<and> (\<forall>b n. fget_error e b n = None)"
  then obtain doc where doc: "json_dump m = Some doc" "json_load doc = m"
    using json_roundtrip(1) by blast
  note up = upload_video_metadata_ok[OF doc(1), of e w v]
  show "fst (upload_video_metadata e w v m) = Inr (MINIO_BUCKET_NAME e @ ''/metadata/'' @ v @ ''.json'')"
    using a up by simp
next
  assume a: "json_faithful m \<and> (\<forall>b n. fput_error e b n = None) \<and> (\<forall>b n. fget_error e b n = None)"
  then obtain doc where doc: "json_dump m = Some doc" "json_load doc = m"
    using json_roundtrip(1) by blast
  note up = upload_video_metadata_ok[OF doc(1), of e w v]
  show "fst (minio_get_video_metadata e (snd (upload_video_metadata e w v m)) v) = Some m"
    using a up doc(2) by (simp add: minio_get_video_metadata_ok)
qed

text \<open>The round trip of a metadata dictionary with a float, an integer, a string and a list.\<close>

theorem metadata_roundtrip_witness:
  "json_dump ex_metadata \<noteq> None \<and> json_faithful ex_metadata
   \<and> fs (snd (upload_video_metadata ex_env ex_world ''v1'' ex_metadata)) ''/tmp/tmpk3x90.json'' = None
   \<and> fst (minio_get_video_metadata ex_env (snd (upload_video_metadata ex_env ex_world ''v1'' ex_metadata)) ''v1'')
        = Some ex_metadata"
  using metadata_roundtrip[of ex_metadata ex_env ex_world "''v1''" ex_world]
  by (simp add: ex_metadata_def ex_env_def ex_world_def digits10.simps digit_char_def)

text \<open>
  Claim C9 as stated fails: the dictionary \<open>{1: "a"}\<close> is accepted by \<open>json.dump\<close>, which
  writes the key as the string \<open>"1"\<close>; what is read back is \<open>{"1": "a"}\<close>, a different
  dictionary.
\<close>

theorem metadata_roundtrip_counterexample:
  "json_dump (PDict [(PInt 1, PStr ''a'')]) = Some (JObject [(''1'', JString ''a'')])
   \<and> fst (minio_get_video_metadata ex_env
            (snd (upload_video_metadata ex_env ex_world ''v1'' (PDict [(PInt 1, PStr ''a'')]))) ''v1'')
        = Some (PDict [(PStr ''1'', PStr ''a'')])
   \<and> Some (PDict [(PStr ''1'', PStr ''a'')]) \<noteq> Some (PDict [(PInt 1, PStr ''a'')])"
proof -
  have d: "json_dump (PDict [(PInt 1, PStr ''a'')]) = Some (JObject [(''1'', JString ''a'')])"
    by (simp add: str_int_def digits10.simps digit_char_def)
  have f: "\<forall>b n. fput_error ex_env b n = None" "\<forall>b n. fget_error ex_env b n = None"
    by (simp_all add: ex_env_def)
  note up = upload_video_metadata_ok[OF d f(1), of ex_world "''v1''"]
  have "fst (minio_get_video_metadata ex_env
            (snd (upload_video_metadata ex_env ex_world ''v1'' (PDict [(PInt 1, PStr ''a'')]))) ''v1'')
        = Some (json_load (JObject [(''1'', JString ''a'')]))"
    unfolding up by (rule minio_get_video_metadata_ok) (simp_all add: f)
  then show ?thesis using d by simp
qed

text \<open>
  The caller asks for \<open>clip.mp4\<close>, the base name of the file, and the object is stored as
  \<open>clip_01234567.mp4\<close>.
\<close>

theorem upload_file_object_name_witness:
  "fst (upload_file ex_env ex_world ''/srv/media/videos/clip.mp4'' (Some ''processed-videos'') (Some ''clip.mp4''))
     = Inr ''processed-videos/clip_01234567.mp4''
   \<and> blobs (snd (upload_file ex_env ex_world ''/srv/media/videos/clip.mp4'' (Some ''processed-videos'') (Some ''clip.mp4'')))
       (''processed-videos'', ''clip_01234567.mp4'') = Some (VideoFile ten_frames)"
proof -
  have b: "basename ''/srv/media/videos/clip.mp4'' = ''clip.mp4''"
    by (simp add: basename_def rfind_def)
  have s: "splitext ''clip.mp4'' = (''clip'', ''.mp4'')"
    by (simp add: splitext_def rfind_def)
  have u: "take 8 (uuid_hex (uuid4 ex_env (draws ex_world))) = ''01234567''"
    by (simp add: ex_env_def ex_world_def uuid_hex_def digit_char_def upt_rec)
  have f: "fs ex_world ''/srv/media/videos/clip.mp4'' = Some (VideoFile ten_frames)"
    by (simp add: ex_world_def)
  have p: "\<forall>b n. fput_error ex_env b n = None" by (simp add: ex_env_def)
  show ?thesis
    using upload_file_object_name[OF f p, of "Some ''processed-videos''" "Some ''clip.mp4''"]
    by (simp add: b s u Let_def split: prod.splits)
qed

section \<open>Properties of the processor\<close>

lemma duration_of_eq:
  "duration_of n f = Inr (if f > 0 then real_of_int n / f else 0)"
  by (simp add: duration_of_def py_truediv_def)

lemma acquire_release [simp]: "release (acquire w) = w"
  by (simp add: acquire_def release_def)

lemma process_frame_number: "process_frame e fr i = Inr r \<Longrightarrow> fr_frame_number r = i"
  by (auto simp: process_frame_def split: sum.splits prod.splits)

lemma selected_Nil [simp]: "selected k n [] = []"
  by (simp add: selected_def delivered_def)

lemma selected_None [simp]: "selected k n (None # rest) = []"
  by (simp add: selected_def delivered_def)

lemma selected_Some:
  "selected k n (Some fr # rest) =
     (if int n mod k = 0 then (n, fr) # selected k (Suc n) rest else selected k (Suc n) rest)"
  by (simp add: selected_def delivered_def)

lemma map_fst_selected:
  "map fst (selected k n s) = filter (\<lambda>i. int i mod k = 0) [n..<n + length (delivered s)]"
proof -
  have "map fst (filter (\<lambda>(i, fr). int i mod k = 0) xs) = filter (\<lambda>i. int i mod k = 0) (map fst xs)"
    for xs :: "(nat \<times> frame) list"
    by (induction xs) auto
  then show ?thesis by (simp add: selected_def)
qed

lemma process_video_loop_returns:
  assumes "k \<noteq> 0"
    and "list_all (\<lambda>(i, fr). isl (process_frame e fr i) = False) (selected k n s)"
  shows "\<exists>dets' written'.
           process_video_loop e out k s n dets processed written
             = (None, dets', processed + length (selected k n s), written')
           \<and> map Inr dets' = map Inr dets @ map (\<lambda>(i, fr). process_frame e fr i) (selected k n s)"
  using assms
proof (induction e out k s n dets processed written rule: process_video_loop.induct)
  case (3 e out k fr rest n dets processed written)
  show ?case
  proof (cases "int n mod k = 0")
    case True
    with 3(4) obtain r where r: "process_frame e fr n = Inr r"
      by (cases "process_frame e fr n") (auto simp: selected_Some)
    from 3(4) True have rest: "list_all (\<lambda>(i, fr). isl (process_frame e fr i) = False) (selected k (Suc n) rest)"
      by (simp add: selected_Some)
    have m: "py_mod (int n) k = Inr 0" using True 3(3) by (simp add: py_mod_def)
    from 3(1)[OF m _ r refl 3(3)] rest True
    show ?thesis using m r True by (simp add: selected_Some Let_def)
  next
    case False
    with 3(4) have rest: "list_all (\<lambda>(i, fr). isl (process_frame e fr i) = False) (selected k (Suc n) rest)"
      by (simp add: selected_Some)
    have m: "py_mod (int n) k = Inr (int n mod k)" using 3(3) by (simp add: py_mod_def)
    from 3(2)[OF m False 3(3)] rest False
    show ?thesis using m by (simp add: selected_Some)
  qed
qed simp_all

lemma process_video_loop_raises:
  assumes "k \<noteq> 0"
    and "\<not> list_all (\<lambda>(i, fr). isl (process_frame e fr i) = False) (selected k n s)"
  shows "\<exists>ex dets' processed' written'.
           process_video_loop e out k s n dets processed written = (Some ex, dets', processed', written')"
  using assms
proof (induction e out k s n dets processed written rule: process_video_loop.induct)
  case (3 e out k fr rest n dets processed written)
  show ?case
  proof (cases "int n mod k = 0")
    case True
    have m: "py_mod (int n) k = Inr 0" using True 3(3) by (simp add: py_mod_def)
    show ?thesis
    proof (cases "process_frame e fr n")
      case (Inl ex)
      then show ?thesis using m by simp
    next
      case (Inr r)
      with 3(4) True have rest: "\<not> list_all (\<lambda>(i, fr). isl (process_frame e fr i) = False) (selected k (Suc n) rest)"
        by (simp add: selected_Some)
      from 3(1)[OF m _ Inr refl 3(3)] rest True
      show ?thesis using m Inr by (simp add: Let_def)
    qed
  next
    case False
    with 3(4) have rest: "\<not> list_all (\<lambda>(i, fr). isl (process_frame e fr i) = False) (selected k (Suc n) rest)"
      by (simp add: selected_Some)
    have m: "py_mod (int n) k = Inr (int n mod k)" using 3(3) by (simp add: py_mod_def)
    from 3(2)[OF m False 3(3)] rest False
    show ?thesis using m by simp
  qed
qed simp_all

lemma boxes_loop_geometry:
  "boxes_loop e boxes dets = Inr dets' \<Longrightarrow>
     map (\<lambda>d. (bbox_x d, bbox_y d, bbox_width d, bbox_height d)) dets'
       = map (\<lambda>d. (bbox_x d, bbox_y d, bbox_width d, bbox_height d)) dets
         @ map (\<lambda>b. case xyxy b of (x1, y1, x2, y2) \<Rightarrow> (x1, y1, x2 - x1, y2 - y1)) boxes"
proof (induction boxes arbitrary: dets)
  case Nil
  then show ?case by simp
next
  case (Cons b boxes)
  then obtain d where d: "box_detection e b = Inr d" and rest: "boxes_loop e boxes (dets @ [d]) = Inr dets'"
    by (auto split: sum.splits)
  from d have "(bbox_x d, bbox_y d, bbox_width d, bbox_height d)
                 = (case xyxy b of (x1, y1, x2, y2) \<Rightarrow> (x1, y1, x2 - x1, y2 - y1))"
    by (auto simp: box_detection_def Let_def split: prod.splits option.splits)
  with Cons.IH[OF rest] show ?case by simp
qed

lemma results_loop_geometry:
  "results_loop e rs dets = Inr dets' \<Longrightarrow>
     map (\<lambda>d. (bbox_x d, bbox_y d, bbox_width d, bbox_height d)) dets'
       = map (\<lambda>d. (bbox_x d, bbox_y d, bbox_width d, bbox_height d)) dets
         @ map (\<lambda>b. case xyxy b of (x1, y1, x2, y2) \<Rightarrow> (x1, y1, x2 - x1, y2 - y1))
             (concat (map (case_option [] id) rs))"
proof (induction e rs dets rule: results_loop.induct)
  case (3 e boxes rs dets)
  then obtain mid where mid: "boxes_loop e boxes dets = Inr mid" and rest: "results_loop e rs mid = Inr dets'"
    by (auto split: sum.splits)
  from 3(1)[OF mid rest] boxes_loop_geometry[OF mid] show ?case by simp
qed simp_all

text \<open>
  Claim C6, as amended. Every box of the model's output yields one detection, in order,
  with \<open>x = x1\<close>, \<open>y = y1\<close>, \<open>width = x2 - x1\<close> and \<open>height = y2 - y1\<close>: no box is rejected
  and no size is clamped. So all detections of a frame have \<open>width \<ge> 0\<close> and
  \<open>height \<ge> 0\<close> exactly when all boxes of the model's output have \<open>x1 \<le> x2\<close> and
  \<open>y1 \<le> y2\<close>.
\<close>

theorem detection_bbox:
  assumes "process_frame e fr n = Inr r" and "model_call e fr = Inr rs"
  shows "map (\<lambda>d. (bbox_x d, bbox_y d, bbox_width d, bbox_height d)) (fr_objects r)
           = map (\<lambda>b. case xyxy b of (x1, y1, x2, y2) \<Rightarrow> (x1, y1, x2 - x1, y2 - y1))
               (concat (map (case_option [] id) rs))
         \<and> (list_all (\<lambda>d. 0 \<le> bbox_width d \<and> 0 \<le> bbox_height d) (fr_objects r)
              \<longleftrightarrow> list_all (\<lambda>b. case xyxy b of (x1, y1, x2, y2) \<Rightarrow> x1 \<le> x2 \<and> y1 \<le> y2)
                    (concat (map (case_option [] id) rs)))"
proof -
  let ?g = "\<lambda>d. (bbox_x d, bbox_y d, bbox_width d, bbox_height d)"
  let ?h = "\<lambda>b. case xyxy b of (x1, y1, x2, y2) \<Rightarrow> (x1, y1, x2 - x1, y2 - y1)"
  let ?bs = "concat (map (case_option [] id) rs)"
  from assms obtain dets where dets: "results_loop e rs [] = Inr dets" and r: "fr_objects r = dets"
    by (auto simp: process_frame_def split: sum.splits)
  from results_loop_geometry[OF dets] r have geo: "map ?g (fr_objects r) = map ?h ?bs" by simp
  have "list_all (\<lambda>d. 0 \<le> bbox_width d \<and> 0 \<le> bbox_height d) (fr_objects r)
          \<longleftrightarrow> list_all (\<lambda>(x, y, w, h). 0 \<le> w \<and> 0 \<le> h) (map ?g (fr_objects r))"
    by (simp add: list_all_iff)
  also have "\<dots> \<longleftrightarrow> list_all (\<lambda>(x, y, w, h). 0 \<le> w \<and> 0 \<le> h) (map ?h ?bs)"
    by (simp only: geo)
  also have "\<dots> \<longleftrightarrow> list_all (\<lambda>b. case xyxy b of (x1, y1, x2, y2) \<Rightarrow> x1 \<le> x2 \<and> y1 \<le> y2) ?bs"
    by (auto simp: list_all_iff split: prod.splits)
  finally show ?thesis using geo by blast
qed

text \<open>The box \<open>(10, 20)-(110, 220)\<close> becomes \<open>(10, 20, 100, 200)\<close>.\<close>

theorem detection_bbox_witness:
  "(\<exists>r. process_frame ex_env (Frame 0 []) 0 = Inr r
      \<and> map (\<lambda>d. (bbox_x d, bbox_y d, bbox_width d, bbox_height d)) (fr_objects r) = [(10, 20, 100, 200)])"
proof -
  have m: "model_call ex_env (Frame 0 []) = Inr [Some [\<lparr>xyxy = (10, 20, 110, 220), cls = 0, conf = 9 / 10\<rparr>]]"
    by (simp add: ex_env_def)
  obtain r where r: "process_frame ex_env (Frame 0 []) 0 = Inr r"
    by (simp add: process_frame_def box_detection_def ex_env_def py_int_def)
  from detection_bbox[OF r m] r show ?thesis by simp
qed

text \<open>
  Claim C6 as stated fails: for the model output \<open>(10, 10)-(5, 20)\<close> the detection is
  stored with width \<open>-5\<close>.
\<close>

theorem detection_bbox_counterexample:
  "map_sum id (\<lambda>r. map bbox_width (fr_objects r)) (process_frame inverted_env (Frame 0 []) 0) = Inr [- 5]"
  by (simp add: process_frame_def box_detection_def inverted_env_def ex_env_def py_int_def)

lemma process_video_loop_first_error:
  assumes "k \<noteq> 0"
    and "find (\<lambda>(i, fr). isl (process_frame e fr i)) (selected k n s) = Some (j, g)"
  shows "\<exists>dets' processed' written'.
           process_video_loop e out k s n dets processed written
             = (Some (projl (process_frame e g j)), dets', processed', written')"
  using assms
proof (induction e out k s n dets processed written rule: process_video_loop.induct)
  case (3 e out k fr rest n dets processed written)
  show ?case
  proof (cases "int n mod k = 0")
    case True
    have m: "py_mod (int n) k = Inr 0" using True 3(3) by (simp add: py_mod_def)
    show ?thesis
    proof (cases "process_frame e fr n")
      case (Inl ex)
      with 3(4) True have "j = n" "g = fr" by (simp_all add: selected_Some)
      then show ?thesis using m Inl by simp
    next
      case (Inr r)
      with 3(4) True have rest: "find (\<lambda>(i, fr). isl (process_frame e fr i)) (selected k (Suc n) rest) = Some (j, g)"
        by (simp add: selected_Some)
      from 3(1)[OF m _ Inr refl 3(3)] rest True
      show ?thesis using m Inr by (simp add: Let_def)
    qed
  next
    case False
    with 3(4) have rest: "find (\<lambda>(i, fr). isl (process_frame e fr i)) (selected k (Suc n) rest) = Some (j, g)"
      by (simp add: selected_Some)
    have m: "py_mod (int n) k = Inr (int n mod k)" using 3(3) by (simp add: py_mod_def)
    from 3(2)[OF m False 3(3)] rest False
    show ?thesis using m by simp
  qed
qed simp_all

lemma process_video_handles:
  "open_handles (snd (process_video e w p out k)) = open_handles w"
  by (auto simp: process_video_def duration_of_eq Let_def acquire_def release_def
           split: option.splits filedata.splits prod.splits)

lemma process_video_result:
  assumes "fs w p = Some (VideoFile c)"
    and "process_video_loop e (py_or out [] \<noteq> []) k (stream c) 0 [] 0 [] = (raised, dets, processed, written)"
  shows "fst (process_video e w p out k)
           = (case raised of
                Some ex \<Rightarrow> Inl ex
              | None \<Rightarrow>
                  Inr \<lparr>r_total_frames = py_int (prop_frame_count c),
                       r_processed_frames = processed,
                       r_detections = dets,
                       r_processing_time = video_seconds e,
                       r_video_metadata =
                         \<lparr>md_fps = prop_fps c, md_frame_count = py_int (prop_frame_count c),
                          md_width = py_int (prop_frame_width c), md_height = py_int (prop_frame_height c),
                          md_duration = (if prop_fps c > 0
                                         then real_of_int (py_int (prop_frame_count c)) / prop_fps c else 0)\<rparr>\<rparr>)"
  using assms by (simp add: process_video_def duration_of_eq Let_def split: option.splits)

text \<open>
  Claim C5. The duration is computed without ever dividing by zero: it is
  \<open>frame_count / fps\<close> when \<open>fps > 0\<close> and \<open>0\<close> otherwise. For every file that is a video,
  \<open>get_video_metadata\<close> returns metadata whose duration is that value of its own \<open>fps\<close> and
  \<open>frame_count\<close>, and so does the \<open>video_metadata\<close> of every result of \<open>process_video\<close>.
  \<open>process_video\<close> does return such a result, whatever \<open>fps\<close> is, when the interval is
  not zero and no detection raises on a selected frame; and an exception that it raises
  is always one that left its frame loop, never one of the computation of the duration.
  (Python's float division is modelled by division of reals.)
\<close>

theorem video_duration:
  assumes "fs w p = Some (VideoFile c)"
  shows "duration_of n f = Inr (if f > 0 then real_of_int n / f else 0)
    \<and> (\<exists>md. fst (get_video_metadata e w p) = Inr md
          \<and> md_fps md = prop_fps c \<and> md_frame_count md = py_int (prop_frame_count c)
          \<and> md_duration md = (if md_fps md > 0 then real_of_int (md_frame_count md) / md_fps md else 0))
    \<and> (\<forall>r. fst (process_video e w p out k) = Inr r \<longrightarrow>
          md_fps (r_video_metadata r) = prop_fps c
          \<and> md_frame_count (r_video_metadata r) = py_int (prop_frame_count c)
          \<and> md_duration (r_video_metadata r) =
              (if md_fps (r_video_metadata r) > 0
               then real_of_int (md_frame_count (r_video_metadata r)) / md_fps (r_video_metadata r)
               else 0))
    \<and> (k \<noteq> 0 \<and> list_all (\<lambda>(i, fr). isl (process_frame e fr i) = False) (selected k 0 (stream c)) \<longrightarrow>
          (\<exists>r. fst (process_video e w p out k) = Inr r
             \<and> md_fps (r_video_metadata r) = prop_fps c
             \<and> md_frame_count (r_video_metadata r) = py_int (prop_frame_count c)
             \<and> md_duration (r_video_metadata r) =
                 (if prop_fps c > 0 then real_of_int (py_int (prop_frame_count c)) / prop_fps c else 0)))
    \<and> (\<forall>ex. fst (process_video e w p out k) = Inl ex \<longrightarrow>
          fst (process_video_loop e (py_or out [] \<noteq> []) k (stream c) 0 [] 0 []) = Some ex)"
proof (intro conjI allI impI)
  show "duration_of n f = Inr (if f > 0 then real_of_int n / f else 0)"
    by (rule duration_of_eq)
  show "\<exists>md. fst (get_video_metadata e w p) = Inr md
          \<and> md_fps md = prop_fps c \<and> md_frame_count md = py_int (prop_frame_count c)
          \<and> md_duration md = (if md_fps md > 0 then real_of_int (md_frame_count md) / md_fps md else 0)"
    using assms by (simp add: get_video_metadata_def duration_of_eq Let_def)
next
  fix r assume r: "fst (process_video e w p out k) = Inr r"
  obtain raised dets processed written where
    l: "process_video_loop e (py_or out [] \<noteq> []) k (stream c) 0 [] 0 [] = (raised, dets, processed, written)"
    by (metis prod_cases4)
  from r process_video_result[OF assms l] have vm: "r_video_metadata r =
      \<lparr>md_fps = prop_fps c, md_frame_count = py_int (prop_frame_count c),
       md_width = py_int (prop_frame_width c), md_height = py_int (prop_frame_height c),
       md_duration = (if prop_fps c > 0 then real_of_int (py_int (prop_frame_count c)) / prop_fps c else 0)\<rparr>"
    by (cases raised) auto
  show "md_fps (r_video_metadata r) = prop_fps c" by (simp add: vm)
  show "md_frame_count (r_video_metadata r) = py_int (prop_frame_count c)" by (simp add: vm)
  show "md_duration (r_video_metadata r) =
              (if md_fps (r_video_metadata r) > 0
               then real_of_int (md_frame_count (r_video_metadata r)) / md_fps (r_video_metadata r)
               else 0)" by (simp add: vm)
next
  assume a: "k \<noteq> 0 \<and> list_all (\<lambda>(i, fr). isl (process_frame e fr i) = False) (selected k 0 (stream c))"
  then have k: "k \<noteq> 0"
    and ok: "list_all (\<lambda>(i, fr). isl (process_frame e fr i) = False) (selected k 0 (stream c))"
    by simp_all
  from process_video_loop_returns[OF k ok, of "py_or out [] \<noteq> []" "[]" 0 "[]"]
  obtain dets written where
    l: "process_video_loop e (py_or out [] \<noteq> []) k (stream c) 0 [] 0 []
          = (None, dets, 0 + length (selected k 0 (stream c)), written)"
    by blast
  show "\<exists>r. fst (process_video e w p out k) = Inr r
             \<and> md_fps (r_video_metadata r) = prop_fps c
             \<and> md_frame_count (r_video_metadata r) = py_int (prop_frame_count c)
             \<and> md_duration (r_video_metadata r) =
                 (if prop_fps c > 0 then real_of_int (py_int (prop_frame_count c)) / prop_fps c else 0)"
    using process_video_result[OF assms l] by simp
next
  fix ex assume ex: "fst (process_video e w p out k) = Inl ex"
  obtain raised dets processed written where
    l: "process_video_loop e (py_or out [] \<noteq> []) k (stream c) 0 [] 0 [] = (raised, dets, processed, written)"
    by (metis prod_cases4)
  from ex process_video_result[OF assms l] have "raised = Some ex"
    by (cases raised) auto
  then show "fst (process_video_loop e (py_or out [] \<noteq> []) k (stream c) 0 [] 0 []) = Some ex"
    by (simp add: l)
qed

lemma process_frame_ex:
  "process_frame ex_env fr i =
     Inr \<lparr>fr_frame_number = i,
          fr_objects = [\<lparr>det_class = ''person'', det_confidence = 9 / 10,
                        bbox_x = 10, bbox_y = 20, bbox_width = 100, bbox_height = 200\<rparr>],
          fr_processing_time = 1 / 100, fr_object_count = 1\<rparr>"
  by (simp add: process_frame_def box_detection_def ex_env_def py_int_def)

text \<open>
  300 frames at 30 frames per second last 10 seconds, for \<open>get_video_metadata\<close> and for
  \<open>process_video\<close>; with \<open>fps = 0\<close> both give the duration 0.
\<close>

theorem video_duration_witness:
  "(\<exists>md. fst (get_video_metadata ex_env long_world ''/srv/media/videos/clip.mp4'') = Inr md
      \<and> md_fps md = 30 \<and> md_frame_count md = 300 \<and> md_duration md = 10)
   \<and> (\<exists>md. fst (get_video_metadata ex_env
                  (long_world\<lparr>fs := [''z.mp4'' \<mapsto> VideoFile (long_clip\<lparr>prop_fps := 0\<rparr>)]\<rparr>) ''z.mp4'') = Inr md
      \<and> md_fps md = 0 \<and> md_frame_count md = 300 \<and> md_duration md = 0)
   \<and> (\<exists>r. fst (process_video ex_env long_world ''/srv/media/videos/clip.mp4'' None 1) = Inr r
      \<and> md_fps (r_video_metadata r) = 30 \<and> md_frame_count (r_video_metadata r) = 300
      \<and> md_duration (r_video_metadata r) = 10)
   \<and> (\<exists>r. fst (process_video ex_env
                  (long_world\<lparr>fs := [''z.mp4'' \<mapsto> VideoFile (long_clip\<lparr>prop_fps := 0\<rparr>)]\<rparr>) ''z.mp4'' None 1) = Inr r
      \<and> md_fps (r_video_metadata r) = 0 \<and> md_frame_count (r_video_metadata r) = 300
      \<and> md_duration (r_video_metadata r) = 0)"
proof -
  have a: "fs long_world ''/srv/media/videos/clip.mp4'' = Some (VideoFile long_clip)"
    by (simp add: long_world_def ex_world_def)
  have b: "fs (long_world\<lparr>fs := [''z.mp4'' \<mapsto> VideoFile (long_clip\<lparr>prop_fps := 0\<rparr>)]\<rparr>) ''z.mp4''
             = Some (VideoFile (long_clip\<lparr>prop_fps := 0\<rparr>))"
    by simp
  have ok: "list_all (\<lambda>(i, fr). isl (process_frame ex_env fr i) = False) (selected 1 0 s)" for s
    by (simp add: list_all_iff process_frame_ex)
  have p: "prop_fps long_clip = 30" "py_int (prop_frame_count long_clip) = 300"
    by (simp_all add: long_clip_def py_int_def)
  note t1 = video_duration[OF a, of 0 0 ex_env None 1]
  note t2 = video_duration[OF b, of 0 0 ex_env None 1]
  from t1 have g1: "\<exists>md. fst (get_video_metadata ex_env long_world ''/srv/media/videos/clip.mp4'') = Inr md
      \<and> md_fps md = 30 \<and> md_frame_count md = 300 \<and> md_duration md = 10"
    by (auto simp: p)
  from t2 have g2: "\<exists>md. fst (get_video_metadata ex_env
                  (long_world\<lparr>fs := [''z.mp4'' \<mapsto> VideoFile (long_clip\<lparr>prop_fps := 0\<rparr>)]\<rparr>) ''z.mp4'') = Inr md
      \<and> md_fps md = 0 \<and> md_frame_count md = 300 \<and> md_duration md = 0"
    by (auto simp: p)
  from t1 ok[of "stream long_clip"]
  have r1: "\<exists>r. fst (process_video ex_env long_world ''/srv/media/videos/clip.mp4'' None 1) = Inr r
      \<and> md_fps (r_video_metadata r) = 30 \<and> md_frame_count (r_video_metadata r) = 300
      \<and> md_duration (r_video_metadata r) = 10"
    by (simp add: p)
  from t2 ok[of "stream (long_clip\<lparr>prop_fps := 0\<rparr>)"]
  have r2: "\<exists>r. fst (process_video ex_env
                  (long_world\<lparr>fs := [''z.mp4'' \<mapsto> VideoFile (long_clip\<lparr>prop_fps := 0\<rparr>)]\<rparr>) ''z.mp4'' None 1) = Inr r
      \<and> md_fps (r_video_metadata r) = 0 \<and> md_frame_count (r_video_metadata r) = 300
      \<and> md_duration (r_video_metadata r) = 0"
    by (simp add: p)
  from g1 g2 r1 r2 show ?thesis by (intro conjI)
qed

lemma frame_numbers_of_results:
  "map Inr ds = map (\<lambda>(i, fr). process_frame e fr i) sel \<Longrightarrow> map fr_frame_number ds = map fst sel"
proof (induction ds arbitrary: sel)
  case Nil
  then show ?case by simp
next
  case (Cons d ds)
  then obtain i fr sel' where sel: "sel = (i, fr) # sel'" by (cases sel) auto
  with Cons.prems have "process_frame e fr i = Inr d" and "map Inr ds = map (\<lambda>(i, fr). process_frame e fr i) sel'"
    by simp_all
  then show ?case using Cons.IH sel by (simp add: process_frame_number)
qed

lemma delivered_decode_failure: "delivered (map Some pre @ None # rest) = pre"
proof -
  have "takeWhile (\<lambda>x. x \<noteq> None) (map Some pre @ None # rest) = map Some pre"
    by (induction pre) auto
  then show ?thesis by (simp add: delivered_def comp_def)
qed

text \<open>
  Claim C3, as amended. For every video and every interval other than zero,
  \<open>process_video\<close> gives back every handle it took, however it ends. The frames it
  works on are those delivered before the first failed read, so for a stream
  \<open>pre, undecodable frame, rest\<close> these are the frames \<open>pre\<close>. When no detection raises on
  a selected frame, it returns the results computed for all selected frames delivered,
  in order. When a detection raises, the exception of the first such frame propagates
  (after the handles are released) and no result is returned.
\<close>

theorem process_video_errors:
  assumes "fs w p = Some (VideoFile c)" and "k \<noteq> 0"
  shows "open_handles (snd (process_video e w p out k)) = open_handles w
    \<and> (stream c = map Some pre @ None # rest \<longrightarrow> delivered (stream c) = pre)
    \<and> (list_all (\<lambda>(i, fr). isl (process_frame e fr i) = False) (selected k 0 (stream c)) \<longrightarrow>
         (\<exists>r. fst (process_video e w p out k) = Inr r
            \<and> map Inr (r_detections r) = map (\<lambda>(i, fr). process_frame e fr i) (selected k 0 (stream c))
            \<and> r_processed_frames r = length (selected k 0 (stream c))))
    \<and> (find (\<lambda>(i, fr). isl (process_frame e fr i)) (selected k 0 (stream c)) = Some (j, g) \<longrightarrow>
         fst (process_video e w p out k) = Inl (projl (process_frame e g j)))"
proof (intro conjI impI)
  show "open_handles (snd (process_video e w p out k)) = open_handles w"
    by (rule process_video_handles)
next
  assume "stream c = map Some pre @ None # rest"
  then show "delivered (stream c) = pre" by (simp add: delivered_decode_failure)
next
  assume ok: "list_all (\<lambda>(i, fr). isl (process_frame e fr i) = False) (selected k 0 (stream c))"
  from process_video_loop_returns[OF assms(2) ok, of "py_or out [] \<noteq> []" "[]" 0 "[]"]
  obtain dets written where
    l: "process_video_loop e (py_or out [] \<noteq> []) k (stream c) 0 [] 0 []
          = (None, dets, 0 + length (selected k 0 (stream c)), written)"
    and d: "map Inr dets = map Inr [] @ map (\<lambda>(i, fr). process_frame e fr i) (selected k 0 (stream c))"
    by blast
  show "\<exists>r. fst (process_video e w p out k) = Inr r
            \<and> map Inr (r_detections r) = map (\<lambda>(i, fr). process_frame e fr i) (selected k 0 (stream c))
            \<and> r_processed_frames r = length (selected k 0 (stream c))"
    using process_video_result[OF assms(1) l] d by simp
next
  assume f: "find (\<lambda>(i, fr). isl (process_frame e fr i)) (selected k 0 (stream c)) = Some (j, g)"
  from process_video_loop_first_error[OF assms(2) f, of "py_or out [] \<noteq> []" "[]" 0 "[]"]
  obtain dets processed written where
    l: "process_video_loop e (py_or out [] \<noteq> []) k (stream c) 0 [] 0 []
          = (Some (projl (process_frame e g j)), dets, processed, written)"
    by blast
  show "fst (process_video e w p out k) = Inl (projl (process_frame e g j))"
    using process_video_result[OF assms(1) l] by simp
qed

lemma selected_ten:
  "selected 1 0 (stream ten_frames) =
     [(0, Frame 0 []), (1, Frame 1 []), (2, Frame 2 []), (3, Frame 3 []), (4, Frame 4 []),
      (5, Frame 5 []), (6, Frame 6 []), (7, Frame 7 []), (8, Frame 8 []), (9, Frame 9 [])]"
  by (simp add: ten_frames_def selected_Some)

lemma selected_damaged:
  "selected 1 0 (stream damaged_frames) =
     [(0, Frame 0 []), (1, Frame 1 []), (2, Frame 2 []), (3, Frame 3 []), (4, Frame 4 [])]"
  by (simp add: damaged_frames_def ten_frames_def selected_Some)

text \<open>
  A ten-frame video whose sixth frame cannot be decoded: the results for frames 0 to 4 are
  returned and no handle stays open.
\<close>

theorem process_video_errors_witness:
  "(\<exists>r. fst (process_video ex_env damaged_world ''/srv/media/videos/clip.mp4'' None 1) = Inr r
       \<and> map fr_frame_number (r_detections r) = [0, 1, 2, 3, 4]
       \<and> r_processed_frames r = 5)
   \<and> open_handles (snd (process_video ex_env damaged_world ''/srv/media/videos/clip.mp4'' None 1)) = 0"
proof -
  have f: "fs damaged_world ''/srv/media/videos/clip.mp4'' = Some (VideoFile damaged_frames)"
    by (simp add: damaged_world_def ex_world_def)
  have k: "(1::int) \<noteq> 0" by simp
  have ok: "list_all (\<lambda>(i, fr). isl (process_frame ex_env fr i) = False) (selected 1 0 (stream damaged_frames))"
    by (simp add: selected_damaged process_frame_ex)
  from process_video_errors[OF f k, of ex_env None "[]" "[]" 0 "Frame 0 []"] ok
  obtain r where r: "fst (process_video ex_env damaged_world ''/srv/media/videos/clip.mp4'' None 1) = Inr r"
    and d: "map Inr (r_detections r) = map (\<lambda>(i, fr). process_frame ex_env fr i) (selected 1 0 (stream damaged_frames))"
    and n: "r_processed_frames r = length (selected 1 0 (stream damaged_frames))"
    and h: "open_handles (snd (process_video ex_env damaged_world ''/srv/media/videos/clip.mp4'' None 1))
              = open_handles damaged_world"
    by blast
  from frame_numbers_of_results[OF d]
  have "map fr_frame_number (r_detections r) = [0, 1, 2, 3, 4]" by (simp add: selected_damaged)
  with r n h show ?thesis by (simp add: selected_damaged damaged_world_def ex_world_def)
qed

text \<open>
  Claim C3 as stated fails for a detection error: with a model that fails on the fourth
  frame, \<open>process_video\<close> raises that error; the results computed for the first three
  frames (which are the same as with the working model) are not returned.
\<close>

theorem process_video_errors_counterexample:
  "fst (process_video failing_env ex_world ''/srv/media/videos/clip.mp4'' None 1)
     = Inl (Exc ''RuntimeError'' ''CUDA out of memory'')
   \<and> process_frame failing_env (Frame 0 []) 0 = process_frame ex_env (Frame 0 []) 0"
  by (simp add: process_video_def ex_world_def ten_frames_def duration_of_eq Let_def
        py_mod_def process_frame_def box_detection_def failing_env_def ex_env_def py_int_def
        acquire_def release_def)

lemma extract_frames_loop_result:
  assumes "k \<noteq> 0"
  shows "\<exists>w'. extract_frames_loop dir k s n paths w
           = (None, paths @ map (\<lambda>(i, fr). path_join dir (''frame_'' @ fmt_06d i @ ''.jpg'')) (selected k n s), w')
         \<and> open_handles w' = open_handles w"
  using assms
proof (induction dir k s n paths w rule: extract_frames_loop.induct)
  case (3 dir k fr rest n paths w)
  have m: "py_mod (int n) k = Inr (int n mod k)" using 3(3) by (simp add: py_mod_def)
  show ?case
  proof (cases "int n mod k = 0")
    case True
    from 3(1)[OF m True refl refl 3(3)] show ?thesis using m True by (simp add: selected_Some Let_def)
  next
    case False
    from 3(2)[OF m False 3(3)] show ?thesis using m False by (simp add: selected_Some)
  qed
qed simp_all

lemma delivered_intact:
  assumes "intact c"
  shows "length (delivered (stream c)) = nat (py_int (prop_frame_count c))"
proof -
  from assms have "\<forall>x\<in>set (stream c). x \<noteq> None"
    by (simp add: intact_def list_all_iff)
  then have "takeWhile (\<lambda>x. x \<noteq> None) (stream c) = stream c"
    by (rule takeWhile_eq_all_conv[THEN iffD2])
  then have "length (delivered (stream c)) = length (stream c)"
    unfolding delivered_def by (simp only: length_map)
  moreover from assms have "py_int (prop_frame_count c) = int (length (stream c))"
    by (simp add: intact_def py_int_def)
  ultimately show ?thesis by simp
qed

lemma multiples_below:
  assumes "1 \<le> k"
  shows "set (filter (\<lambda>i. int i mod k = 0) [0..<n]) = {j * nat k | j. j * nat k < n}"
proof -
  have "int i mod k = 0 \<longleftrightarrow> (\<exists>j. i = j * nat k)" for i
  proof
    assume "int i mod k = 0"
    then have "k dvd int i" by (simp add: mod_eq_0_iff_dvd)
    then have "int (nat k) dvd int i" using assms by simp
    then have "nat k dvd i" by (simp only: int_dvd_int_iff)
    then show "\<exists>j. i = j * nat k" by (auto simp: dvd_def mult.commute)
  next
    assume "\<exists>j. i = j * nat k"
    then obtain j where "i = j * nat k" ..
    then have "int i = int j * k" using assms by simp
    then show "int i mod k = 0" by simp
  qed
  then show ?thesis by auto
qed

lemma makedirs_exn: "makedirs e w d \<noteq> Some VideoDoesNotExist"
  by (simp add: makedirs_def split: option.splits)

lemma extract_frames_result:
  assumes "fs w p = Some (VideoFile c)" and "k \<noteq> 0"
  shows "fst (extract_frames e w p dir k)
           = (case makedirs e w dir of
                Some ex \<Rightarrow> Inl ex
              | None \<Rightarrow>
                  Inr (map (\<lambda>(i, fr). path_join dir (''frame_'' @ fmt_06d i @ ''.jpg''))
                        (selected k 0 (stream c))))"
proof (cases "makedirs e w dir")
  case (Some ex)
  with assms(1) show ?thesis by (simp add: extract_frames_def)
next
  case None
  from extract_frames_loop_result[OF assms(2), of dir "stream c" 0 "[]" "acquire w"]
  obtain w' where
    l: "extract_frames_loop dir k (stream c) 0 [] (acquire w)
          = (None, map (\<lambda>(i, fr). path_join dir (''frame_'' @ fmt_06d i @ ''.jpg'')) (selected k 0 (stream c)), w')"
    by auto
  with assms(1) None show ?thesis by (simp add: extract_frames_def)
qed

text \<open>
  Claim C4, as amended. For every video and every interval \<open>k \<ge> 1\<close>, with \<open>n\<close> the number
  of frames delivered before the first failed read: \<open>extract_frames\<close> raises the error of
  \<open>os.makedirs\<close> when the output directory cannot be made, and otherwise returns the paths
  of the frames \<open>i < n\<close> with \<open>i mod k = 0\<close>, in increasing order; every result of
  \<open>process_video\<close> holds detections for exactly those frame numbers, in increasing order,
  and \<open>process_video\<close> returns a result whenever no detection raises; as a set these are
  the multiples of \<open>k\<close> below \<open>n\<close>; and \<open>n\<close> is the video's \<open>frame_count\<close> when the video
  is intact.
\<close>

theorem frame_sampling:
  assumes "fs w p = Some (VideoFile c)" and "1 \<le> k"
  shows "fst (extract_frames e w p dir k)
           = (case makedirs e w dir of
                Some ex \<Rightarrow> Inl ex
              | None \<Rightarrow>
                  Inr (map (\<lambda>i. path_join dir (''frame_'' @ fmt_06d i @ ''.jpg''))
                        (filter (\<lambda>i. int i mod k = 0) [0..<length (delivered (stream c))])))
    \<and> (\<forall>r. fst (process_video e w p out k) = Inr r \<longrightarrow>
          map fr_frame_number (r_detections r)
            = filter (\<lambda>i. int i mod k = 0) [0..<length (delivered (stream c))])
    \<and> (list_all (\<lambda>(i, fr). isl (process_frame e fr i) = False) (selected k 0 (stream c)) \<longrightarrow>
          (\<exists>r. fst (process_video e w p out k) = Inr r))
    \<and> set (filter (\<lambda>i. int i mod k = 0) [0..<length (delivered (stream c))])
         = {j * nat k | j. j * nat k < length (delivered (stream c))}
    \<and> (intact c \<longrightarrow> length (delivered (stream c)) = nat (py_int (prop_frame_count c)))"
proof (intro conjI allI impI)
  have k0: "k \<noteq> 0" using assms(2) by simp
  have sel: "map fst (selected k 0 (stream c)) = filter (\<lambda>i. int i mod k = 0) [0..<length (delivered (stream c))]"
    using map_fst_selected[of k 0 "stream c"] by simp
  {
    have "map (\<lambda>(i, fr). path_join dir (''frame_'' @ fmt_06d i @ ''.jpg'')) (selected k 0 (stream c))
            = map (\<lambda>i. path_join dir (''frame_'' @ fmt_06d i @ ''.jpg'')) (map fst (selected k 0 (stream c)))"
      by (simp add: case_prod_beta comp_def)
    then have "map (\<lambda>(i, fr). path_join dir (''frame_'' @ fmt_06d i @ ''.jpg'')) (selected k 0 (stream c))
            = map (\<lambda>i. path_join dir (''frame_'' @ fmt_06d i @ ''.jpg''))
                (filter (\<lambda>i. int i mod k = 0) [0..<length (delivered (stream c))])"
      by (simp only: sel)
    then show "fst (extract_frames e w p dir k)
           = (case makedirs e w dir of
                Some ex \<Rightarrow> Inl ex
              | None \<Rightarrow>
                  Inr (map (\<lambda>i. path_join dir (''frame_'' @ fmt_06d i @ ''.jpg''))
                        (filter (\<lambda>i. int i mod k = 0) [0..<length (delivered (stream c))])))"
      by (simp only: extract_frames_result[OF assms(1) k0])
  }
  {
    fix r assume r: "fst (process_video e w p out k) = Inr r"
    obtain raised dets processed written where
      l: "process_video_loop e (py_or out [] \<noteq> []) k (stream c) 0 [] 0 [] = (raised, dets, processed, written)"
      by (metis prod_cases4)
    from process_video_result[OF assms(1) l] r have none: "raised = None"
      by (cases raised) auto
    have ok: "list_all (\<lambda>(i, fr). isl (process_frame e fr i) = False) (selected k 0 (stream c))"
    proof (rule ccontr)
      assume "\<not> ?thesis"
      from process_video_loop_raises[OF k0 this, of "py_or out [] \<noteq> []" "[]" 0 "[]"] l none
      show False by simp
    qed
    from process_video_loop_returns[OF k0 ok, of "py_or out [] \<noteq> []" "[]" 0 "[]"] l
    have d: "map Inr dets = map (\<lambda>(i, fr). process_frame e fr i) (selected k 0 (stream c))"
      by simp
    from process_video_result[OF assms(1) l] r none have "r_detections r = dets" by auto
    with frame_numbers_of_results[OF d] sel
    show "map fr_frame_number (r_detections r)
            = filter (\<lambda>i. int i mod k = 0) [0..<length (delivered (stream c))]"
      by simp
  }
  {
    assume ok: "list_all (\<lambda>(i, fr). isl (process_frame e fr i) = False) (selected k 0 (stream c))"
    from process_video_loop_returns[OF k0 ok, of "py_or out [] \<noteq> []" "[]" 0 "[]"]
    obtain dets written where
      l: "process_video_loop e (py_or out [] \<noteq> []) k (stream c) 0 [] 0 []
            = (None, dets, 0 + length (selected k 0 (stream c)), written)"
      by blast
    from process_video_result[OF assms(1) l]
    show "\<exists>r. fst (process_video e w p out k) = Inr r" by simp
  }
  show "set (filter (\<lambda>i. int i mod k = 0) [0..<length (delivered (stream c))])
         = {j * nat k | j. j * nat k < length (delivered (stream c))}"
    by (rule multiples_below[OF assms(2)])
  {
    assume "intact c"
    then show "length (delivered (stream c)) = nat (py_int (prop_frame_count c))"
      by (rule delivered_intact)
  }
qed

lemma makedirs_ex: "d \<noteq> [] \<Longrightarrow> fs w d = None \<Longrightarrow> makedirs ex_env w d = None"
  by (simp add: makedirs_def ex_env_def)

text \<open>
  With the empty name as output directory, or the name of a regular file, nothing is
  extracted: \<open>extract_frames\<close> raises the error of \<open>os.makedirs\<close>.
\<close>

lemma extract_frames_no_directory:
  "fst (extract_frames ex_env ex_world ''/srv/media/videos/clip.mp4'' [] 3)
     = Inl (Exc ''FileNotFoundError'' (''[Errno 2] No such file or directory: '' @ [CHR 0x27, CHR 0x27]))"
  "fst (extract_frames ex_env ex_world ''/srv/media/videos/clip.mp4'' ''/srv/media/videos/clip.mp4'' 3)
     = Inl (Exc ''FileExistsError''
             (''[Errno 17] File exists: '' @ [CHR 0x27] @ ''/srv/media/videos/clip.mp4'' @ [CHR 0x27]))"
  by (simp_all add: extract_frames_def makedirs_def py_repr_def ex_world_def)

lemma delivered_ten: "length (delivered (stream ten_frames)) = 10"
  by (simp add: delivered_def ten_frames_def)

lemma fmt_06d_digit: "n < 10 \<Longrightarrow> fmt_06d n = ''00000'' @ [digit_char n]"
  by (simp add: fmt_06d_def digits10.simps numeral_eq_Suc)

lemma frame_name_ex:
  "path_join ''/out'' (''frame_'' @ fmt_06d 0 @ ''.jpg'') = ''/out/frame_000000.jpg''"
  "path_join ''/out'' (''frame_'' @ fmt_06d 3 @ ''.jpg'') = ''/out/frame_000003.jpg''"
  "path_join ''/out'' (''frame_'' @ fmt_06d 6 @ ''.jpg'') = ''/out/frame_000006.jpg''"
  "path_join ''/out'' (''frame_'' @ fmt_06d 9 @ ''.jpg'') = ''/out/frame_000009.jpg''"
  by (simp_all add: path_join_def fmt_06d_digit digit_char_def)

text \<open>The ten-frame video with interval 3: frames 0, 3, 6 and 9.\<close>

theorem frame_sampling_witness:
  "fst (extract_frames ex_env ex_world ''/srv/media/videos/clip.mp4'' ''/out'' 3)
     = Inr [''/out/frame_000000.jpg'', ''/out/frame_000003.jpg'',
            ''/out/frame_000006.jpg'', ''/out/frame_000009.jpg'']
   \<and> (\<exists>r. fst (process_video ex_env ex_world ''/srv/media/videos/clip.mp4'' None 3) = Inr r
         \<and> map fr_frame_number (r_detections r) = [0, 3, 6, 9])"
proof -
  have f: "fs ex_world ''/srv/media/videos/clip.mp4'' = Some (VideoFile ten_frames)"
    by (simp add: ex_world_def)
  have k: "(1::int) \<le> 3" by simp
  have sel: "filter (\<lambda>i. int i mod 3 = 0) [0..<length (delivered (stream ten_frames))] = [0, 3, 6, 9]"
    by (simp add: delivered_ten upt_rec)
  have ok: "list_all (\<lambda>(i, fr). isl (process_frame ex_env fr i) = False) (selected 3 0 (stream ten_frames))"
    by (simp add: list_all_iff process_frame_ex)
  have mk: "makedirs ex_env ex_world ''/out'' = None"
    by (rule makedirs_ex) (simp_all add: ex_world_def)
  note t = frame_sampling[OF f k, of ex_env "''/out''" None]
  from t ok obtain r where r: "fst (process_video ex_env ex_world ''/srv/media/videos/clip.mp4'' None 3) = Inr r"
    by blast
  with t have "map fr_frame_number (r_detections r) = [0, 3, 6, 9]" by (simp only: sel)
  moreover from t have "fst (extract_frames ex_env ex_world ''/srv/media/videos/clip.mp4'' ''/out'' 3)
     = Inr [''/out/frame_000000.jpg'', ''/out/frame_000003.jpg'',
            ''/out/frame_000006.jpg'', ''/out/frame_000009.jpg'']"
    by (simp only: mk option.case sel list.map frame_name_ex)
  ultimately show ?thesis using r by simp
qed

text \<open>
  Claim C4 as stated fails: for the video whose \<open>frame_count\<close> is 10 and whose sixth frame
  cannot be decoded, interval 2 selects the frames 0, 2 and 4, not 0, 2, 4, 6 and 8.
\<close>

theorem frame_sampling_counterexample:
  "(case fst (process_video ex_env damaged_world ''/srv/media/videos/clip.mp4'' None 2) of
      Inr r \<Rightarrow> (r_total_frames r, map fr_frame_number (r_detections r))
    | Inl ex \<Rightarrow> (0, [])) = (10, [0, 2, 4])
   \<and> fst (extract_frames ex_env damaged_world ''/srv/media/videos/clip.mp4'' ''/out'' 2)
       = Inr [''/out/frame_000000.jpg'', ''/out/frame_000002.jpg'', ''/out/frame_000004.jpg'']
   \<and> filter (\<lambda>i. int i mod 2 = 0) [0..<10] = [0, 2, 4, 6, 8]"
proof -
  have mk: "mkdir_error ex_env n = None" for n
    by (simp add: ex_env_def)
  show ?thesis
    by (simp add: process_video_def extract_frames_def makedirs_def mk damaged_world_def ex_world_def damaged_frames_def
          ten_frames_def duration_of_eq Let_def py_mod_def process_frame_ex py_int_def
          acquire_def release_def upt_rec
          path_join_def fmt_06d_digit digit_char_def)
qed

section \<open>Properties of the tasks\<close>

subsection \<open>The example deployment\<close>

lemma ex_env_fields:
  "MEDIA_ROOT ex_env = ''/srv/media''"
  "MINIO_BUCKET_NAME ex_env = ''videos''"
  "yolo_load_error ex_env = None"
  "minio_connect_error ex_env = None"
  "fput_error ex_env b n = None"
  "fget_error ex_env b n = None"
  "mkdir_error ex_env n = None"
  "video_seconds ex_env = 1"
  "getsize ex_env f = 4096"
  by (simp_all add: ex_env_def)

lemma ex_world_fields:
  "fs ex_world = [''/srv/media/videos/clip.mp4'' \<mapsto> VideoFile ten_frames]"
  "blobs ex_world = Map.empty"
  "videos ex_world = [''v1'' \<mapsto> ex_video]"
  "tasks ex_world = Map.empty"
  "processed_frames ex_world = []"
  "detected_objects ex_world = []"
  "task_writes ex_world = []"
  "clock ex_world = 100"
  "open_handles ex_world = 0"
  "draws ex_world = 0"
  by (simp_all add: ex_world_def)

lemma ex_video_path: "video_file_path ex_env ex_video = Inr ''/srv/media/videos/clip.mp4''"
  by (simp add: video_file_path_def ex_env_fields ex_video_def path_join_def)

lemma get_video_metadata_world: "snd (get_video_metadata e w p) = w"
  by (simp add: get_video_metadata_def Let_def split: option.splits filedata.splits)

lemma ex_metadata_ten:
  assumes "fs w ''/srv/media/videos/clip.mp4'' = Some (VideoFile ten_frames)"
  shows "get_video_metadata ex_env w ''/srv/media/videos/clip.mp4''
           = (Inr \<lparr>md_fps = 30, md_frame_count = 10, md_width = 640, md_height = 480,
                   md_duration = 1 / 3, md_resolution = ''640x480'', md_file_size = 4096\<rparr>, w)"
  using assms
  by (simp add: get_video_metadata_def duration_of_eq ten_frames_def py_int_def ex_env_fields
        str_int_def digits10.simps digit_char_def)

lemma spot_detect_with_cv2:
  "(let (r, w') = detect_objects_in_frames_task (''cv2'' # tasks_globals) ex_env ''celery-1'' ''v1''
                    (Some [0, 999999]) ex_world
    in r = Inr \<lparr>od_status = ''success'', od_video_id = ''v1'', od_processed_frames = 2,
                 od_detections_count = 1\<rparr>
       \<and> map_option t_status (tasks w' ''celery-1'') = Some ''completed''
       \<and> map do_frame_number (detected_objects w') = [0]
       \<and> map (\<lambda>(c, t). t_progress t) (task_writes w') = [0, 50, 100])"
  by (simp add: detect_objects_in_frames_task_def detect_objects_try_def detect_objects_run_def
        ProcessingTask_create_def
        now_def save_task_def YOLOProcessor_init_def ex_video_path ex_metadata_ten
        lookup_global_def fail_task_def Let_def acquire_def release_def
        read_frame_at_def process_frame_ex DetectedObject_create_def py_truediv_def py_int_def
        ex_world_fields ex_env_fields ten_frames_def)

subsection \<open>What each operation leaves alone\<close>

lemma process_video_world:
  "\<exists>f. snd (process_video e w p out k) = w\<lparr>fs := f\<rparr>"
proof (cases "fs w p")
  case None
  then have "snd (process_video e w p out k) = w\<lparr>fs := fs w\<rparr>" by (simp add: process_video_def)
  then show ?thesis by (rule exI[of _ "fs w"])
next
  case (Some f)
  show ?thesis
  proof (cases f)
    case (VideoFile c)
    obtain raised dets processed written where
      l: "process_video_loop e (py_or out [] \<noteq> []) k (stream c) 0 [] 0 [] = (raised, dets, processed, written)"
      by (metis prod_cases4)
    have "snd (process_video e w p out k) =
            w\<lparr>fs := (if py_or out [] \<noteq> []
                      then (fs w)(py_or out [] \<mapsto>
                             written_video (prop_fps c) (py_int (prop_frame_width c))
                               (py_int (prop_frame_height c)) written)
                      else fs w)\<rparr>"
      using Some VideoFile l
      by (cases raised) (simp_all add: process_video_def duration_of_eq Let_def acquire_def release_def)
    then show ?thesis by (rule exI[of _ "if py_or out [] \<noteq> []
                      then (fs w)(py_or out [] \<mapsto>
                             written_video (prop_fps c) (py_int (prop_frame_width c))
                               (py_int (prop_frame_height c)) written)
                      else fs w"])
  next
    case (ImageFile x)
    with Some have "snd (process_video e w p out k) = w\<lparr>fs := fs w\<rparr>" by (simp add: process_video_def)
    then show ?thesis by (rule exI[of _ "fs w"])
  next
    case (JsonFile x)
    with Some have "snd (process_video e w p out k) = w\<lparr>fs := fs w\<rparr>" by (simp add: process_video_def)
    then show ?thesis by (rule exI[of _ "fs w"])
  next
    case OtherFile
    with Some have "snd (process_video e w p out k) = w\<lparr>fs := fs w\<rparr>" by (simp add: process_video_def)
    then show ?thesis by (rule exI[of _ "fs w"])
  qed
qed



lemma process_video_frame [simp]:
  "videos (snd (process_video e w p out k)) = videos w"
  "tasks (snd (process_video e w p out k)) = tasks w"
  "processed_frames (snd (process_video e w p out k)) = processed_frames w"
  "detected_objects (snd (process_video e w p out k)) = detected_objects w"
  "task_writes (snd (process_video e w p out k)) = task_writes w"
  "clock (snd (process_video e w p out k)) = clock w"
  using process_video_world[of e w p out k] by auto

lemma extract_frames_loop_frame:
  "videos (snd (snd (extract_frames_loop dir k s n paths w))) = videos w
   \<and> tasks (snd (snd (extract_frames_loop dir k s n paths w))) = tasks w
   \<and> processed_frames (snd (snd (extract_frames_loop dir k s n paths w))) = processed_frames w
   \<and> detected_objects (snd (snd (extract_frames_loop dir k s n paths w))) = detected_objects w
   \<and> task_writes (snd (snd (extract_frames_loop dir k s n paths w))) = task_writes w
   \<and> clock (snd (snd (extract_frames_loop dir k s n paths w))) = clock w"
  by (induction dir k s n paths w rule: extract_frames_loop.induct)
     (auto simp: Let_def split: sum.splits)


lemma extract_frames_frame [simp]:
  "videos (snd (extract_frames e w p dir k)) = videos w"
  "tasks (snd (extract_frames e w p dir k)) = tasks w"
  "processed_frames (snd (extract_frames e w p dir k)) = processed_frames w"
  "detected_objects (snd (extract_frames e w p dir k)) = detected_objects w"
  "task_writes (snd (extract_frames e w p dir k)) = task_writes w"
  "clock (snd (extract_frames e w p dir k)) = clock w"
  using extract_frames_loop_frame[of dir k _ 0 "[]" "acquire w"]
  by (simp_all add: extract_frames_def Let_def acquire_def release_def split_beta
           split: option.splits filedata.splits)

lemma upload_file_frame [simp]:
  "videos (snd (upload_file e w p b n)) = videos w"
  "tasks (snd (upload_file e w p b n)) = tasks w"
  "processed_frames (snd (upload_file e w p b n)) = processed_frames w"
  "detected_objects (snd (upload_file e w p b n)) = detected_objects w"
  "task_writes (snd (upload_file e w p b n)) = task_writes w"
  "clock (snd (upload_file e w p b n)) = clock w"
  by (simp_all add: upload_file_def Let_def next_uuid_def split_beta split: option.splits)

lemma upload_frames_all:
  "videos (snd (upload_frames e ps ks w)) = videos w
   \<and> tasks (snd (upload_frames e ps ks w)) = tasks w
   \<and> processed_frames (snd (upload_frames e ps ks w)) = processed_frames w
   \<and> detected_objects (snd (upload_frames e ps ks w)) = detected_objects w
   \<and> task_writes (snd (upload_frames e ps ks w)) = task_writes w
   \<and> clock (snd (upload_frames e ps ks w)) = clock w"
proof (induction e ps ks w rule: upload_frames.induct)
  case (1 e ks w)
  show ?case by simp
next
  case (2 e p rest ks w)
  obtain r w1 where u: "upload_file e w p (Some ''extracted-frames'') None = (r, w1)"
    by (cases "upload_file e w p (Some ''extracted-frames'') None")
  have f: "videos w1 = videos w" "tasks w1 = tasks w" "processed_frames w1 = processed_frames w"
    "detected_objects w1 = detected_objects w" "task_writes w1 = task_writes w" "clock w1 = clock w"
    using upload_file_frame[of e w p "Some ''extracted-frames''" None] by (simp_all add: u)
  show ?case
  proof (cases r)
    case (Inl ex)
    then show ?thesis using f by (simp add: u)
  next
    case (Inr key)
    from 2[OF u[symmetric] Inr] f show ?thesis by (simp add: u Inr)
  qed
qed

lemma upload_frames_frame [simp]:
  "videos (snd (upload_frames e ps ks w)) = videos w"
  "tasks (snd (upload_frames e ps ks w)) = tasks w"
  "processed_frames (snd (upload_frames e ps ks w)) = processed_frames w"
  "detected_objects (snd (upload_frames e ps ks w)) = detected_objects w"
  "task_writes (snd (upload_frames e ps ks w)) = task_writes w"
  "clock (snd (upload_frames e ps ks w)) = clock w"
  using upload_frames_all[of e ps ks w] by simp_all

lemma get_video_metadata_world_simp [simp]: "snd (get_video_metadata e w p) = w"
  by (rule get_video_metadata_world)

lemma save_objects_frame [simp]:
  "videos (save_objects v n objs w) = videos w"
  "tasks (save_objects v n objs w) = tasks w"
  "processed_frames (save_objects v n objs w) = processed_frames w"
  "task_writes (save_objects v n objs w) = task_writes w"
  by (induction v n objs w rule: save_objects.induct; simp add: DetectedObject_create_def now_def)+

lemma save_objects_rows:
  "\<exists>rows. detected_objects (save_objects v n objs w) = detected_objects w @ rows
          \<and> map do_frame_number rows = replicate (length objs) n"
proof (induction v n objs w rule: save_objects.induct)
  case (2 v n obj objs w)
  then obtain rows where
    "detected_objects (save_objects v n objs (DetectedObject_create w v n obj))
       = detected_objects (DetectedObject_create w v n obj) @ rows"
    "map do_frame_number rows = replicate (length objs) n" by blast
  then show ?case
    by (simp add: DetectedObject_create_def now_def)
qed simp

lemma save_frame_results_all:
  "videos (snd (save_frame_results v frs w)) = videos w
   \<and> tasks (snd (save_frame_results v frs w)) = tasks w
   \<and> task_writes (snd (save_frame_results v frs w)) = task_writes w
   \<and> prefix (processed_frames w) (processed_frames (snd (save_frame_results v frs w)))
   \<and> prefix (detected_objects w) (detected_objects (snd (save_frame_results v frs w)))"
proof (induction v frs w rule: save_frame_results.induct)
  case (2 v fr rest w)
  show ?case
  proof (cases "list_ex (\<lambda>r. pf_video r = v \<and> pf_frame_number r = fr_frame_number fr) (processed_frames w)")
    case True
    then show ?thesis by (simp add: ProcessedFrame_create_def)
  next
    case False
    let ?row = "\<lparr>pf_video = v, pf_frame_number = fr_frame_number fr,
              pf_objects_detected = fr_object_count fr,
              pf_processing_time = Some (fr_processing_time fr),
              pf_minio_key = []\<rparr>"
    let ?w1 = "w\<lparr>processed_frames := processed_frames w @ [?row]\<rparr>"
    let ?w2 = "save_objects v (fr_frame_number fr) (fr_objects fr) ?w1"
    let ?R = "snd (save_frame_results v rest ?w2)"
    have c: "ProcessedFrame_create w ?row = (None, ?w1)" using False by (simp add: ProcessedFrame_create_def)
    have res: "save_frame_results v (fr # rest) w = save_frame_results v rest ?w2"
      by (simp add: c)
    from 2[OF c[symmetric] refl]
    have ih: "videos ?R = videos ?w2" "tasks ?R = tasks ?w2" "task_writes ?R = task_writes ?w2"
      "prefix (processed_frames ?w2) (processed_frames ?R)"
      "prefix (detected_objects ?w2) (detected_objects ?R)"
      by blast+
    obtain rows where rows: "detected_objects ?w2 = detected_objects ?w1 @ rows"
      using save_objects_rows by blast
    have p1: "prefix (processed_frames w) (processed_frames ?w2)" by simp
    have p2: "prefix (detected_objects w) (detected_objects ?w2)" using rows by simp
    have "videos ?R = videos w" "tasks ?R = tasks w" "task_writes ?R = task_writes w"
      using ih(1-3) by simp_all
    moreover note prefix_order.trans[OF p1 ih(4)] prefix_order.trans[OF p2 ih(5)]
    ultimately show ?thesis unfolding res by blast
  qed
qed simp

lemma save_frame_results_frame [simp]:
  "videos (snd (save_frame_results v frs w)) = videos w"
  "tasks (snd (save_frame_results v frs w)) = tasks w"
  "task_writes (snd (save_frame_results v frs w)) = task_writes w"
  using save_frame_results_all[of v frs w] by simp_all

subsection \<open>The progress written by the detection loop\<close>

lemma progress_mono:
  assumes "i \<le> j"
  shows "py_int (real i / real n * 100) \<le> py_int (real j / real n * 100)"
proof -
  have "real i / real n * 100 \<le> real j / real n * 100"
    using assms by (simp add: divide_right_mono)
  moreover have "0 \<le> real i / real n * 100" "0 \<le> real j / real n * 100" by simp_all
  ultimately show ?thesis by (simp add: py_int_def floor_mono)
qed

lemma progress_le_100:
  assumes "i \<le> n"
  shows "py_int (real i / real n * 100) \<le> 100"
proof -
  have "real i / real n \<le> 1" using assms by (cases "n = 0") simp_all
  then have "real i / real n * 100 \<le> 1 * 100" by (intro mult_right_mono) simp_all
  then have "real i / real n * 100 \<le> 100" by simp
  moreover have "0 \<le> real i / real n * 100" by simp
  ultimately show ?thesis by (simp add: py_int_def floor_le_iff)
qed

lemma detect_loop_frame:
  "videos (snd (snd (snd (detect_loop e cid vid s n i fns task cnt w)))) = videos w
   \<and> processed_frames (snd (snd (snd (detect_loop e cid vid s n i fns task cnt w)))) = processed_frames w
   \<and> prefix (detected_objects w) (detected_objects (snd (snd (snd (detect_loop e cid vid s n i fns task cnt w)))))
   \<and> (c \<noteq> cid \<longrightarrow> tasks (snd (snd (snd (detect_loop e cid vid s n i fns task cnt w)))) c = tasks w c)"
proof (induction e cid vid s n i fns task cnt w rule: detect_loop.induct)
  case (1 e cid vid s n i task cnt w)
  show ?case by simp
next
  case (2 e cid vid s n i fn rest task cnt w)
  show ?case
  proof (cases "read_frame_at s fn")
    case None
    with 2(1)[OF None] show ?thesis by simp
  next
    case (Some fr)
    show ?thesis
    proof (cases "process_frame e fr fn")
      case (Inl ex)
      with Some show ?thesis by simp
    next
      case (Inr res)
      let ?w1 = "save_objects vid fn (fr_objects res) w"
      show ?thesis
      proof (cases "py_truediv (real (i + 1)) (real n)")
        case (Inl ex)
        obtain rows where "detected_objects ?w1 = detected_objects w @ rows"
          using save_objects_rows by blast
        then show ?thesis using Some Inr Inl by (simp add: Let_def)
      next
        case q: (Inr q)
        let ?t1 = "task\<lparr>t_progress := py_int (q * 100)\<rparr>"
        let ?w2 = "save_task ?w1 cid ?t1"
        let ?R = "detect_loop e cid vid s n (i + 1) rest ?t1 (cnt + length (fr_objects res)) ?w2"
        have res: "detect_loop e cid vid s n i (fn # rest) task cnt w = ?R"
          using Some Inr q by (simp add: Let_def)
        from 2(2)[OF Some Inr refl refl q refl refl refl]
        have ih: "videos (snd (snd (snd ?R))) = videos ?w2"
          "processed_frames (snd (snd (snd ?R))) = processed_frames ?w2"
          "prefix (detected_objects ?w2) (detected_objects (snd (snd (snd ?R))))"
          "c \<noteq> cid \<longrightarrow> tasks (snd (snd (snd ?R))) c = tasks ?w2 c"
          by blast+
        obtain rows where rows: "detected_objects ?w1 = detected_objects w @ rows"
          using save_objects_rows by blast
        have a: "videos ?w2 = videos w" "processed_frames ?w2 = processed_frames w"
          "c \<noteq> cid \<longrightarrow> tasks ?w2 c = tasks w c"
          by (simp_all add: save_task_def)
        have "prefix (detected_objects w) (detected_objects ?w2)"
          using rows by (simp add: save_task_def)
        from prefix_order.trans[OF this ih(3)] ih(1,2,4) a
        show ?thesis unfolding res by simp
      qed
    qed
  qed
qed

subsection \<open>What the secondary tasks leave alone\<close>

lemma fail_task_frame [simp]:
  "videos (fail_task cid ex t w) = videos w"
  "processed_frames (fail_task cid ex t w) = processed_frames w"
  "detected_objects (fail_task cid ex t w) = detected_objects w"
  "c \<noteq> cid \<Longrightarrow> tasks (fail_task cid ex t w) c = tasks w c"
  by (simp_all add: fail_task_def now_def save_task_def split: option.splits)

lemma extract_frames_try_frame:
  "videos (snd (extract_frames_try e cid vid k w)) = videos w"
  "processed_frames (snd (extract_frames_try e cid vid k w)) = processed_frames w"
  "detected_objects (snd (extract_frames_try e cid vid k w)) = detected_objects w"
  "c \<noteq> cid \<Longrightarrow> tasks (snd (extract_frames_try e cid vid k w)) c = tasks w c"
  by (simp_all add: extract_frames_try_def ProcessingTask_create_def now_def save_task_def
        split_beta Let_def split: option.splits sum.splits)

lemma extract_frames_task_frame:
  "videos (snd (extract_frames_task e cid vid k w)) = videos w"
  "processed_frames (snd (extract_frames_task e cid vid k w)) = processed_frames w"
  "detected_objects (snd (extract_frames_task e cid vid k w)) = detected_objects w"
  "c \<noteq> cid \<Longrightarrow> tasks (snd (extract_frames_task e cid vid k w)) c = tasks w c"
  by (simp_all add: extract_frames_task_def extract_frames_try_frame split_beta
        split: attempt.splits exn.splits)


lemma detect_loop_frame_simps [simp]:
  "videos (snd (snd (snd (detect_loop e cid vid s n i fns task cnt w)))) = videos w"
  "processed_frames (snd (snd (snd (detect_loop e cid vid s n i fns task cnt w)))) = processed_frames w"
  "c \<noteq> cid \<Longrightarrow> tasks (snd (snd (snd (detect_loop e cid vid s n i fns task cnt w)))) c = tasks w c"
  using detect_loop_frame[of e cid vid s n i fns task cnt w c] by simp_all

lemma detect_loop_prefix:
  "prefix xs (detected_objects w) \<Longrightarrow>
     prefix xs (detected_objects (snd (snd (snd (detect_loop e cid vid s n i fns task cnt w)))))"
  using detect_loop_frame[of e cid vid s n i fns task cnt w] prefix_order.trans by blast

lemma detect_objects_run_frame:
  "videos (snd (detect_objects_run e cid vid video t p fns w)) = videos w"
  "processed_frames (snd (detect_objects_run e cid vid video t p fns w)) = processed_frames w"
  "prefix xs (detected_objects w) \<Longrightarrow>
     prefix xs (detected_objects (snd (detect_objects_run e cid vid video t p fns w)))"
  "c \<noteq> cid \<Longrightarrow> tasks (snd (detect_objects_run e cid vid video t p fns w)) c = tasks w c"
  by (simp_all add: detect_objects_run_def now_def save_task_def
        acquire_def release_def detect_loop_prefix
        split_beta Let_def split: option.splits filedata.splits)

lemma detect_objects_try_frame:
  "videos (snd (detect_objects_try g e cid vid fns w)) = videos w"
  "processed_frames (snd (detect_objects_try g e cid vid fns w)) = processed_frames w"
  "prefix (detected_objects w) (detected_objects (snd (detect_objects_try g e cid vid fns w)))"
  "c \<noteq> cid \<Longrightarrow> tasks (snd (detect_objects_try g e cid vid fns w)) c = tasks w c"
  by (simp_all add: detect_objects_try_def ProcessingTask_create_def now_def save_task_def
        detect_objects_run_frame
        split_beta Let_def split: option.splits sum.splits)

lemma fail_task_prefix:
  "prefix xs (detected_objects w) \<Longrightarrow> prefix xs (detected_objects (fail_task cid ex t w))"
  by simp

lemma detect_objects_task_frame:
  "videos (snd (detect_objects_in_frames_task g e cid vid fns w)) = videos w"
  "processed_frames (snd (detect_objects_in_frames_task g e cid vid fns w)) = processed_frames w"
  "prefix (detected_objects w) (detected_objects (snd (detect_objects_in_frames_task g e cid vid fns w)))"
  "c \<noteq> cid \<Longrightarrow> tasks (snd (detect_objects_in_frames_task g e cid vid fns w)) c = tasks w c"
  by (simp_all add: detect_objects_in_frames_task_def detect_objects_try_frame split_beta
        split: attempt.splits exn.splits)

subsection \<open>Only the lookup of the video raises \<open>Video.DoesNotExist\<close>\<close>

lemma boxes_loop_exn: "boxes_loop e boxes dets \<noteq> Inl VideoDoesNotExist"
  by (induction e boxes dets rule: boxes_loop.induct)
     (auto simp: box_detection_def Let_def split: sum.splits option.splits prod.splits)

lemma results_loop_exn: "results_loop e rs dets \<noteq> Inl VideoDoesNotExist"
  by (induction e rs dets rule: results_loop.induct)
     (auto simp: boxes_loop_exn split: sum.splits)

lemma process_frame_exn: "process_frame e fr n \<noteq> Inl VideoDoesNotExist"
  by (auto simp: process_frame_def results_loop_exn split: sum.splits prod.splits)

lemma process_video_loop_exn:
  "fst (process_video_loop e out k s n dets processed written) \<noteq> Some VideoDoesNotExist"
  by (induction e out k s n dets processed written rule: process_video_loop.induct)
     (auto simp: py_mod_def process_frame_exn Let_def split: sum.splits if_splits)

lemma get_video_metadata_exn: "fst (get_video_metadata e w p) \<noteq> Inl VideoDoesNotExist"
  by (simp add: get_video_metadata_def duration_of_eq Let_def split: option.splits filedata.splits)

lemma process_video_exn: "fst (process_video e w p out k) \<noteq> Inl VideoDoesNotExist"
proof (cases "fs w p")
  case None
  then show ?thesis by (simp add: process_video_def)
next
  case (Some f)
  show ?thesis
  proof (cases f)
    case (VideoFile c)
    obtain raised dets processed written where
      l: "process_video_loop e (py_or out [] \<noteq> []) k (stream c) 0 [] 0 [] = (raised, dets, processed, written)"
      by (metis prod_cases4)
    have "raised \<noteq> Some VideoDoesNotExist"
      using process_video_loop_exn[of e "py_or out [] \<noteq> []" k "stream c" 0 "[]" 0 "[]"] l by simp
    then show ?thesis
      using process_video_result[OF _ l, of w p] Some VideoFile by (cases raised) auto
  qed (use Some in \<open>simp_all add: process_video_def\<close>)
qed

lemma upload_file_exn: "fst (upload_file e w p b n) \<noteq> Inl VideoDoesNotExist"
  by (simp add: upload_file_def Let_def split_beta split: option.splits)

lemma save_frame_results_exn: "fst (save_frame_results v frs w) \<noteq> Some VideoDoesNotExist"
  by (induction v frs w rule: save_frame_results.induct)
     (simp_all add: ProcessedFrame_create_def)

lemma init_exn:
  "YOLOProcessor_init e \<noteq> Some VideoDoesNotExist"
  "MinIOClient_init e \<noteq> Some VideoDoesNotExist"
  "video_file_path e v \<noteq> Inl VideoDoesNotExist"
  "fst (ProcessingTask_create w cid vid ty) \<noteq> Inl VideoDoesNotExist"
  by (simp_all add: YOLOProcessor_init_def MinIOClient_init_def video_file_path_def
        ProcessingTask_create_def now_def Let_def split: option.splits)

subsection \<open>What the tasks write to their record\<close>

lemma detect_loop_task_writes:
  "task_writes (snd (snd (snd (detect_loop e cid vid s n i fns task cnt w))))
     = task_writes w @ map (\<lambda>p. (cid, task\<lparr>t_progress := p\<rparr>)) (progress_values e s n i fns)
   \<and> fst (snd (detect_loop e cid vid s n i fns task cnt w))
       = task\<lparr>t_progress := last (t_progress task # progress_values e s n i fns)\<rparr>"
proof (induction e cid vid s n i fns task cnt w rule: detect_loop.induct)
  case (1 e cid vid s n i task cnt w)
  show ?case by simp
next
  case (2 e cid vid s n i fn rest task cnt w)
  show ?case
  proof (cases "read_frame_at s fn")
    case None
    with 2(1)[OF None] show ?thesis by simp
  next
    case (Some fr)
    show ?thesis
    proof (cases "process_frame e fr fn")
      case (Inl ex)
      with Some show ?thesis by simp
    next
      case (Inr res)
      show ?thesis
      proof (cases "py_truediv (real (i + 1)) (real n)")
        case (Inl ex)
        with Some Inr show ?thesis by (simp add: Let_def)
      next
        case q: (Inr q)
        from 2(2)[OF Some Inr refl refl q refl refl refl]
        show ?thesis using Some Inr q by (simp add: Let_def save_task_def)
      qed
    qed
  qed
qed

lemma progress_values_bounds:
  assumes "i + length fns \<le> n"
  shows "sorted (progress_values e s n i fns)
       \<and> list_all (\<lambda>p. py_int (real i / real n * 100) \<le> p \<and> p \<le> 100) (progress_values e s n i fns)"
  using assms
proof (induction e s n i fns rule: progress_values.induct)
  case (1 e s n i)
  show ?case by simp
next
  case (2 e s n i fn rest)
  have n: "0 < n" and i: "i + 1 \<le> n" and rest: "(i + 1) + length rest \<le> n"
    using 2(3) by simp_all
  have step: "py_int (real i / real n * 100) \<le> py_int (real (i + 1) / real n * 100)"
    by (rule progress_mono) simp
  show ?case
  proof (cases "read_frame_at s fn")
    case None
    from 2(1)[OF None rest] step None show ?thesis
      by (auto simp: list_all_iff)
  next
    case (Some fr)
    show ?thesis
    proof (cases "process_frame e fr fn")
      case (Inl ex)
      with Some show ?thesis by simp
    next
      case (Inr res)
      have q: "py_truediv (real (i + 1)) (real n) = Inr (real (i + 1) / real n)"
        using n by (simp add: py_truediv_def)
      have p100: "py_int (real (i + 1) / real n * 100) \<le> 100"
        using i by (intro progress_le_100) simp
      from 2(2)[OF Some Inr q rest] step p100 Some Inr q show ?thesis
        by (auto simp: list_all_iff)
    qed
  qed
qed

lemma progress_values_start:
  "sorted (progress_values e s (length fns) 0 fns)
   \<and> list_all (\<lambda>p. 0 \<le> p \<and> p \<le> 100) (progress_values e s (length fns) 0 fns)"
  using progress_values_bounds[of 0 fns "length fns" e s] by (simp add: py_int_def)

lemma sorted_le_last: "sorted xs \<Longrightarrow> x \<in> set xs \<Longrightarrow> x \<le> last (xs :: int list)"
proof (induction xs)
  case Nil
  then show ?case by simp
next
  case (Cons a xs)
  show ?case
  proof (cases "xs = []")
    case True
    with Cons.prems show ?thesis by simp
  next
    case False
    then have "last xs \<in> set xs" by simp
    with Cons False show ?thesis by auto
  qed
qed

lemma log_shapes:
  assumes "sorted ps" and "list_all (\<lambda>p. 0 \<le> p \<and> p \<le> 100) ps"
  shows "progress_log_ok cid ((cid, ''running'', 0) # map (\<lambda>p. (cid, ''running'', p)) ps)"
    and "progress_log_ok cid ((cid, ''running'', 0) # map (\<lambda>p. (cid, ''running'', p)) ps
                               @ [(cid, ''completed'', 100)])"
    and "progress_log_ok cid ((cid, ''running'', 0) # map (\<lambda>p. (cid, ''running'', p)) ps
                               @ [(cid, ''failed'', last (0 # ps))])"
proof -
  have m: "map ((\<lambda>(c, st, p). p) \<circ> (\<lambda>p. (cid, ''running'', p))) ps = ps"
    by (simp add: comp_def)
  have s0: "sorted (0 # ps)" using assms by (auto simp: list_all_iff)
  have l: "\<forall>p\<in>set (0 # ps). p \<le> last (0 # ps)"
    using sorted_le_last[OF s0] by blast
  have lb: "0 \<le> last (0 # ps)" "last (0 # ps) \<le> 100"
    using assms(2) by (cases "ps = []"; auto simp: list_all_iff)+
  show "progress_log_ok cid ((cid, ''running'', 0) # map (\<lambda>p. (cid, ''running'', p)) ps)"
    using assms s0 by (simp add: progress_log_ok_def m list_all_iff)
  show "progress_log_ok cid ((cid, ''running'', 0) # map (\<lambda>p. (cid, ''running'', p)) ps
                               @ [(cid, ''completed'', 100)])"
    using assms s0 by (auto simp: progress_log_ok_def m list_all_iff sorted_append)
  show "progress_log_ok cid ((cid, ''running'', 0) # map (\<lambda>p. (cid, ''running'', p)) ps
                               @ [(cid, ''failed'', last (0 # ps))])"
    using assms s0 l lb by (auto simp: progress_log_ok_def m list_all_iff sorted_append)
qed

lemma detect_loop_task_writes_simps [simp]:
  "task_writes (snd (snd (snd (detect_loop e cid vid s n i fns task cnt w))))
     = task_writes w @ map (\<lambda>p. (cid, task\<lparr>t_progress := p\<rparr>)) (progress_values e s n i fns)"
  "fst (snd (detect_loop e cid vid s n i fns task cnt w))
       = task\<lparr>t_progress := last (t_progress task # progress_values e s n i fns)\<rparr>"
  using detect_loop_task_writes[of e cid vid s n i fns task cnt w] by simp_all

lemma detect_objects_run_writes:
  "task_writes (snd (detect_objects_run e cid vid video t p fns w)) =
     task_writes w
     @ map (\<lambda>q. (cid, t\<lparr>t_progress := q\<rparr>))
         (progress_values e (case fs w p of Some (VideoFile c) \<Rightarrow> stream c | _ \<Rightarrow> []) (length fns) 0 fns)
     @ (case fst (detect_objects_run e cid vid video t p fns w) of
          Returned s \<Rightarrow> [(cid, the (tasks (snd (detect_objects_run e cid vid video t p fns w)) cid))]
        | Raised ex vo to \<Rightarrow> [])"
  by (simp add: detect_objects_run_def now_def save_task_def acquire_def release_def
        split_beta Let_def del: last.simps split: option.splits filedata.splits)

lemma detect_objects_run_result:
  "(case fst (detect_objects_run e cid vid video t p fns w) of
      Returned s \<Rightarrow>
        map_option (\<lambda>r. (t_status r, t_progress r)) (tasks (snd (detect_objects_run e cid vid video t p fns w)) cid)
          = Some (''completed'', 100)
    | Raised ex vo to \<Rightarrow>
        to = Some (t\<lparr>t_progress := last (t_progress t #
               progress_values e (case fs w p of Some (VideoFile c) \<Rightarrow> stream c | _ \<Rightarrow> []) (length fns) 0 fns)\<rparr>))"
  by (simp add: detect_objects_run_def now_def save_task_def acquire_def release_def
        split_beta Let_def del: last.simps split: option.splits filedata.splits)

lemma writes_since_append:
  "task_writes w' = task_writes w @ X \<Longrightarrow>
     writes_since w w' = map (\<lambda>(c, t). (c, t_status t, t_progress t)) X"
  by (simp add: writes_since_def)

lemma fail_task_writes:
  "task_writes (fail_task cid ex to w) =
     task_writes w @ (case to of None \<Rightarrow> []
                      | Some t \<Rightarrow> [(cid, t\<lparr>t_status := ''failed'', t_completed_at := Some (clock w),
                                           t_error_message := exn_str ex\<rparr>)])"
  by (simp add: fail_task_def now_def save_task_def split: option.splits)

lemma ProcessingTask_create_cases:
  assumes "ProcessingTask_create w cid vid ty = (r, w1)"
  shows "case r of
           Inl ex \<Rightarrow> task_writes w1 = task_writes w \<and> tasks w cid \<noteq> None
         | Inr T0 \<Rightarrow> task_writes w1 = task_writes w @ [(cid, T0)] \<and> tasks w cid = None
                      \<and> tasks w1 cid = Some T0
                      \<and> t_status T0 = ''running'' \<and> t_progress T0 = 0"
  using assms
  by (auto simp: ProcessingTask_create_def now_def save_task_def Let_def split: option.splits)

lemma detect_objects_try_cases:
  obtains
    (missing) "detect_objects_try g e cid vid fns w = (Raised VideoDoesNotExist None None, w)"
  | (duplicate) ex video w1 where
      "detect_objects_try g e cid vid fns w = (Raised ex (Some video) None, w1)"
      "task_writes w1 = task_writes w"
  | (early) ex video T0 w1 where
      "detect_objects_try g e cid vid fns w = (Raised ex (Some video) (Some T0), w1)"
      "task_writes w1 = task_writes w @ [(cid, T0)]"
      "t_status T0 = ''running''" "t_progress T0 = 0"
  | (run) video T0 p fns1 w1 where
      "detect_objects_try g e cid vid fns w = detect_objects_run e cid vid video T0 p fns1 w1"
      "task_writes w1 = task_writes w @ [(cid, T0)]"
      "t_status T0 = ''running''" "t_progress T0 = 0"
proof (cases "videos w vid")
  case None
  then show ?thesis using missing by (simp add: detect_objects_try_def)
next
  case (Some video)
  obtain r w1 where c: "ProcessingTask_create w cid vid ''object_detection'' = (r, w1)"
    by (cases "ProcessingTask_create w cid vid ''object_detection''")
  note cc = ProcessingTask_create_cases[OF c]
  show ?thesis
  proof (cases r)
    case (Inl ex)
    with cc Some c show ?thesis using duplicate[of ex video w1]
      by (simp add: detect_objects_try_def)
  next
    case (Inr T0)
    with cc have T0: "task_writes w1 = task_writes w @ [(cid, T0)]"
      "t_status T0 = ''running''" "t_progress T0 = 0" by simp_all
    show ?thesis
    proof (cases "YOLOProcessor_init e")
      case (Some ex)
      then show ?thesis using early[of ex video T0 w1] T0 \<open>videos w vid = Some video\<close> c Inr
        by (simp add: detect_objects_try_def)
    next
      case None
      note yolo = None
      show ?thesis
      proof (cases "video_file_path e video")
        case (Inl ex)
        then show ?thesis using early[of ex video T0 w1] T0 \<open>videos w vid = Some video\<close> c Inr yolo
          by (simp add: detect_objects_try_def)
      next
        case p: (Inr p)
        obtain r2 where m: "get_video_metadata e w1 p = (r2, w1)"
          using get_video_metadata_world[of e w1 p] by (cases "get_video_metadata e w1 p") simp
        show ?thesis
        proof (cases r2)
          case (Inl ex)
          then show ?thesis using early[of ex video T0 w1] T0 \<open>videos w vid = Some video\<close> c Inr yolo p m
            by (simp add: detect_objects_try_def)
        next
          case md: (Inr md)
          show ?thesis
          proof (cases "lookup_global g ''cv2''")
            case (Some ex)
            then show ?thesis
              using early[of ex video T0 w1] T0 \<open>videos w vid = Some video\<close> c Inr yolo p m md
              by (simp add: detect_objects_try_def)
          next
            case None
            then show ?thesis
              using run[of video T0 p _ w1] T0 \<open>videos w vid = Some video\<close> c Inr yolo p m md
              by (simp add: detect_objects_try_def Let_def)
          qed
        qed
      qed
    qed
  qed
qed

lemma log_shapes_values:
  "progress_log_ok cid ((cid, ''running'', 0) # map (\<lambda>p. (cid, ''running'', p)) (progress_values e s (length fns) 0 fns))"
  "progress_log_ok cid ((cid, ''running'', 0) # map (\<lambda>p. (cid, ''running'', p)) (progress_values e s (length fns) 0 fns)
                               @ [(cid, ''completed'', 100)])"
  "progress_log_ok cid ((cid, ''running'', 0) # map (\<lambda>p. (cid, ''running'', p)) (progress_values e s (length fns) 0 fns)
                               @ [(cid, ''failed'', last (0 # progress_values e s (length fns) 0 fns))])"
  using progress_values_start[of e s fns] log_shapes by blast+

lemma log_shapes_empty:
  "progress_log_ok cid []"
  "progress_log_ok cid [(cid, ''running'', 0)]"
  "progress_log_ok cid [(cid, ''running'', 0), (cid, ''failed'', 0)]"
  "progress_log_ok cid [(cid, ''running'', 0), (cid, ''completed'', 100)]"
  by (simp_all add: progress_log_ok_def)

lemma detect_objects_task_log:
  "progress_log_ok cid (writes_since w (snd (detect_objects_in_frames_task g e cid vid fns w)))
   \<and> (\<forall>s. fst (detect_objects_in_frames_task g e cid vid fns w) = Inr s \<longrightarrow>
         writes_since w (snd (detect_objects_in_frames_task g e cid vid fns w)) \<noteq> []
         \<and> last (writes_since w (snd (detect_objects_in_frames_task g e cid vid fns w)))
             = (cid, ''completed'', 100))"
proof (cases rule: detect_objects_try_cases[of g e cid vid fns w])
  case missing
  then show ?thesis
    by (simp add: detect_objects_in_frames_task_def writes_since_def log_shapes_empty)
next
  case (duplicate ex video w1)
  then show ?thesis
    by (cases ex)
       (simp_all add: detect_objects_in_frames_task_def fail_task_def writes_since_def log_shapes_empty)
next
  case (early ex video T0 w1)
  show ?thesis
  proof (cases ex)
    case VideoDoesNotExist
    with early show ?thesis
      by (simp add: detect_objects_in_frames_task_def writes_since_def log_shapes_empty)
  next
    case (Exc c m)
    with early show ?thesis
      by (simp add: detect_objects_in_frames_task_def writes_since_def fail_task_writes log_shapes_empty)
  qed
next
  case (run video T0 p fns1 w1)
  let ?RUN = "detect_objects_run e cid vid video T0 p fns1 w1"
  let ?PV = "progress_values e (case fs w1 p of Some (VideoFile c) \<Rightarrow> stream c | _ \<Rightarrow> []) (length fns1) 0 fns1"
  note wr = detect_objects_run_writes[where e=e and cid=cid and vid=vid and video=video and t=T0 and p=p and fns=fns1 and w=w1]
  note rs = detect_objects_run_result[where e=e and cid=cid and vid=vid and video=video and t=T0 and p=p and fns=fns1 and w=w1]
  have m: "map (\<lambda>(c, t). (c, t_status t, t_progress t)) (map (\<lambda>q. (cid, T0\<lparr>t_progress := q\<rparr>)) ?PV)
             = map (\<lambda>q. (cid, ''running'', q)) ?PV"
    using run(3) by (simp add: comp_def)
  show ?thesis
  proof (cases "fst ?RUN")
    case (Returned s)
    with rs obtain r where r: "tasks (snd ?RUN) cid = Some r" "t_status r = ''completed''" "t_progress r = 100"
      by auto
    from wr Returned r run(2)
    have tw: "task_writes (snd ?RUN) = task_writes w @ ((cid, T0) # map (\<lambda>q. (cid, T0\<lparr>t_progress := q\<rparr>)) ?PV @ [(cid, r)])"
      by simp
    have ws: "writes_since w (snd ?RUN)
                = (cid, ''running'', 0) # map (\<lambda>q. (cid, ''running'', q)) ?PV @ [(cid, ''completed'', 100)]"
      unfolding writes_since_append[OF tw] using m run(3,4) r by simp
    have t: "detect_objects_in_frames_task g e cid vid fns w = (Inr s, snd ?RUN)"
      using run(1) Returned by (simp add: detect_objects_in_frames_task_def split_beta)
    show ?thesis unfolding t using ws log_shapes_values(2)[where cid=cid and e=e and fns=fns1] by simp
  next
    case (Raised ex vo to)
    with rs have to: "to = Some (T0\<lparr>t_progress := last (0 # ?PV)\<rparr>)" using run(4) by simp
    from wr Raised run(2)
    have tw: "task_writes (snd ?RUN) = task_writes w @ ((cid, T0) # map (\<lambda>q. (cid, T0\<lparr>t_progress := q\<rparr>)) ?PV)"
      by simp
    show ?thesis
    proof (cases ex)
      case VideoDoesNotExist
      have t: "detect_objects_in_frames_task g e cid vid fns w = (Inl VideoDoesNotExist, snd ?RUN)"
        using run(1) Raised VideoDoesNotExist by (simp add: detect_objects_in_frames_task_def split_beta)
      have ws: "writes_since w (snd ?RUN) = (cid, ''running'', 0) # map (\<lambda>q. (cid, ''running'', q)) ?PV"
        unfolding writes_since_append[OF tw] using m run(3,4) by simp
      show ?thesis unfolding t using ws log_shapes_values(1)[where cid=cid and e=e and fns=fns1] by simp
    next
      case (Exc c m')
      let ?w' = "fail_task cid (Exc c m') to (snd ?RUN)"
      have t: "detect_objects_in_frames_task g e cid vid fns w = (Inl (Exc c m'), ?w')"
        using run(1) Raised Exc by (simp add: detect_objects_in_frames_task_def split_beta)
      have tw': "task_writes ?w' = task_writes w @ ((cid, T0) # map (\<lambda>q. (cid, T0\<lparr>t_progress := q\<rparr>)) ?PV
                   @ [(cid, T0\<lparr>t_progress := last (0 # ?PV), t_status := ''failed'',
                              t_completed_at := Some (clock (snd ?RUN)),
                              t_error_message := exn_str (Exc c m')\<rparr>)])"
        unfolding fail_task_writes tw to by simp
      have ws: "writes_since w ?w'
                  = (cid, ''running'', 0) # map (\<lambda>q. (cid, ''running'', q)) ?PV
                    @ [(cid, ''failed'', last (0 # ?PV))]"
        unfolding writes_since_append[OF tw'] using m run(3,4) by (simp del: last.simps)
      show ?thesis unfolding t using ws log_shapes_values(3)[where cid=cid and e=e and fns=fns1] by simp
    qed
  qed
qed

lemma writes_since_fail_task:
  "length (task_writes w) \<le> length (task_writes w1) \<Longrightarrow>
     writes_since w (fail_task cid ex to w1)
       = writes_since w w1 @ (case to of None \<Rightarrow> [] | Some t \<Rightarrow> [(cid, ''failed'', t_progress t)])"
  by (simp add: writes_since_def fail_task_writes split: option.splits)

lemma extract_frames_try_writes:
  "writes_since w (snd (extract_frames_try e cid vid k w)) =
     (case fst (extract_frames_try e cid vid k w) of
        Returned s \<Rightarrow> [(cid, ''running'', 0), (cid, ''completed'', 100)]
      | Raised ex vo None \<Rightarrow> []
      | Raised ex vo (Some t) \<Rightarrow> [(cid, ''running'', 0)])"
  "length (task_writes w) \<le> length (task_writes (snd (extract_frames_try e cid vid k w)))"
  "(case fst (extract_frames_try e cid vid k w) of
      Raised ex vo (Some t) \<Rightarrow> t_progress t = 0 | _ \<Rightarrow> True)"
  by (simp_all add: extract_frames_try_def writes_since_def
        ProcessingTask_create_def now_def save_task_def
        split_beta Let_def split: option.splits sum.splits)

lemma process_video_finish_cases:
  obtains
    (raised) ex w1 where
      "process_video_finish e cid vid video t out res w = (Raised ex (Some video) (Some t), w1)"
      "ex \<noteq> VideoDoesNotExist"
      "task_writes w1 = task_writes w" "tasks w1 = tasks w" "videos w1 = videos w"
      "processed_frames w1 = processed_frames w" "detected_objects w1 = detected_objects w"
      "clock w1 = clock w"
  | (returned) s w1 v' where
      "process_video_finish e cid vid video t out res w = (Returned s, w1)"
      "task_writes w1 = task_writes w
         @ [(cid, t\<lparr>t_status := ''completed'', t_completed_at := Some (clock w), t_progress := 100\<rparr>)]"
      "tasks w1 cid = Some (t\<lparr>t_status := ''completed'', t_completed_at := Some (clock w), t_progress := 100\<rparr>)"
      "videos w1 vid = Some v'" "v_status v' = ''completed''"
      "processed_frames w1 = processed_frames w" "detected_objects w1 = detected_objects w"
proof (cases "MinIOClient_init e")
  case (Some ex)
  then show ?thesis using raised[of ex w] init_exn(2)[of e]
    by (auto simp: process_video_finish_def)
next
  case None
  note minio = None
  let ?S = "\<lparr>pv_status = ''success'', pv_video_id = vid,
              pv_processed_frames = r_processed_frames res,
              pv_total_detections = sum_list (map (\<lambda>d. length (fr_objects d)) (r_detections res)),
              pv_processing_time = r_processing_time res\<rparr>"
  let ?W = "\<lambda>w2 video2.
              save_video (snd (now (save_task (snd (now w2)) cid
                         (t\<lparr>t_status := ''completed'', t_completed_at := Some (clock w2), t_progress := 100\<rparr>))))
                vid (video2\<lparr>v_status := ''completed'',
                            v_processing_completed_at := Some (clock w2 + 1)\<rparr>)"
  show ?thesis
  proof (cases "fs w out \<noteq> None")
    case False
    have eq: "process_video_finish e cid vid video t out res w = (Returned ?S, ?W w video)"
      using minio False
      by (simp add: process_video_finish_def now_def save_task_def save_video_def Let_def)
    show ?thesis
      by (rule returned[OF eq, where v' = "video\<lparr>v_status := ''completed'',
                            v_processing_completed_at := Some (clock w + 1)\<rparr>"])
         (simp_all add: now_def save_task_def save_video_def)
  next
    case True
    obtain r w2 where u: "upload_file e w out (Some ''processed-videos'') None = (r, w2)"
      by (cases "upload_file e w out (Some ''processed-videos'') None")
    have f: "videos w2 = videos w" "tasks w2 = tasks w" "processed_frames w2 = processed_frames w"
      "detected_objects w2 = detected_objects w" "task_writes w2 = task_writes w" "clock w2 = clock w"
      using upload_file_frame[of e w out "Some ''processed-videos''" None] by (simp_all add: u)
    show ?thesis
    proof (cases r)
      case (Inl ex)
      have ne: "ex \<noteq> VideoDoesNotExist"
        using upload_file_exn[of e w out "Some ''processed-videos''" None] u Inl by auto
      have eq: "process_video_finish e cid vid video t out res w = (Raised ex (Some video) (Some t), w2)"
        using minio True u Inl by (simp add: process_video_finish_def)
      show ?thesis by (rule raised[OF eq ne]) (simp_all add: f)
    next
      case (Inr key)
      let ?v1 = "video\<lparr>v_processed_minio_key := key\<rparr>"
      have eq: "process_video_finish e cid vid video t out res w
                  = (Returned ?S, ?W (save_video w2 vid ?v1) ?v1)"
        using minio True u Inr
        by (simp add: process_video_finish_def now_def save_task_def save_video_def Let_def)
      show ?thesis
        by (rule returned[OF eq, where v' = "?v1\<lparr>v_status := ''completed'',
                            v_processing_completed_at := Some (clock w + 1)\<rparr>"])
           (simp_all add: now_def save_task_def save_video_def f)
    qed
  qed
qed

lemma process_video_try_cases:
  obtains
    (missing)
      "videos w vid = None"
      "process_video_try e cid vid w = (Raised VideoDoesNotExist None None, w)"
  | (duplicate) ex video w1 where
      "tasks w cid \<noteq> None"
      "process_video_try e cid vid w = (Raised ex (Some video) None, w1)"
      "ex \<noteq> VideoDoesNotExist"
      "task_writes w1 = task_writes w"
      "processed_frames w1 = processed_frames w" "detected_objects w1 = detected_objects w"
  | (early) ex video T0 w1 where
      "tasks w cid = None"
      "process_video_try e cid vid w = (Raised ex (Some video) (Some T0), w1)"
      "ex \<noteq> VideoDoesNotExist"
      "task_writes w1 = task_writes w @ [(cid, T0)]"
      "t_status T0 = ''running''" "t_progress T0 = 0"
      "prefix (processed_frames w) (processed_frames w1)"
      "prefix (detected_objects w) (detected_objects w1)"
  | (finish) video T0 out res w1 where
      "tasks w cid = None"
      "process_video_try e cid vid w = process_video_finish e cid vid video T0 out res w1"
      "task_writes w1 = task_writes w @ [(cid, T0)]"
      "t_status T0 = ''running''" "t_progress T0 = 0"
      "prefix (processed_frames w) (processed_frames w1)"
      "prefix (detected_objects w) (detected_objects w1)"
proof (cases "videos w vid")
  case None
  then show ?thesis using missing by (simp add: process_video_try_def)
next
  case (Some video)
  note vid = Some
  obtain r w1 where c: "ProcessingTask_create w cid vid ''video_processing'' = (r, w1)"
    by (cases "ProcessingTask_create w cid vid ''video_processing''")
  note cc = ProcessingTask_create_cases[OF c]
  have w1: "processed_frames w1 = processed_frames w" "detected_objects w1 = detected_objects w"
    using c by (auto simp: ProcessingTask_create_def now_def save_task_def Let_def split: option.splits)
  show ?thesis
  proof (cases r)
    case (Inl ex)
    have ne: "ex \<noteq> VideoDoesNotExist"
      using init_exn(4)[of w cid vid "''video_processing''"] c Inl by auto
    have eq: "process_video_try e cid vid w = (Raised ex (Some video) None, w1)"
      using vid c Inl by (simp add: process_video_try_def)
    from cc Inl show ?thesis by (intro duplicate[OF _ eq ne]) (simp_all add: w1)
  next
    case (Inr T0)
    with cc have T0: "tasks w cid = None" "task_writes w1 = task_writes w @ [(cid, T0)]"
      "t_status T0 = ''running''" "t_progress T0 = 0" by simp_all
    let ?video1 = "video\<lparr>v_status := ''processing'', v_processing_started_at := Some (clock w1)\<rparr>"
    let ?w3 = "save_video (w1\<lparr>clock := Suc (clock w1)\<rparr>) vid ?video1"
    have w3: "task_writes ?w3 = task_writes w @ [(cid, T0)]"
      "processed_frames ?w3 = processed_frames w" "detected_objects ?w3 = detected_objects w"
      using T0 w1 by (simp_all add: save_video_def now_def)
    have start: "process_video_try e cid vid w =
        (case YOLOProcessor_init e of
           Some ex \<Rightarrow> (Raised ex (Some ?video1) (Some T0), ?w3)
         | None \<Rightarrow>
             (case video_file_path e ?video1 of
                Inl ex \<Rightarrow> (Raised ex (Some ?video1) (Some T0), ?w3)
              | Inr video_path \<Rightarrow>
                  (case get_video_metadata e ?w3 video_path of
                     (Inl ex, w4) \<Rightarrow> (Raised ex (Some ?video1) (Some T0), w4)
                   | (Inr md, w4) \<Rightarrow>
                       let video2 = ?video1\<lparr>v_duration := Some (md_duration md),
                                               v_frame_count := Some (md_frame_count md),
                                               v_fps := Some (md_fps md),
                                               v_resolution := md_resolution md,
                                               v_file_size := Some (md_file_size md)\<rparr>;
                           w5 = save_video w4 vid video2;
                           output_dir = path_join (MEDIA_ROOT e) ''processed_videos''
                       in (case makedirs e w5 output_dir of
                             Some ex \<Rightarrow> (Raised ex (Some video2) (Some T0), w5)
                           | None \<Rightarrow>
                               let filename = basename video_path;
                                   (name, ext) = splitext filename;
                                   output_path = path_join output_dir (''processed_'' @ name @ ext)
                               in (case process_video e w5 video_path (Some output_path) 1 of
                                     (Inl ex, w6) \<Rightarrow> (Raised ex (Some video2) (Some T0), w6)
                                   | (Inr res, w6) \<Rightarrow>
                                       (case save_frame_results vid (r_detections res) w6 of
                                          (Some ex, w7) \<Rightarrow> (Raised ex (Some video2) (Some T0), w7)
                                        | (None, w7) \<Rightarrow>
                                            process_video_finish e cid vid video2 T0 output_path res w7))))))"
      using vid c Inr by (simp add: process_video_try_def now_def Let_def)
    show ?thesis
    proof (cases "YOLOProcessor_init e")
      case (Some ex)
      have ne: "ex \<noteq> VideoDoesNotExist" using init_exn(1)[of e] Some by auto
      have eq: "process_video_try e cid vid w = (Raised ex (Some ?video1) (Some T0), ?w3)"
        unfolding start using Some by simp
      show ?thesis by (rule early[OF T0(1) eq ne w3(1) T0(3,4)]) (simp_all add: w3)
    next
      case None
      note yolo = None
      show ?thesis
      proof (cases "video_file_path e ?video1")
        case (Inl ex)
        have ne: "ex \<noteq> VideoDoesNotExist" using init_exn(3)[of e ?video1] Inl by auto
        have eq: "process_video_try e cid vid w = (Raised ex (Some ?video1) (Some T0), ?w3)"
          unfolding start using yolo Inl by simp
        show ?thesis by (rule early[OF T0(1) eq ne w3(1) T0(3,4)]) (simp_all add: w3)
      next
        case p: (Inr p)
        obtain r2 where m: "get_video_metadata e ?w3 p = (r2, ?w3)"
          using get_video_metadata_world[of e ?w3 p] by (cases "get_video_metadata e ?w3 p") simp
        show ?thesis
        proof (cases r2)
          case (Inl ex)
          have ne: "ex \<noteq> VideoDoesNotExist" using get_video_metadata_exn[of e ?w3 p] m Inl by auto
          have eq: "process_video_try e cid vid w = (Raised ex (Some ?video1) (Some T0), ?w3)"
            unfolding start using yolo p m Inl by simp
          show ?thesis by (rule early[OF T0(1) eq ne w3(1) T0(3,4)]) (simp_all add: w3)
        next
          case md: (Inr md)
          let ?video2 = "?video1\<lparr>v_duration := Some (md_duration md),
                                   v_frame_count := Some (md_frame_count md),
                                   v_fps := Some (md_fps md),
                                   v_resolution := md_resolution md,
                                   v_file_size := Some (md_file_size md)\<rparr>"
          let ?w5 = "save_video ?w3 vid ?video2"
          let ?out = "path_join (path_join (MEDIA_ROOT e) ''processed_videos'')
                        (''processed_'' @ fst (splitext (basename p)) @ snd (splitext (basename p)))"
          have w5: "task_writes ?w5 = task_writes w @ [(cid, T0)]"
            "processed_frames ?w5 = processed_frames w" "detected_objects ?w5 = detected_objects w"
            using w3 by (simp_all add: save_video_def)
          show ?thesis
          proof (cases "makedirs e ?w5 (path_join (MEDIA_ROOT e) ''processed_videos'')")
            case (Some ex)
            have ne: "ex \<noteq> VideoDoesNotExist"
              using makedirs_exn[of e ?w5 "path_join (MEDIA_ROOT e) ''processed_videos''"] Some by auto
            have eq: "process_video_try e cid vid w = (Raised ex (Some ?video2) (Some T0), ?w5)"
              unfolding start
              by (simp only: yolo p m md Some Let_def case_prod_beta option.case sum.case prod.case
                    fst_conv snd_conv)
            show ?thesis by (rule early[OF T0(1) eq ne w5(1) T0(3,4)]) (simp_all only: w5 prefix_order.order_refl)
          next
            case mk: None
            obtain r3 w6 where pv: "process_video e ?w5 p (Some ?out) 1 = (r3, w6)"
              by (cases "process_video e ?w5 p (Some ?out) 1")
            have w6s: "w6 = snd (process_video e ?w5 p (Some ?out) 1)" by (simp only: pv snd_conv)
            have w6: "task_writes w6 = task_writes w @ [(cid, T0)]"
              "processed_frames w6 = processed_frames w" "detected_objects w6 = detected_objects w"
              unfolding w6s process_video_frame by (fact w5)+
            have mid: "process_video_try e cid vid w =
               (case r3 of
                  Inl ex \<Rightarrow> (Raised ex (Some ?video2) (Some T0), w6)
                | Inr res \<Rightarrow>
                    (case save_frame_results vid (r_detections res) w6 of
                       (Some ex, w7) \<Rightarrow> (Raised ex (Some ?video2) (Some T0), w7)
                     | (None, w7) \<Rightarrow> process_video_finish e cid vid ?video2 T0 ?out res w7))"
              unfolding start
              by (simp only: yolo p m md mk pv Let_def case_prod_beta option.case sum.case prod.case
                    fst_conv snd_conv)
            show ?thesis
            proof (cases r3)
              case (Inl ex)
              have ne: "ex \<noteq> VideoDoesNotExist"
                using process_video_exn[of e ?w5 p "Some ?out" 1] pv Inl by auto
              have eq: "process_video_try e cid vid w = (Raised ex (Some ?video2) (Some T0), w6)"
                unfolding mid using Inl by simp
              show ?thesis by (rule early[OF T0(1) eq ne w6(1) T0(3,4)]) (simp_all add: w6)
            next
              case res: (Inr res)
              obtain r4 w7 where sf: "save_frame_results vid (r_detections res) w6 = (r4, w7)"
                by (cases "save_frame_results vid (r_detections res) w6")
              have w7s: "w7 = snd (save_frame_results vid (r_detections res) w6)"
                by (simp only: sf snd_conv)
              have w7: "task_writes w7 = task_writes w @ [(cid, T0)]"
                "prefix (processed_frames w) (processed_frames w7)"
                "prefix (detected_objects w) (detected_objects w7)"
                using save_frame_results_all[of vid "r_detections res" w6]
                unfolding w7s save_frame_results_frame w6 by blast+
              show ?thesis
              proof (cases r4)
                case (Some ex)
                have ne: "ex \<noteq> VideoDoesNotExist"
                  using save_frame_results_exn[of vid "r_detections res" w6] sf Some by auto
                have eq: "process_video_try e cid vid w = (Raised ex (Some ?video2) (Some T0), w7)"
                  unfolding mid using res sf Some by simp
                show ?thesis by (rule early[OF T0(1) eq ne w7(1) T0(3,4) w7(2,3)])
              next
                case None
                have eq: "process_video_try e cid vid w
                            = process_video_finish e cid vid ?video2 T0 ?out res w7"
                  unfolding mid using res sf None by simp
                show ?thesis by (rule finish[OF T0(1) eq w7(1) T0(3,4) w7(2,3)])
              qed
            qed
          qed
        qed
      qed
    qed
  qed
qed

subsection \<open>The handlers\<close>

lemma process_video_task_raised:
  assumes "process_video_try e cid vid w = (Raised ex vo to, w1)" and "ex \<noteq> VideoDoesNotExist"
  shows "process_video_task e cid vid w = (Inl ex, fail_video vid ex vo (fail_task cid ex to w1))"
  using assms by (cases ex) (simp_all add: process_video_task_def)

lemma process_video_task_returned:
  assumes "process_video_try e cid vid w = (Returned s, w1)"
  shows "process_video_task e cid vid w = (Inr s, w1)"
  using assms by (simp add: process_video_task_def)

lemma fail_video_frame [simp]:
  "tasks (fail_video vid ex vo w) = tasks w"
  "task_writes (fail_video vid ex vo w) = task_writes w"
  "processed_frames (fail_video vid ex vo w) = processed_frames w"
  "detected_objects (fail_video vid ex vo w) = detected_objects w"
  "videos (fail_video vid ex (Some video) w) vid
     = Some (video\<lparr>v_status := ''failed'', v_error_message := exn_str ex\<rparr>)"
  by (simp_all add: fail_video_def save_video_def split: option.splits)

lemma fail_task_result [simp]:
  "tasks (fail_task cid ex (Some t) w) cid
     = Some (t\<lparr>t_status := ''failed'', t_completed_at := Some (clock w), t_error_message := exn_str ex\<rparr>)"
  "fail_task cid ex None w = w"
  by (simp_all add: fail_task_def now_def save_task_def)

text \<open>
  Claim C2. When \<open>process_video_task\<close> ends with an error although the video exists and
  the task id is new, the error was raised in the \<open>try\<close> block with both \<open>video\<close> and
  \<open>task_record\<close> bound. Then the task's record is the local record with status \<open>failed\<close>,
  \<open>completed_at\<close> the time read by the handler, and \<open>error_message\<close> the string of the
  error; the video's record is the local video with status \<open>failed\<close> and the same
  \<open>error_message\<close>; and the \<open>ProcessedFrame\<close> and \<open>DetectedObject\<close> tables are what they
  were when the error was raised, which extends what they were before the task ran.
\<close>

theorem process_video_task_failure:
  assumes "videos w vid = Some v" and "tasks w cid = None"
    and "fst (process_video_task e cid vid w) = Inl ex"
  shows "\<exists>video task_record w1.
           process_video_try e cid vid w = (Raised ex (Some video) (Some task_record), w1)
         \<and> tasks (snd (process_video_task e cid vid w)) cid
             = Some (task_record\<lparr>t_status := ''failed'', t_completed_at := Some (clock w1),
                                  t_error_message := exn_str ex\<rparr>)
         \<and> videos (snd (process_video_task e cid vid w)) vid
             = Some (video\<lparr>v_status := ''failed'', v_error_message := exn_str ex\<rparr>)
         \<and> processed_frames (snd (process_video_task e cid vid w)) = processed_frames w1
         \<and> detected_objects (snd (process_video_task e cid vid w)) = detected_objects w1
         \<and> prefix (processed_frames w) (processed_frames w1)
         \<and> prefix (detected_objects w) (detected_objects w1)"
proof -
  have handler: ?thesis
    if eq: "process_video_try e cid vid w = (Raised ex' (Some video) (Some T0), w1)"
      and ne: "ex' \<noteq> VideoDoesNotExist"
      and pf: "prefix (processed_frames w) (processed_frames w1)"
      and dob: "prefix (detected_objects w) (detected_objects w1)"
    for ex' video T0 w1
  proof -
    note t = process_video_task_raised[OF eq ne]
    from t assms(3) have ex: "ex' = ex" by simp
    show ?thesis
      using eq pf dob unfolding t ex
      by (intro exI[of _ video] exI[of _ T0] exI[of _ w1]) simp
  qed
  show ?thesis
  proof (cases rule: process_video_try_cases[of w vid e cid])
    case missing
    with assms(1) show ?thesis by simp
  next
    case (duplicate ex' video w1)
    with assms(2) show ?thesis by simp
  next
    case (early ex' video T0 w1)
    then show ?thesis by (intro handler[of ex' video T0 w1])
  next
    case (finish video T0 out res w1)
    show ?thesis
    proof (cases rule: process_video_finish_cases[of e cid vid video T0 out res w1])
      case (raised ex' w2)
      show ?thesis
        using finish raised by (intro handler[of ex' video T0 w2]) simp_all
    next
      case (returned s w2 v')
      with finish(2) have "process_video_try e cid vid w = (Returned s, w2)" by simp
      from process_video_task_returned[OF this] assms(3) show ?thesis by simp
    qed
  qed
qed

lemma rerun_world_fields:
  "fs rerun_world = [''/srv/media/videos/clip.mp4'' \<mapsto> VideoFile ten_frames]"
  "blobs rerun_world = Map.empty"
  "videos rerun_world = [''v1'' \<mapsto> ex_video]"
  "tasks rerun_world = Map.empty"
  "processed_frames rerun_world =
     [\<lparr>pf_video = ''v1'', pf_frame_number = 3, pf_objects_detected = 1,
       pf_processing_time = Some (1 / 100), pf_minio_key = []\<rparr>]"
  "detected_objects rerun_world = []"
  "task_writes rerun_world = []"
  "clock rerun_world = 100"
  "open_handles rerun_world = 0"
  "draws rerun_world = 0"
  by (simp_all add: rerun_world_def ex_world_def)

lemma ex_video_path_processing:
  "video_file_path ex_env (ex_video\<lparr>v_status := s, v_processing_started_at := t\<rparr>)
     = Inr ''/srv/media/videos/clip.mp4''"
  by (simp add: video_file_path_def ex_env_fields ex_video_def path_join_def)

lemma rerun_eval:
  "fst (process_video_task ex_env ''celery-1'' ''v1'' rerun_world)
     = Inl (Exc ''IntegrityError''
             ''UNIQUE constraint failed: video_app_processedframe.video_id, video_app_processedframe.frame_number'')"
  "map pf_frame_number (processed_frames (snd (process_video_task ex_env ''celery-1'' ''v1'' rerun_world)))
     = [3, 0, 1, 2]"
  "map do_frame_number (detected_objects (snd (process_video_task ex_env ''celery-1'' ''v1'' rerun_world)))
     = [0, 1, 2]"
  by (simp_all add: process_video_task_def process_video_try_def ProcessingTask_create_def
        now_def save_task_def save_video_def YOLOProcessor_init_def ex_video_path_processing
        ex_metadata_ten process_video_def duration_of_eq py_mod_def process_frame_ex
        draw_detections_def written_video_def ProcessedFrame_create_def DetectedObject_create_def
        fail_task_def fail_video_def Let_def acquire_def release_def py_int_def
        basename_def rfind_def splitext_def path_join_def makedirs_def
        rerun_world_fields ex_env_fields ten_frames_def)

text \<open>
  A second run on a video that already has a \<open>ProcessedFrame\<close> row for frame 3: the rows
  for frames 0, 1 and 2 and their objects are inserted, the insert for frame 3 fails, and
  the three new rows stay; task and video are \<open>failed\<close> with the error's message.
\<close>

theorem process_video_task_failure_witness:
  "videos rerun_world ''v1'' = Some ex_video \<and> tasks rerun_world ''celery-1'' = None
   \<and> fst (process_video_task ex_env ''celery-1'' ''v1'' rerun_world)
       = Inl (Exc ''IntegrityError''
               ''UNIQUE constraint failed: video_app_processedframe.video_id, video_app_processedframe.frame_number'')
   \<and> map_option t_status (tasks (snd (process_video_task ex_env ''celery-1'' ''v1'' rerun_world)) ''celery-1'')
       = Some ''failed''
   \<and> map_option t_error_message (tasks (snd (process_video_task ex_env ''celery-1'' ''v1'' rerun_world)) ''celery-1'')
       = Some ''UNIQUE constraint failed: video_app_processedframe.video_id, video_app_processedframe.frame_number''
   \<and> map_option v_status (videos (snd (process_video_task ex_env ''celery-1'' ''v1'' rerun_world)) ''v1'')
       = Some ''failed''
   \<and> map pf_frame_number (processed_frames (snd (process_video_task ex_env ''celery-1'' ''v1'' rerun_world)))
       = [3, 0, 1, 2]
   \<and> map do_frame_number (detected_objects (snd (process_video_task ex_env ''celery-1'' ''v1'' rerun_world)))
       = [0, 1, 2]"
proof -
  have h1: "videos rerun_world ''v1'' = Some ex_video" by (simp add: rerun_world_fields)
  have h2: "tasks rerun_world ''celery-1'' = None" by (simp add: rerun_world_fields)
  let ?w' = "snd (process_video_task ex_env ''celery-1'' ''v1'' rerun_world)"
  from process_video_task_failure[OF h1 h2 rerun_eval(1)]
  have "map_option t_status (tasks ?w' ''celery-1'') = Some ''failed''
        \<and> map_option t_error_message (tasks ?w' ''celery-1'')
            = Some ''UNIQUE constraint failed: video_app_processedframe.video_id, video_app_processedframe.frame_number''
        \<and> map_option v_status (videos ?w' ''v1'') = Some ''failed''"
    by (elim exE conjE) simp
  then show ?thesis using h1 h2 rerun_eval by simp
qed

subsection \<open>The progress log of each task\<close>

lemma process_video_task_log:
  "progress_log_ok cid (writes_since w (snd (process_video_task e cid vid w)))
   \<and> (\<forall>s. fst (process_video_task e cid vid w) = Inr s \<longrightarrow>
         writes_since w (snd (process_video_task e cid vid w)) \<noteq> []
         \<and> last (writes_since w (snd (process_video_task e cid vid w))) = (cid, ''completed'', 100))"
proof -
  have handler: ?thesis
    if eq: "process_video_try e cid vid w = (Raised ex (Some video) (Some T0), w1)"
      and ne: "ex \<noteq> VideoDoesNotExist"
      and tw: "task_writes w1 = task_writes w @ [(cid, T0)]"
      and T0: "t_status T0 = ''running''" "t_progress T0 = 0"
    for ex video T0 w1
  proof -
    note t = process_video_task_raised[OF eq ne]
    have "task_writes (snd (process_video_task e cid vid w))
            = task_writes w @ [(cid, T0), (cid, T0\<lparr>t_status := ''failed'', t_completed_at := Some (clock w1),
                                                  t_error_message := exn_str ex\<rparr>)]"
      unfolding t by (simp add: fail_task_writes tw)
    from writes_since_append[OF this] T0 show ?thesis
      unfolding t by (simp add: log_shapes_empty)
  qed
  show ?thesis
  proof (cases rule: process_video_try_cases[of w vid e cid])
    case missing
    then show ?thesis
      by (simp add: process_video_task_def writes_since_def log_shapes_empty)
  next
    case (duplicate ex video w1)
    note t = process_video_task_raised[OF duplicate(2,3)]
    show ?thesis unfolding t using duplicate(4)
      by (simp add: writes_since_def log_shapes_empty)
  next
    case (early ex video T0 w1)
    then show ?thesis by (intro handler[of ex video T0 w1])
  next
    case (finish video T0 out res w1)
    show ?thesis
    proof (cases rule: process_video_finish_cases[of e cid vid video T0 out res w1])
      case (raised ex w2)
      show ?thesis
        using finish raised by (intro handler[of ex video T0 w2]) simp_all
    next
      case (returned s w2 v')
      with finish(2) have "process_video_try e cid vid w = (Returned s, w2)" by simp
      note t = process_video_task_returned[OF this]
      have "task_writes w2 = task_writes w @ [(cid, T0),
              (cid, T0\<lparr>t_status := ''completed'', t_completed_at := Some (clock w1), t_progress := 100\<rparr>)]"
        using returned(2) finish(3) by simp
      from writes_since_append[OF this] finish(4,5) show ?thesis
        unfolding t by (simp add: log_shapes_empty)
    qed
  qed
qed

lemma extract_frames_task_log:
  "progress_log_ok cid (writes_since w (snd (extract_frames_task e cid vid k w)))
   \<and> (\<forall>s. fst (extract_frames_task e cid vid k w) = Inr s \<longrightarrow>
         writes_since w (snd (extract_frames_task e cid vid k w)) \<noteq> []
         \<and> last (writes_since w (snd (extract_frames_task e cid vid k w))) = (cid, ''completed'', 100))"
proof -
  let ?R = "extract_frames_try e cid vid k w"
  note ws = extract_frames_try_writes(1)[of w e cid vid k]
  note len = extract_frames_try_writes(2)[of w e cid vid k]
  note pr = extract_frames_try_writes(3)[of e cid vid k w]
  show ?thesis
  proof (cases "fst ?R")
    case (Returned s)
    then have t: "extract_frames_task e cid vid k w = (Inr s, snd ?R)"
      by (simp add: extract_frames_task_def split_beta)
    show ?thesis unfolding t using ws Returned by (simp add: log_shapes_empty)
  next
    case (Raised ex vo to)
    show ?thesis
    proof (cases ex)
      case VideoDoesNotExist
      with Raised have t: "extract_frames_task e cid vid k w = (Inl VideoDoesNotExist, snd ?R)"
        by (simp add: extract_frames_task_def split_beta)
      show ?thesis unfolding t using ws Raised by (cases to) (simp_all add: log_shapes_empty)
    next
      case (Exc c m)
      with Raised have t: "extract_frames_task e cid vid k w
                             = (Inl (Exc c m), fail_task cid (Exc c m) to (snd ?R))"
        by (simp add: extract_frames_task_def split_beta)
      show ?thesis unfolding t using ws pr Raised writes_since_fail_task[OF len, of cid "Exc c m" to]
        by (cases to) (simp_all add: log_shapes_empty)
    qed
  qed
qed

text \<open>
  Claim C7. Whatever the module's names, the environment and the state: every version of
  a \<open>ProcessingTask\<close> record that one run of a task writes is a version of that run's own
  record, with a progress between 0 and 100 that is never lower than the one written
  before, and every version with status \<open>completed\<close> has progress 100. When the task
  returns, the last version written has status \<open>completed\<close> and progress 100. This holds
  for each of the three tasks. (The quotient \<open>(i + 1) / len(frame_numbers)\<close> is taken in
  the reals.)
\<close>

theorem progress_monotone:
  "(progress_log_ok cid (writes_since w (snd (process_video_task e cid vid w)))
    \<and> (\<forall>s. fst (process_video_task e cid vid w) = Inr s \<longrightarrow>
          writes_since w (snd (process_video_task e cid vid w)) \<noteq> []
          \<and> last (writes_since w (snd (process_video_task e cid vid w))) = (cid, ''completed'', 100)))
   \<and> (progress_log_ok cid (writes_since w (snd (extract_frames_task e cid vid k w)))
    \<and> (\<forall>s. fst (extract_frames_task e cid vid k w) = Inr s \<longrightarrow>
          writes_since w (snd (extract_frames_task e cid vid k w)) \<noteq> []
          \<and> last (writes_since w (snd (extract_frames_task e cid vid k w))) = (cid, ''completed'', 100)))
   \<and> (progress_log_ok cid (writes_since w (snd (detect_objects_in_frames_task g e cid vid fns w)))
    \<and> (\<forall>s. fst (detect_objects_in_frames_task g e cid vid fns w) = Inr s \<longrightarrow>
          writes_since w (snd (detect_objects_in_frames_task g e cid vid fns w)) \<noteq> []
          \<and> last (writes_since w (snd (detect_objects_in_frames_task g e cid vid fns w)))
              = (cid, ''completed'', 100)))"
  by (intro conjI process_video_task_log[THEN conjunct1] process_video_task_log[THEN conjunct2]
        extract_frames_task_log[THEN conjunct1] extract_frames_task_log[THEN conjunct2]
        detect_objects_task_log[THEN conjunct1] detect_objects_task_log[THEN conjunct2])

lemma spot_detect_log:
  "fst (detect_objects_in_frames_task (''cv2'' # tasks_globals) ex_env ''celery-1'' ''v1''
          (Some [0, 2, 999999, 4]) ex_world)
     = Inr \<lparr>od_status = ''success'', od_video_id = ''v1'', od_processed_frames = 4,
             od_detections_count = 3\<rparr>"
  "writes_since ex_world
     (snd (detect_objects_in_frames_task (''cv2'' # tasks_globals) ex_env ''celery-1'' ''v1''
             (Some [0, 2, 999999, 4]) ex_world))
     = [(''celery-1'', ''running'', 0), (''celery-1'', ''running'', 25), (''celery-1'', ''running'', 50),
        (''celery-1'', ''running'', 100), (''celery-1'', ''completed'', 100)]"
  by (simp_all add: detect_objects_in_frames_task_def detect_objects_try_def detect_objects_run_def
        ProcessingTask_create_def writes_since_def
        now_def save_task_def YOLOProcessor_init_def ex_video_path ex_metadata_ten
        lookup_global_def fail_task_def Let_def acquire_def release_def
        read_frame_at_def process_frame_ex DetectedObject_create_def py_truediv_def py_int_def
        ex_world_fields ex_env_fields ten_frames_def)

text \<open>
  Detection on the frames 0, 2, 999999 and 4 of the ten-frame video, in a module with
  \<open>cv2\<close>: the record is written with progress 0, 25, 50 and 100 (frame 999999 is not
  read, and nothing is written for it), and at last as \<open>completed\<close> with 100.
\<close>

theorem progress_monotone_witness:
  "fst (detect_objects_in_frames_task (''cv2'' # tasks_globals) ex_env ''celery-1'' ''v1''
          (Some [0, 2, 999999, 4]) ex_world)
     = Inr \<lparr>od_status = ''success'', od_video_id = ''v1'', od_processed_frames = 4,
             od_detections_count = 3\<rparr>
   \<and> writes_since ex_world
       (snd (detect_objects_in_frames_task (''cv2'' # tasks_globals) ex_env ''celery-1'' ''v1''
               (Some [0, 2, 999999, 4]) ex_world))
     = [(''celery-1'', ''running'', 0), (''celery-1'', ''running'', 25), (''celery-1'', ''running'', 50),
        (''celery-1'', ''running'', 100), (''celery-1'', ''completed'', 100)]
   \<and> progress_log_ok ''celery-1''
        [(''celery-1'', ''running'', 0), (''celery-1'', ''running'', 25), (''celery-1'', ''running'', 50),
         (''celery-1'', ''running'', 100), (''celery-1'', ''completed'', 100)]"
proof -
  note t = progress_monotone[of "''celery-1''" ex_world ex_env "''v1''" 1 "''cv2'' # tasks_globals"
             "Some [0, 2, 999999, 4]"]
  from t have "progress_log_ok ''celery-1''
      (writes_since ex_world
        (snd (detect_objects_in_frames_task (''cv2'' # tasks_globals) ex_env ''celery-1'' ''v1''
                (Some [0, 2, 999999, 4]) ex_world)))"
    by simp
  then have "progress_log_ok ''celery-1''
        [(''celery-1'', ''running'', 0), (''celery-1'', ''running'', 25), (''celery-1'', ''running'', 50),
         (''celery-1'', ''running'', 100), (''celery-1'', ''completed'', 100)]"
    unfolding spot_detect_log(2) .
  with spot_detect_log show ?thesis by (intro conjI)
qed

subsection \<open>The video record and the three tasks\<close>

text \<open>
  Claim C8. \<open>extract_frames_task\<close> and \<open>detect_objects_in_frames_task\<close> leave the table
  of videos as it was, whether they return or raise, and so every field of the owning
  video; they leave the \<open>ProcessedFrame\<close> table and the records of all other tasks as they
  were; extraction leaves the \<open>DetectedObject\<close> table as it was and detection only
  appends to it. \<open>process_video_task\<close>, for a video that exists, leaves the video with
  status \<open>completed\<close> when it returns and \<open>failed\<close> when it raises.
\<close>

theorem secondary_tasks_leave_video:
  "videos (snd (extract_frames_task e cid vid k w)) = videos w
   \<and> processed_frames (snd (extract_frames_task e cid vid k w)) = processed_frames w
   \<and> detected_objects (snd (extract_frames_task e cid vid k w)) = detected_objects w
   \<and> (\<forall>c. c \<noteq> cid \<longrightarrow> tasks (snd (extract_frames_task e cid vid k w)) c = tasks w c)
   \<and> videos (snd (detect_objects_in_frames_task g e cid vid fns w)) = videos w
   \<and> processed_frames (snd (detect_objects_in_frames_task g e cid vid fns w)) = processed_frames w
   \<and> prefix (detected_objects w) (detected_objects (snd (detect_objects_in_frames_task g e cid vid fns w)))
   \<and> (\<forall>c. c \<noteq> cid \<longrightarrow> tasks (snd (detect_objects_in_frames_task g e cid vid fns w)) c = tasks w c)
   \<and> (\<forall>v. videos w vid = Some v \<longrightarrow>
         map_option v_status (videos (snd (process_video_task e cid vid w)) vid)
           = Some (if isl (fst (process_video_task e cid vid w)) then ''failed'' else ''completed''))"
proof (intro conjI allI impI)
  fix v assume v: "videos w vid = Some v"
  have handler:
    "map_option v_status (videos (snd (process_video_task e cid vid w)) vid)
       = Some (if isl (fst (process_video_task e cid vid w)) then ''failed'' else ''completed'')"
    if eq: "process_video_try e cid vid w = (Raised ex (Some video) to, w1)"
      and ne: "ex \<noteq> VideoDoesNotExist"
    for ex video to w1
    unfolding process_video_task_raised[OF eq ne] by simp
  show "map_option v_status (videos (snd (process_video_task e cid vid w)) vid)
          = Some (if isl (fst (process_video_task e cid vid w)) then ''failed'' else ''completed'')"
  proof (cases rule: process_video_try_cases[of w vid e cid])
    case missing
    with v show ?thesis by simp
  next
    case (duplicate ex video w1)
    then show ?thesis by (intro handler[of ex video None w1])
  next
    case (early ex video T0 w1)
    then show ?thesis by (intro handler[of ex video "Some T0" w1])
  next
    case (finish video T0 out res w1)
    show ?thesis
    proof (cases rule: process_video_finish_cases[of e cid vid video T0 out res w1])
      case (raised ex w2)
      show ?thesis using finish raised by (intro handler[of ex video "Some T0" w2]) simp_all
    next
      case (returned s w2 v')
      with finish(2) have "process_video_try e cid vid w = (Returned s, w2)" by simp
      from process_video_task_returned[OF this] returned(4,5) show ?thesis by simp
    qed
  qed
qed (simp_all add: extract_frames_task_frame detect_objects_task_frame)

text \<open>
  On the state with an earlier run's row, where \<open>process_video_task\<close> fails: extraction
  and detection leave the video \<open>pending\<close> as it was and write no record under another
  task's id, and \<open>process_video_task\<close> leaves the video \<open>failed\<close>.
\<close>

theorem secondary_tasks_leave_video_witness:
  "videos (snd (extract_frames_task ex_env ''celery-1'' ''v1'' 3 rerun_world)) ''v1'' = Some ex_video
   \<and> tasks (snd (extract_frames_task ex_env ''celery-1'' ''v1'' 3 rerun_world)) ''celery-0'' = None
   \<and> videos (snd (detect_objects_in_frames_task tasks_globals ex_env ''celery-1'' ''v1'' None rerun_world)) ''v1''
       = Some ex_video
   \<and> tasks (snd (detect_objects_in_frames_task tasks_globals ex_env ''celery-1'' ''v1'' None rerun_world)) ''celery-0''
       = None
   \<and> v_status ex_video = ''pending''
   \<and> map_option v_status (videos (snd (process_video_task ex_env ''celery-1'' ''v1'' rerun_world)) ''v1'')
       = Some ''failed''"
  using secondary_tasks_leave_video[where e = ex_env and cid = "''celery-1''" and vid = "''v1''"
          and k = 3 and w = rerun_world and g = tasks_globals and fns = None]
        rerun_eval(1)
  by (simp add: rerun_world_fields ex_video_def)

subsection \<open>Detection in the module as it is\<close>

lemma detect_objects_try_deployed:
  "\<exists>ex vo to w1. detect_objects_try tasks_globals e cid vid fns w = (Raised ex vo to, w1)"
proof (cases rule: detect_objects_try_cases[of tasks_globals e cid vid fns w])
  case (run video T0 p fns1 w1)
  show ?thesis
    by (simp add: detect_objects_try_def lookup_global_def tasks_globals_def split_beta Let_def
          split: option.splits sum.splits)
qed blast+

text \<open>
  Claim C1. The module \<open>tasks\<close> does not import \<open>cv2\<close>, so the statement
  \<open>cap = cv2.VideoCapture(...)\<close> raises \<open>NameError\<close> whenever it is reached. Hence
  \<open>detect_objects_in_frames_task\<close> of the repository never returns: whatever the video
  and the frame numbers, it ends with an exception. For the ten-frame video and the frame
  numbers 0 and 999999 the exception is that \<open>NameError\<close>, the task's record ends as
  \<open>failed\<close> and no detection is stored. (In a module that has \<open>cv2\<close> the same call skips
  frame 999999, stores the detection of frame 0 and ends as \<open>completed\<close>, which is
  \<open>spot_detect_with_cv2\<close>.)
\<close>

theorem spot_detect_deployed:
  "isl (fst (detect_objects_in_frames_task tasks_globals e cid vid fns w))
   \<and> (let (r, w') = detect_objects_in_frames_task tasks_globals ex_env ''celery-1'' ''v1''
                       (Some [0, 999999]) ex_world
      in r = Inl (Exc ''NameError'' (''name '' @ [CHR 0x27] @ ''cv2'' @ [CHR 0x27] @ '' is not defined''))
         \<and> map_option t_status (tasks w' ''celery-1'') = Some ''failed''
         \<and> detected_objects w' = [])"
proof
  from detect_objects_try_deployed[of e cid vid fns w]
  obtain ex vo to w1 where "detect_objects_try tasks_globals e cid vid fns w = (Raised ex vo to, w1)"
    by blast
  then show "isl (fst (detect_objects_in_frames_task tasks_globals e cid vid fns w))"
    by (cases ex) (simp_all add: detect_objects_in_frames_task_def)
  show "let (r, w') = detect_objects_in_frames_task tasks_globals ex_env ''celery-1'' ''v1''
                       (Some [0, 999999]) ex_world
      in r = Inl (Exc ''NameError'' (''name '' @ [CHR 0x27] @ ''cv2'' @ [CHR 0x27] @ '' is not defined''))
         \<and> map_option t_status (tasks w' ''celery-1'') = Some ''failed''
         \<and> detected_objects w' = []"
    by (simp add: detect_objects_in_frames_task_def detect_objects_try_def detect_objects_run_def
          ProcessingTask_create_def
          now_def save_task_def YOLOProcessor_init_def ex_video_path ex_metadata_ten
          lookup_global_def tasks_globals_def fail_task_def Let_def
          ex_world_fields ex_env_fields)
qed

end
